theory Spec2Isabelle
  imports Complex_Main "HOL-Library.Stream" "HOL-Library.Multiset"
begin

section \<open>Float tensors\<close>

text \<open>
  The optimizers compute on \<^verbatim>\<open>float32\<close> tensors. A tensor element is modelled as a real
  number or one of the three non-finite values of IEEE 754. The operations give the IEEE
  result on non-finite arguments and at a zero divisor (TensorFlow does not raise there: it
  yields an infinity or NaN and goes on), and the exact real result otherwise: rounding,
  overflow to infinity and the sign of zero are not modelled (a zero divisor counts as
  \<open>+0\<close>, which is what the divisors of the source are when they vanish).
\<close>

datatype tf_float = Fin real | PInf | NInf | NaN

fun is_neg :: "tf_float \<Rightarrow> bool" where
  "is_neg (Fin a) = (a < 0)"
| "is_neg NInf = True"
| "is_neg PInf = False"
| "is_neg NaN = False"

fun is_zero :: "tf_float \<Rightarrow> bool" where
  "is_zero (Fin a) = (a = 0)"
| "is_zero PInf = False"
| "is_zero NInf = False"
| "is_zero NaN = False"

fun is_finite :: "tf_float \<Rightarrow> bool" where
  "is_finite (Fin a) = True"
| "is_finite PInf = False"
| "is_finite NInf = False"
| "is_finite NaN = False"

definition signed_inf :: "bool \<Rightarrow> tf_float" where
  "signed_inf neg = (if neg then NInf else PInf)"

fun fneg :: "tf_float \<Rightarrow> tf_float" where
  "fneg (Fin a) = Fin (- a)"
| "fneg PInf = NInf"
| "fneg NInf = PInf"
| "fneg NaN = NaN"

fun fadd :: "tf_float \<Rightarrow> tf_float \<Rightarrow> tf_float" where
  "fadd (Fin a) (Fin b) = Fin (a + b)"
| "fadd NaN y = NaN"
| "fadd x NaN = NaN"
| "fadd PInf NInf = NaN"
| "fadd NInf PInf = NaN"
| "fadd PInf y = PInf"
| "fadd NInf y = NInf"
| "fadd x PInf = PInf"
| "fadd x NInf = NInf"

fun fmul :: "tf_float \<Rightarrow> tf_float \<Rightarrow> tf_float" where
  "fmul (Fin a) (Fin b) = Fin (a * b)"
| "fmul NaN y = NaN"
| "fmul x NaN = NaN"
| "fmul x y = (if is_zero x \<or> is_zero y then NaN else signed_inf (is_neg x \<noteq> is_neg y))"

fun fdiv :: "tf_float \<Rightarrow> tf_float \<Rightarrow> tf_float" where
  "fdiv (Fin a) (Fin b) =
     (if b \<noteq> 0 then Fin (a / b) else if a = 0 then NaN else signed_inf (a < 0))"
| "fdiv NaN y = NaN"
| "fdiv x NaN = NaN"
| "fdiv (Fin a) y = Fin 0"
| "fdiv x (Fin b) = signed_inf (is_neg x \<noteq> (b < 0))"
| "fdiv x y = NaN"

fun fabs :: "tf_float \<Rightarrow> tf_float" where
  "fabs (Fin a) = Fin \<bar>a\<bar>"
| "fabs PInf = PInf"
| "fabs NInf = PInf"
| "fabs NaN = NaN"

text \<open>Comparisons: every comparison with NaN is false.\<close>

fun flt :: "tf_float \<Rightarrow> tf_float \<Rightarrow> bool" where
  "flt (Fin a) (Fin b) = (a < b)"
| "flt NaN y = False"
| "flt x NaN = False"
| "flt x NInf = False"
| "flt PInf y = False"
| "flt x y = True"

fun fle :: "tf_float \<Rightarrow> tf_float \<Rightarrow> bool" where
  "fle (Fin a) (Fin b) = (a \<le> b)"
| "fle NaN y = False"
| "fle x NaN = False"
| "fle NInf y = True"
| "fle x PInf = True"
| "fle x y = False"

instantiation tf_float :: "{zero, one, plus, minus, uminus, times, inverse, abs, ord}"
begin

definition zero_tf_float :: tf_float where "zero_tf_float = Fin 0"
definition one_tf_float :: tf_float where "one_tf_float = Fin 1"
definition plus_tf_float :: "tf_float \<Rightarrow> tf_float \<Rightarrow> tf_float" where
  "plus_tf_float x y = fadd x y"
definition uminus_tf_float :: "tf_float \<Rightarrow> tf_float" where
  "uminus_tf_float x = fneg x"
definition minus_tf_float :: "tf_float \<Rightarrow> tf_float \<Rightarrow> tf_float" where
  "minus_tf_float x y = fadd x (fneg y)"
definition times_tf_float :: "tf_float \<Rightarrow> tf_float \<Rightarrow> tf_float" where
  "times_tf_float x y = fmul x y"
definition divide_tf_float :: "tf_float \<Rightarrow> tf_float \<Rightarrow> tf_float" where
  "divide_tf_float x y = fdiv x y"
definition inverse_tf_float :: "tf_float \<Rightarrow> tf_float" where
  "inverse_tf_float x = fdiv (Fin 1) x"
definition abs_tf_float :: "tf_float \<Rightarrow> tf_float" where
  "abs_tf_float x = fabs x"
definition less_tf_float :: "tf_float \<Rightarrow> tf_float \<Rightarrow> bool" where
  "less_tf_float x y = flt x y"
definition less_eq_tf_float :: "tf_float \<Rightarrow> tf_float \<Rightarrow> bool" where
  "less_eq_tf_float x y = fle x y"

instance ..

end

lemmas tf_float_arith =
  zero_tf_float_def one_tf_float_def plus_tf_float_def uminus_tf_float_def
  minus_tf_float_def times_tf_float_def divide_tf_float_def inverse_tf_float_def
  abs_tf_float_def less_tf_float_def less_eq_tf_float_def

lemma fadd_assoc: "fadd (fadd a b) c = fadd a (fadd b c)"
  by (cases a; cases b; cases c) simp_all

instance tf_float :: numeral
  by standard (simp add: plus_tf_float_def fadd_assoc)

lemma numeral_tf_float: "(numeral k :: tf_float) = Fin (numeral k)"
proof (induction k)
  case One
  show ?case by (simp add: numeral_One one_tf_float_def)
next
  case (Bit0 k)
  have "(numeral (num.Bit0 k) :: tf_float) = numeral k + numeral k"
    by (rule numeral_Bit0)
  also have "\<dots> = Fin (numeral k + numeral k)"
    unfolding Bit0 plus_tf_float_def by simp
  also have "(numeral k + numeral k :: real) = numeral (num.Bit0 k)"
    by (rule numeral_Bit0 [symmetric])
  finally show ?case .
next
  case (Bit1 k)
  have "(numeral (num.Bit1 k) :: tf_float) = numeral k + numeral k + 1"
    by (rule numeral_Bit1)
  also have "\<dots> = Fin (numeral k + numeral k + 1)"
    unfolding Bit1 plus_tf_float_def one_tf_float_def by simp
  also have "(numeral k + numeral k + 1 :: real) = numeral (num.Bit1 k)"
    by (rule numeral_Bit1 [symmetric])
  finally show ?case .
qed

text \<open>\<^verbatim>\<open>tf.sin\<close>, \<^verbatim>\<open>tf.cos\<close>, \<^verbatim>\<open>tf.math.log\<close> and \<^verbatim>\<open>tf.pow\<close> (the C library's \<^verbatim>\<open>pow\<close>).\<close>

fun fsin :: "tf_float \<Rightarrow> tf_float" where
  "fsin (Fin a) = Fin (sin a)"
| "fsin x = NaN"

fun fcos :: "tf_float \<Rightarrow> tf_float" where
  "fcos (Fin a) = Fin (cos a)"
| "fcos x = NaN"

fun flog :: "tf_float \<Rightarrow> tf_float" where
  "flog (Fin a) = (if 0 < a then Fin (ln a) else if a = 0 then NInf else NaN)"
| "flog PInf = PInf"
| "flog x = NaN"

definition is_int :: "real \<Rightarrow> bool" where
  "is_int b = (b = of_int \<lfloor>b\<rfloor>)"

fun fpow :: "tf_float \<Rightarrow> tf_float \<Rightarrow> tf_float" where
  "fpow x (Fin b) =
     (if b = 0 then Fin 1
      else case x of
        NaN \<Rightarrow> NaN
      | Fin a \<Rightarrow>
          (if 0 < a then Fin (a powr b)
           else if a = 0 then (if 0 < b then Fin 0 else PInf)
           else if is_int b then Fin ((if odd \<lfloor>b\<rfloor> then - 1 else 1) * ((- a) powr b))
           else NaN)
      | PInf \<Rightarrow> (if 0 < b then PInf else Fin 0)
      | NInf \<Rightarrow> (if 0 < b then (if is_int b \<and> odd \<lfloor>b\<rfloor> then NInf else PInf) else Fin 0))"
| "fpow x PInf =
     (case x of
        NaN \<Rightarrow> NaN
      | Fin a \<Rightarrow> (if \<bar>a\<bar> < 1 then Fin 0 else if \<bar>a\<bar> = 1 then Fin 1 else PInf)
      | PInf \<Rightarrow> PInf
      | NInf \<Rightarrow> PInf)"
| "fpow x NInf =
     (case x of
        NaN \<Rightarrow> NaN
      | Fin a \<Rightarrow> (if \<bar>a\<bar> < 1 then PInf else if \<bar>a\<bar> = 1 then Fin 1 else Fin 0)
      | PInf \<Rightarrow> Fin 0
      | NInf \<Rightarrow> Fin 0)"
| "fpow x NaN = (if x = Fin 1 then Fin 1 else NaN)"

text \<open>\<^verbatim>\<open>tf.minimum\<close> and \<^verbatim>\<open>tf.maximum\<close> propagate NaN;
  \<^verbatim>\<open>tf.clip_by_value(x, lo, hi)\<close> is \<^verbatim>\<open>maximum(minimum(x, hi), lo)\<close>.\<close>

definition tf_minimum :: "tf_float \<Rightarrow> tf_float \<Rightarrow> tf_float" where
  "tf_minimum x y = (if x = NaN \<or> y = NaN then NaN else if x \<le> y then x else y)"

definition tf_maximum :: "tf_float \<Rightarrow> tf_float \<Rightarrow> tf_float" where
  "tf_maximum x y = (if x = NaN \<or> y = NaN then NaN else if x \<le> y then y else x)"

definition clip_by_value :: "tf_float \<Rightarrow> tf_float \<Rightarrow> tf_float \<Rightarrow> tf_float" where
  "clip_by_value x lo hi = tf_maximum (tf_minimum x hi) lo"

text \<open>\<^verbatim>\<open>tf.round\<close> rounds half to even. The cast of a float to \<^verbatim>\<open>int32\<close> truncates
  a value in range; for NaN, an infinity or a value out of range the result is the
  "integer indefinite" value \<open>- 2 ^ 31\<close> of the conversion instruction.\<close>

definition round_half_even :: "real \<Rightarrow> real" where
  "round_half_even a =
     (let f = \<lfloor>a\<rfloor>; d = a - of_int f
      in if d < 1 / 2 then of_int f
         else if 1 / 2 < d then of_int (f + 1)
         else if even f then of_int f else of_int (f + 1))"

fun fround :: "tf_float \<Rightarrow> tf_float" where
  "fround (Fin a) = Fin (round_half_even a)"
| "fround x = x"

definition trunc :: "real \<Rightarrow> int" where
  "trunc a = (if 0 \<le> a then \<lfloor>a\<rfloor> else \<lceil>a\<rceil>)"

fun cast_int32 :: "tf_float \<Rightarrow> int" where
  "cast_int32 (Fin a) =
     (if - (2 ^ 31) \<le> trunc a \<and> trunc a < 2 ^ 31 then trunc a else - (2 ^ 31))"
| "cast_int32 x = - (2 ^ 31)"


section \<open>The random source\<close>

text \<open>
  Every random draw of the optimizers comes from TensorFlow's stateful generator. The model
  takes the generator's raw output as an input: a stream of samples of the unit interval,
  from which \<^verbatim>\<open>tf.random.uniform\<close> scales its floats, and a stream of raw non-negative
  integers for the integer draws. A draw returns its value and the advanced source.
\<close>

record rng =
  floats :: "real stream"
  ints :: "nat stream"

definition uniform :: "tf_float \<Rightarrow> tf_float \<Rightarrow> rng \<Rightarrow> tf_float \<times> rng" where
  "uniform minval maxval g =
     (Fin (shd (floats g)) * (maxval - minval) + minval, g\<lparr>floats := stl (floats g)\<rparr>)"

definition uniform_tensor :: "nat \<Rightarrow> tf_float \<Rightarrow> tf_float \<Rightarrow> rng \<Rightarrow> tf_float list \<times> rng" where
  "uniform_tensor n minval maxval g =
     (map (\<lambda>u. Fin u * (maxval - minval) + minval) (stake n (floats g)),
      g\<lparr>floats := sdrop n (floats g)\<rparr>)"

text \<open>Integer draws in \<open>[minval, maxval)\<close>; the source only asks for non-empty ranges.\<close>

definition uniform_int :: "nat \<Rightarrow> nat \<Rightarrow> rng \<Rightarrow> nat \<times> rng" where
  "uniform_int minval maxval g =
     (minval + shd (ints g) mod (maxval - minval), g\<lparr>ints := stl (ints g)\<rparr>)"

definition uniform_int_tensor :: "nat \<Rightarrow> nat \<Rightarrow> nat \<Rightarrow> rng \<Rightarrow> nat list \<times> rng" where
  "uniform_int_tensor n minval maxval g =
     (map (\<lambda>k. minval + k mod (maxval - minval)) (stake n (ints g)),
      g\<lparr>ints := sdrop n (ints g)\<rparr>)"

text \<open>\<^verbatim>\<open>tf.random.categorical\<close> with one row of logits and one sample: the logits weight
  the classes, the model takes the drawn class from the source.\<close>

definition categorical :: "tf_float list \<Rightarrow> rng \<Rightarrow> nat \<times> rng" where
  "categorical logits g = (shd (ints g) mod length logits, g\<lparr>ints := stl (ints g)\<rparr>)"

text \<open>\<^verbatim>\<open>tf.random.shuffle\<close>: position \<open>i\<close> is swapped with a drawn position of \<open>[i, n)\<close>,
  for \<open>i = 0, 1, \<dots>\<close>.\<close>

primrec fisher_yates :: "nat \<Rightarrow> nat \<Rightarrow> 'a list \<Rightarrow> nat stream \<Rightarrow> 'a list" where
  "fisher_yates 0 i xs s = xs"
| "fisher_yates (Suc k) i xs s =
     (let j = i + shd s mod (length xs - i)
      in fisher_yates k (Suc i) (xs[i := xs ! j, j := xs ! i]) (stl s))"

definition shuffle :: "'a list \<Rightarrow> rng \<Rightarrow> 'a list \<times> rng" where
  "shuffle xs g =
     (fisher_yates (length xs) 0 xs (ints g), g\<lparr>ints := sdrop (length xs) (ints g)\<rparr>)"

text \<open>A loop over the parameter slots that draws in each round.\<close>

fun map_rng :: "('a \<Rightarrow> rng \<Rightarrow> 'b \<times> rng) \<Rightarrow> 'a list \<Rightarrow> rng \<Rightarrow> 'b list \<times> rng" where
  "map_rng f [] g = ([], g)"
| "map_rng f (x # xs) g =
     (let (y, g1) = f x g; (ys, g2) = map_rng f xs g1 in (y # ys, g2))"

section \<open>Populations and collaborators\<close>

text \<open>
  A model weight is a tensor; the model keeps its elements flattened. A population holds,
  for each model weight (slot), one tensor of shape \<^verbatim>\<open>(N,) + weights.shape\<close>: a list of
  \<open>N\<close> rows, row \<open>i\<close> being individual \<open>i\<close>'s flattened array for that slot.
\<close>

type_synonym tensor = "tf_float list"
type_synonym population = "tensor list list"

definition individual :: "population \<Rightarrow> nat \<Rightarrow> tensor list" where
  "individual pop i = map (\<lambda>x. x ! i) pop"

definition gather :: "'a list \<Rightarrow> nat list \<Rightarrow> 'a list" where
  "gather x idx = map (\<lambda>i. x ! i) idx"

primrec unflatten :: "nat list \<Rightarrow> 'a list \<Rightarrow> 'a list list" where
  "unflatten [] ys = []"
| "unflatten (n # ns) ys = take n ys # unflatten ns (drop n ys)"

text \<open>\<^verbatim>\<open>tf.reshape(t, tf.shape(x))\<close> for a flat \<open>t\<close>.\<close>

definition reshape_like :: "'b list list \<Rightarrow> 'a list \<Rightarrow> 'a list list" where
  "reshape_like x t = unflatten (map length x) t"

datatype error = InvalidShape | ShapeMismatch | EmptyReduction | CollaboratorError

datatype event =
    Evaluate
  | LogFitness tf_float int bool
  | SaveIndividual nat
  | TrainingStatus nat tf_float
  | ApplyBest

text \<open>\<^verbatim>\<open>tf.reduce_min\<close> of a float vector is \<open>+\<infinity>\<close> on the empty vector;
  \<^verbatim>\<open>tf.argmin\<close> returns the first index of the minimum and fails on the empty vector.\<close>

fun reduce_min :: "real list \<Rightarrow> tf_float" where
  "reduce_min [] = PInf"
| "reduce_min (x # xs) = Fin (fold min xs x)"

fun argmin_from :: "real list \<Rightarrow> nat \<Rightarrow> nat \<Rightarrow> real \<Rightarrow> nat" where
  "argmin_from [] k best_k best = best_k"
| "argmin_from (y # ys) k best_k best =
     (if y < best then argmin_from ys (Suc k) k y else argmin_from ys (Suc k) best_k best)"

fun argmin :: "real list \<Rightarrow> error + nat" where
  "argmin [] = Inl EmptyReduction"
| "argmin (y # ys) = Inr (argmin_from ys 1 0 y)"

text \<open>\<^verbatim>\<open>tf.argsort\<close>, ascending; ties keep the index order.\<close>

definition argsort :: "real list \<Rightarrow> nat list" where
  "argsort xs = sort_key (\<lambda>i. xs ! i) [0..<length xs]"

text \<open>
  Modelled from the spec: \<^verbatim>\<open>metaopts.utilities.update_population_fitness\<close> is not among the
  sources. By the spec's evaluation contract it computes one fitness per candidate, in
  candidate order, by materialising the candidate into the model weights and calling the
  fitness function, which the model takes as a function of the materialised candidate with
  real values. The result is the new fitness vector.
\<close>

definition population_fitness :: "(tensor list \<Rightarrow> real) \<Rightarrow> population \<Rightarrow> nat \<Rightarrow> real list" where
  "population_fitness fit pop n = map (\<lambda>i. fit (individual pop i)) [0..<n]"

text \<open>
  Modelled from the spec: \<^verbatim>\<open>metaopts.utilities.apply_best_solution\<close> is not among the
  sources. It receives the fitness function, the fitness vector, the population and its
  size, and by the spec writes the best candidate's arrays into the model weights: the model
  evaluates the population it is given and returns the arrays of the first candidate of
  minimal fitness, the new model weights.
\<close>

definition apply_best_solution ::
  "(tensor list \<Rightarrow> real) \<Rightarrow> population \<Rightarrow> nat \<Rightarrow> error + tensor list" where
  "apply_best_solution fit pop n =
     (case argmin (population_fitness fit pop n) of
        Inl e \<Rightarrow> Inl e
      | Inr b \<Rightarrow> Inr (individual pop b))"

record config =
  generation_limit :: int
  fitness_limit :: tf_float
  population_size :: int
  transfer_learning :: bool
  fitness_log_frequency :: int
  best_individual_save_frequency :: int
  lb :: tf_float
  ub :: tf_float

text \<open>
  The state every run carries. \<open>gen\<close> is a \<^verbatim>\<open>float32\<close> variable that starts at \<open>0.0\<close> and only
  ever takes \<^verbatim>\<open>assign_add(1)\<close>: it holds a natural number. \<^verbatim>\<open>float32\<close> represents the
  integers up to \<open>2 ^ 24\<close> exactly and rounds \<open>2 ^ 24 + 1\<close> back to \<open>2 ^ 24\<close>, so the
  increment stops there. \<open>trace\<close> lists the calls to the collaborators, latest last.
\<close>

record run_state =
  gen :: nat
  best_fitness :: tf_float
  model_weights :: "tensor list"
  random :: rng
  trace :: "event list"

definition assign_add_1 :: "nat \<Rightarrow> nat" where
  "assign_add_1 g = (if g < 2 ^ 24 then g + 1 else g)"

text \<open>\<open>T\<close> is \<^verbatim>\<open>tf.constant(generation_limit, dtype=tf.float32)\<close>.\<close>

definition T :: "'a config_scheme \<Rightarrow> tf_float" where
  "T cfg = Fin (of_int (generation_limit cfg))"

definition N :: "'a config_scheme \<Rightarrow> nat" where
  "N cfg = nat (population_size cfg)"

text \<open>The log and checkpoint calls of a generation boundary and of the end of a run.\<close>

definition log_fitness :: "'a config_scheme \<Rightarrow> bool \<Rightarrow> tf_float \<Rightarrow> event list" where
  "log_fitness cfg force b =
     (if fitness_log_frequency cfg > 0
      then [LogFitness b (fitness_log_frequency cfg) force] else [])"

definition save_best_periodic ::
  "'a config_scheme \<Rightarrow> nat \<Rightarrow> real list \<Rightarrow> error + event list" where
  "save_best_periodic cfg g fv =
     (if best_individual_save_frequency cfg > 0
         \<and> int g mod best_individual_save_frequency cfg = 0
      then (case argmin fv of Inl e \<Rightarrow> Inl e | Inr b \<Rightarrow> Inr [SaveIndividual b])
      else Inr [])"

definition save_best_final :: "'a config_scheme \<Rightarrow> real list \<Rightarrow> error + event list" where
  "save_best_final cfg fv =
     (if best_individual_save_frequency cfg > 0
      then (case argmin fv of Inl e \<Rightarrow> Inl e | Inr b \<Rightarrow> Inr [SaveIndividual b])
      else Inr [])"


section \<open>Sewing Training-Based Optimization\<close>

text \<open>
  The variables of \<^verbatim>\<open>stbo\<close>: the population \<open>X\<close> with its fitness vector (the source's \<open>F\<close>,
  here \<open>FX\<close>), the proposed population \<open>XP\<close> with its fitness vector \<open>FP\<close>, and the
  instructor index \<open>SI\<close> of every member.
\<close>

record stbo_state = run_state +
  X :: population
  FX :: "real list"
  XP :: population
  FP :: "real list"
  SI :: "nat list"

text \<open>\<^verbatim>\<open>eq_4(index)\<close>: the members strictly better than \<open>index\<close>, or \<open>index\<close> alone.\<close>

definition stbo_eq_4 :: "real list \<Rightarrow> nat \<Rightarrow> nat list" where
  "stbo_eq_4 fx index =
     (let CSI = filter (\<lambda>j. fx ! j < fx ! index) [0..<length fx]
      in if CSI = [] then [index] else CSI)"

definition update_SI_step :: "real list \<Rightarrow> nat \<Rightarrow> nat list \<times> rng \<Rightarrow> nat list \<times> rng" where
  "update_SI_step fx i sg =
     (let CSI = stbo_eq_4 fx i;
          (selected_instructor, g) = uniform_int 0 (length CSI) (snd sg)
      in ((fst sg)[i := CSI ! selected_instructor], g))"

definition update_SI :: "'a config_scheme \<Rightarrow> stbo_state \<Rightarrow> stbo_state" where
  "update_SI cfg st =
     (let (si, g) = fold (update_SI_step (FX st)) [0..<N cfg] (SI st, random st)
      in st\<lparr>SI := si, random := g\<rparr>)"

text \<open>\<^verbatim>\<open>eq_5\<close>, for one slot: \<^verbatim>\<open>xp = x + r*(tf.gather(x, SI) - I*x)\<close>, with \<open>r\<close> and \<open>I\<close>
  drawn per element.\<close>

definition stbo_eq_5_slot :: "nat list \<Rightarrow> tensor list \<times> tensor list \<Rightarrow> rng \<Rightarrow> tensor list \<times> rng" where
  "stbo_eq_5_slot si xxp g =
     (let x = fst xxp;
          m = length (concat x);
          (r, g1) = uniform_tensor m 0 1 g;
          (I, g2) = uniform_int_tensor m 1 3 g1;
          xp_flat = map (\<lambda>(xe, ie, re, Ie). xe + re * (ie - Fin (real Ie) * xe))
                      (zip (concat x) (zip (concat (gather x si)) (zip r I)))
      in (reshape_like x xp_flat, g2))"

definition stbo_eq_5 :: "stbo_state \<Rightarrow> stbo_state" where
  "stbo_eq_5 st =
     (let (xp, g) = map_rng (stbo_eq_5_slot (SI st)) (zip (X st) (XP st)) (random st)
      in st\<lparr>XP := xp, random := g\<rparr>)"

text \<open>A slice \<^verbatim>\<open>t[:ms]\<close>: a negative bound counts from the end.\<close>

definition slice_to :: "int \<Rightarrow> 'a list \<Rightarrow> 'a list" where
  "slice_to ms xs = (if 0 \<le> ms then take (nat ms) xs else take (length xs - nat (- ms)) xs)"

definition tensor_scatter_nd_update :: "'a list \<Rightarrow> nat list \<Rightarrow> 'a list \<Rightarrow> 'a list" where
  "tensor_scatter_nd_update t idx upd = fold (\<lambda>(i, u) acc. acc[i := u]) (zip idx upd) t"

text \<open>\<^verbatim>\<open>eq_7_and_8\<close>, for one slot. \<open>x\<close> is the slot's tensor for the whole population:
  \<open>m\<close> is its size, and the positions are positions of the flattened population tensor.\<close>

definition stbo_ms :: "'a config_scheme \<Rightarrow> nat \<Rightarrow> nat \<Rightarrow> int" where
  "stbo_ms cfg g m =
     cast_int32 (fround (1 + Fin (real g) / (2 * T cfg) * Fin (real m)))"

definition eq_7_and_8_slot ::
  "'a config_scheme \<Rightarrow> nat \<Rightarrow> nat list \<Rightarrow> tensor list \<times> tensor list \<Rightarrow> rng \<Rightarrow> tensor list \<times> rng" where
  "eq_7_and_8_slot cfg g si xxp rg =
     (let x = fst xxp;
          m = length (concat x);
          ms = stbo_ms cfg g m;
          (perm, rg1) = shuffle [0..<m] rg;
          SDi = slice_to ms perm;
          x_flat = concat x;
          instructors_flat = concat (gather x si);
          xp_flat = tensor_scatter_nd_update x_flat SDi (gather instructors_flat SDi)
      in (reshape_like x xp_flat, rg1))"

definition eq_7_and_8 :: "'a config_scheme \<Rightarrow> stbo_state \<Rightarrow> stbo_state" where
  "eq_7_and_8 cfg st =
     (let (xp, g) = map_rng (eq_7_and_8_slot cfg (gen st) (SI st)) (zip (X st) (XP st)) (random st)
      in st\<lparr>XP := xp, random := g\<rparr>)"

text \<open>\<^verbatim>\<open>eq_10\<close>, for one slot: \<^verbatim>\<open>xp = clip_by_value(x + (lb + r*(ub-lb))/gen, lb, ub)\<close>.\<close>

definition stbo_eq_10_elem :: "'a config_scheme \<Rightarrow> nat \<Rightarrow> tf_float \<Rightarrow> tf_float \<Rightarrow> tf_float" where
  "stbo_eq_10_elem cfg g xe re =
     clip_by_value (xe + (lb cfg + re * (ub cfg - lb cfg)) / Fin (real g)) (lb cfg) (ub cfg)"

definition stbo_eq_10_slot ::
  "'a config_scheme \<Rightarrow> nat \<Rightarrow> tensor list \<times> tensor list \<Rightarrow> rng \<Rightarrow> tensor list \<times> rng" where
  "stbo_eq_10_slot cfg g xxp rg =
     (let x = fst xxp;
          (r, rg1) = uniform_tensor (length (concat x)) 0 1 rg
      in (reshape_like x (map (\<lambda>(xe, re). stbo_eq_10_elem cfg g xe re) (zip (concat x) r)), rg1))"

definition stbo_eq_10 :: "'a config_scheme \<Rightarrow> stbo_state \<Rightarrow> stbo_state" where
  "stbo_eq_10 cfg st =
     (let (xp, g) = map_rng (stbo_eq_10_slot cfg (gen st)) (zip (X st) (XP st)) (random st)
      in st\<lparr>XP := xp, random := g\<rparr>)"

text \<open>\<^verbatim>\<open>update_improved_positions\<close>: both populations are evaluated, and every member
  whose proposal is strictly better takes the proposal, in every slot, with its fitness.
  \<^verbatim>\<open>tf.where\<close> with the condition reshaped to \<open>(N, 1, \<dots>)\<close> selects whole rows.\<close>

definition where_rows :: "bool list \<Rightarrow> 'a list \<Rightarrow> 'a list \<Rightarrow> 'a list" where
  "where_rows c a b = map (\<lambda>(ci, ai, bi). if ci then ai else bi) (zip c (zip a b))"

definition update_improved_positions ::
  "(tensor list \<Rightarrow> real) \<Rightarrow> 'a config_scheme \<Rightarrow> stbo_state \<Rightarrow> stbo_state" where
  "update_improved_positions fit cfg st =
     (let f = population_fitness fit (X st) (N cfg);
          fp = population_fitness fit (XP st) (N cfg);
          improved_positions = map (\<lambda>(a, b). a < b) (zip fp f)
      in st\<lparr>X := map (\<lambda>(x, xp). where_rows improved_positions xp x) (zip (X st) (XP st)),
            FX := where_rows improved_positions fp f,
            FP := fp,
            trace := trace st @ [Evaluate, Evaluate]\<rparr>)"


text \<open>One pass of the loop body: the three phases, each followed by the acceptance step,
  then the best fitness, the log and checkpoint calls, the status line and the counter.\<close>

definition stbo_generation ::
  "(tensor list \<Rightarrow> real) \<Rightarrow> 'a config_scheme \<Rightarrow> stbo_state \<Rightarrow> error + stbo_state" where
  "stbo_generation fit cfg st =
     (let st1 = update_SI cfg st;
          st2 = stbo_eq_5 st1;
          st3 = update_improved_positions fit cfg st2;
          st4 = eq_7_and_8 cfg st3;
          st5 = update_improved_positions fit cfg st4;
          st6 = stbo_eq_10 cfg st5;
          st7 = update_improved_positions fit cfg st6;
          b = reduce_min (FX st7)
      in case save_best_periodic cfg (gen st7) (FX st7) of
           Inl e \<Rightarrow> Inl e
         | Inr saved \<Rightarrow>
             Inr (st7\<lparr>best_fitness := b,
                      trace := trace st7 @ log_fitness cfg False b @ saved
                                 @ [TrainingStatus (gen st7) b],
                      gen := assign_add_1 (gen st7)\<rparr>))"

text \<open>\<^verbatim>\<open>while best_fitness > fitness_limit and gen <= T\<close>.\<close>

definition stbo_continues :: "'a config_scheme \<Rightarrow> stbo_state \<Rightarrow> bool" where
  "stbo_continues cfg st = (fitness_limit cfg < best_fitness st \<and> Fin (real (gen st)) \<le> T cfg)"

partial_function (option) stbo_loop ::
  "(tensor list \<Rightarrow> real) \<Rightarrow> 'a config_scheme \<Rightarrow> stbo_state \<Rightarrow> (error + stbo_state) option" where
  "stbo_loop fit cfg st =
     (if stbo_continues cfg st
      then (case stbo_generation fit cfg st of
              Inl e \<Rightarrow> Some (Inl e)
            | Inr st' \<Rightarrow> stbo_loop fit cfg st')
      else Some (Inr st))"

text \<open>
  The start of a run. \<^verbatim>\<open>eq_2\<close> creates the population: with transfer learning through
  \<^verbatim>\<open>metaopts.utilities.create_population\<close>, which is not among the sources and is a
  parameter of the model, and uniformly in \<open>[lb, ub)\<close> otherwise. A negative population
  size is refused by TensorFlow as a tensor dimension.
\<close>

definition stbo_eq_2_slot :: "'a config_scheme \<Rightarrow> tensor \<Rightarrow> rng \<Rightarrow> tensor list \<times> rng" where
  "stbo_eq_2_slot cfg weights g =
     (let (u, g1) = uniform_tensor (N cfg * length weights) 0 1 g
      in (unflatten (replicate (N cfg) (length weights))
            (map (\<lambda>ue. lb cfg + ue * (ub cfg - lb cfg)) u), g1))"

definition stbo_eq_2 ::
  "(tensor list \<Rightarrow> int \<Rightarrow> bool \<Rightarrow> error + population) \<Rightarrow> 'a config_scheme \<Rightarrow> tensor list \<Rightarrow> rng
     \<Rightarrow> (error + population) \<times> rng" where
  "stbo_eq_2 create_population cfg weights g =
     (if transfer_learning cfg then (create_population weights (population_size cfg) True, g)
      else if population_size cfg < 0 \<and> weights \<noteq> [] then (Inl InvalidShape, g)
      else (let (x, g1) = map_rng (stbo_eq_2_slot cfg) weights g in (Inr x, g1)))"

definition stbo_init ::
  "(tensor list \<Rightarrow> int \<Rightarrow> bool \<Rightarrow> error + population) \<Rightarrow> (tensor list \<Rightarrow> real) \<Rightarrow> 'a config_scheme
     \<Rightarrow> tensor list \<Rightarrow> rng \<Rightarrow> error + stbo_state" where
  "stbo_init create_population fit cfg weights g =
     (case stbo_eq_2 create_population cfg weights g of
        (Inl e, g1) \<Rightarrow> Inl e
      | (Inr x, g1) \<Rightarrow>
          if population_size cfg < 0 then Inl InvalidShape
          else (let f = population_fitness fit x (N cfg)
                in Inr \<lparr>gen = 0, best_fitness = reduce_min f, model_weights = weights,
                        random = g1, trace = [Evaluate],
                        X = x, FX = f, XP = x, FP = f, SI = replicate (N cfg) 0\<rparr>))"

text \<open>The end of a run: the best solution is applied to the model, then the last log and
  checkpoint calls are made, each under its frequency's guard.\<close>

definition stbo_finish ::
  "(tensor list \<Rightarrow> real) \<Rightarrow> 'a config_scheme \<Rightarrow> stbo_state \<Rightarrow> error + stbo_state" where
  "stbo_finish fit cfg st =
     (case apply_best_solution fit (X st) (N cfg) of
        Inl e \<Rightarrow> Inl e
      | Inr best \<Rightarrow>
          (case save_best_final cfg (FX st) of
             Inl e \<Rightarrow> Inl e
           | Inr saved \<Rightarrow>
               Inr (st\<lparr>model_weights := best,
                       trace := trace st @ [ApplyBest]
                                  @ log_fitness cfg True (best_fitness st) @ saved\<rparr>)))"

text \<open>A run of \<^verbatim>\<open>stbo\<close>: \<open>None\<close> when the loop never ends.\<close>

definition stbo ::
  "(tensor list \<Rightarrow> int \<Rightarrow> bool \<Rightarrow> error + population) \<Rightarrow> (tensor list \<Rightarrow> real) \<Rightarrow> 'a config_scheme
     \<Rightarrow> tensor list \<Rightarrow> rng \<Rightarrow> (error + stbo_state) option" where
  "stbo create_population fit cfg weights g =
     (case stbo_init create_population fit cfg weights g of
        Inl e \<Rightarrow> Some (Inl e)
      | Inr st0 \<Rightarrow>
          (case stbo_loop fit cfg st0 of
             None \<Rightarrow> None
           | Some (Inl e) \<Rightarrow> Some (Inl e)
           | Some (Inr st) \<Rightarrow> Some (stbo_finish fit cfg st)))"


section \<open>African Vultures Optimization Algorithm\<close>

record avoa_config = config +
  L1 :: tf_float
  L2 :: tf_float
  w :: tf_float
  P1 :: tf_float
  P2 :: tf_float
  P3 :: tf_float
  beta :: tf_float

text \<open>
  The variables of \<^verbatim>\<open>avoa\<close>. The current member's index (the source's variable \<open>i\<close>) is an
  argument of the equations. \<open>sigma\<close> is computed once at the start.
\<close>

record avoa_state = run_state +
  P :: population
  fitness_values :: "real list"
  best_vultures :: population
  R :: "tensor list"
  D :: "tensor list"
  S :: population
  A :: population
  Levy :: "tensor list"
  F :: tf_float
  sigma :: tf_float

text \<open>\<^verbatim>\<open>update_best_vultures\<close>: the two best members by ascending fitness. The assignment
  to a variable of shape \<^verbatim>\<open>(2,) + weights.shape\<close> fails when fewer than two rows are
  gathered.\<close>

definition update_best_vultures :: "avoa_state \<Rightarrow> error + avoa_state" where
  "update_best_vultures st =
     (let best_indices = take 2 (argsort (fitness_values st))
      in if length best_indices \<noteq> 2 \<and> zip (best_vultures st) (P st) \<noteq> []
         then Inl ShapeMismatch
         else Inr (st\<lparr>best_vultures :=
                       map (\<lambda>(bv, p). gather p best_indices) (zip (best_vultures st) (P st))\<rparr>))"

definition avoa_eq_1 :: "avoa_config \<Rightarrow> avoa_state \<Rightarrow> avoa_state" where
  "avoa_eq_1 cfg st =
     (let reversed = map (\<lambda>l. (L1 cfg + L2 cfg) / l) [L1 cfg, L2 cfg];
          logits = map flog reversed;
          (selected, g) = categorical logits (random st)
      in st\<lparr>R := map (\<lambda>(r, bv). bv ! selected) (zip (R st) (best_vultures st)),
            random := g\<rparr>)"

definition avoa_eq_3 :: "avoa_config \<Rightarrow> nat \<Rightarrow> rng \<Rightarrow> tf_float \<times> rng" where
  "avoa_eq_3 cfg g rg =
     (let (h, rg1) = uniform (- 2) 2 rg
      in (h * (fpow (fsin (Fin (pi / 2) * Fin (real g) / T cfg)) (w cfg)
               + fcos (Fin (pi / 2) * Fin (real g) / T cfg) - 1), rg1))"

definition avoa_eq_4 :: "avoa_config \<Rightarrow> avoa_state \<Rightarrow> avoa_state" where
  "avoa_eq_4 cfg st =
     (let (rand_1, g1) = uniform 0 1 (random st);
          (z, g2) = uniform (- 1) 1 g1;
          (t, g3) = avoa_eq_3 cfg (gen st) g2
      in st\<lparr>F := (2 * rand_1 + 1) * z * (1 - Fin (real (gen st)) / T cfg) + t,
            random := g3\<rparr>)"

definition avoa_eq_7 :: "nat \<Rightarrow> avoa_state \<Rightarrow> avoa_state" where
  "avoa_eq_7 i st =
     (let (u, g) = uniform 0 1 (random st);
          x = 2 * u
      in st\<lparr>D := map (\<lambda>(d, r, p). map (\<lambda>(re, pe). \<bar>x * re - pe\<bar>) (zip r (p ! i)))
                    (zip (D st) (zip (R st) (P st))),
            random := g\<rparr>)"

definition avoa_eq_6 :: "nat \<Rightarrow> avoa_state \<Rightarrow> avoa_state" where
  "avoa_eq_6 i st0 =
     (let st = avoa_eq_7 i st0
      in st\<lparr>P := map (\<lambda>(p, r, d). p[i := map (\<lambda>(re, de). re - de * F st) (zip r d)])
                    (zip (P st) (zip (R st) (D st)))\<rparr>)"

definition avoa_eq_8 :: "avoa_config \<Rightarrow> nat \<Rightarrow> avoa_state \<Rightarrow> avoa_state" where
  "avoa_eq_8 cfg i st =
     (let (rand_2, g1) = uniform 0 1 (random st);
          (rand_3, g2) = uniform 0 1 g1
      in st\<lparr>P := map (\<lambda>(p, r).
                       p[i := map (\<lambda>re. re - F st + rand_2 * ((ub cfg - lb cfg) * rand_3 + lb cfg)) r])
                    (zip (P st) (R st)),
            random := g2\<rparr>)"

definition avoa_eq_10 :: "nat \<Rightarrow> avoa_state \<Rightarrow> avoa_state" where
  "avoa_eq_10 i st0 =
     (let st = avoa_eq_7 i st0;
          (rand_4, g) = uniform 0 1 (random st)
      in st\<lparr>P := map (\<lambda>(r, p, d).
                       p[i := map (\<lambda>(re, pe, de). de * (F st + rand_4) - (re - pe))
                                (zip r (zip (p ! i) d))])
                    (zip (R st) (zip (P st) (D st))),
            random := g\<rparr>)"

definition avoa_eq_12 :: "nat \<Rightarrow> avoa_state \<Rightarrow> avoa_state" where
  "avoa_eq_12 i st =
     (let (rand_5, g1) = uniform 0 1 (random st);
          (rand_6, g2) = uniform 0 1 g1
      in st\<lparr>S := map (\<lambda>(s, r, p).
                       s[0 := map (\<lambda>(re, pe). re * ((rand_5 * pe) / Fin (2 * pi)) * fcos pe)
                                (zip r (p ! i)),
                         1 := map (\<lambda>(re, pe). re * ((rand_6 * pe) / Fin (2 * pi)) * fsin pe)
                                (zip r (p ! i))])
                    (zip (S st) (zip (R st) (P st))),
            random := g2\<rparr>)"

definition avoa_eq_13 :: "nat \<Rightarrow> avoa_state \<Rightarrow> avoa_state" where
  "avoa_eq_13 i st0 =
     (let st = avoa_eq_12 i st0
      in st\<lparr>P := map (\<lambda>(p, r, s).
                       p[i := map (\<lambda>(re, s0, s1). re - (s0 + s1)) (zip r (zip (s ! 0) (s ! 1)))])
                    (zip (P st) (zip (R st) (S st)))\<rparr>)"

text \<open>Eq. 15: \<^verbatim>\<open>bv - ((bv*p[i]) / (bv - tf.pow(p[i], 2))) * F\<close>, with its divisor.\<close>

definition eq_15_divisor :: "tf_float \<Rightarrow> tf_float \<Rightarrow> tf_float" where
  "eq_15_divisor bve pe = bve - fpow pe 2"

definition eq_15_elem :: "tf_float \<Rightarrow> tf_float \<Rightarrow> tf_float \<Rightarrow> tf_float" where
  "eq_15_elem f bve pe = bve - ((bve * pe) / eq_15_divisor bve pe) * f"

definition avoa_eq_15 :: "nat \<Rightarrow> avoa_state \<Rightarrow> avoa_state" where
  "avoa_eq_15 i st =
     st\<lparr>A := map (\<lambda>(a, bv, p).
                   a[0 := map (\<lambda>(bve, pe). eq_15_elem (F st) bve pe) (zip (bv ! 0) (p ! i)),
                     1 := map (\<lambda>(bve, pe). eq_15_elem (F st) bve pe) (zip (bv ! 1) (p ! i))])
                (zip (A st) (zip (best_vultures st) (P st)))\<rparr>"

definition avoa_eq_16 :: "nat \<Rightarrow> avoa_state \<Rightarrow> avoa_state" where
  "avoa_eq_16 i st0 =
     (let st = avoa_eq_15 i st0
      in st\<lparr>P := map (\<lambda>(p, a). p[i := map (\<lambda>(a0, a1). (a0 + a1) / 2) (zip (a ! 0) (a ! 1))])
                    (zip (P st) (A st))\<rparr>)"

definition avoa_eq_18_slot :: "avoa_config \<Rightarrow> tf_float \<Rightarrow> tensor \<Rightarrow> rng \<Rightarrow> tensor \<times> rng" where
  "avoa_eq_18_slot cfg sg l g =
     (let (u, g1) = uniform_tensor (length l) 0 1 g;
          (v, g2) = uniform_tensor (length l) 0 1 g1
      in (map (\<lambda>(ue, ve). Fin 0.01 * ((ue * sg) / fpow \<bar>ve\<bar> (1 / beta cfg))) (zip u v), g2))"

definition avoa_eq_18 :: "avoa_config \<Rightarrow> avoa_state \<Rightarrow> avoa_state" where
  "avoa_eq_18 cfg st =
     (let (l, g) = map_rng (avoa_eq_18_slot cfg (sigma st)) (Levy st) (random st)
      in st\<lparr>Levy := l, random := g\<rparr>)"

definition avoa_eq_17 :: "avoa_config \<Rightarrow> nat \<Rightarrow> avoa_state \<Rightarrow> avoa_state" where
  "avoa_eq_17 cfg i st0 =
     (let st = avoa_eq_18 cfg st0
      in st\<lparr>P := map (\<lambda>(p, r, l).
                       p[i := map (\<lambda>(re, pe, le). re - \<bar>re - pe\<bar> * F st * le)
                                (zip r (zip (p ! i) l))])
                    (zip (P st) (zip (R st) (Levy st)))\<rparr>)"

text \<open>The body of the loop over the members: reference vulture, \<open>F\<close>, and the branch on
  \<open>|F|\<close> with one fresh draw for the probability test of the branch taken.\<close>

definition update_vulture :: "avoa_config \<Rightarrow> nat \<Rightarrow> avoa_state \<Rightarrow> avoa_state" where
  "update_vulture cfg i st0 =
     (let st1 = avoa_eq_1 cfg st0;
          st2 = avoa_eq_4 cfg st1;
          (u, g) = uniform 0 1 (random st2);
          st = st2\<lparr>random := g\<rparr>
      in if 1 \<le> \<bar>F st2\<bar> then
           (if u \<le> P1 cfg then avoa_eq_6 i st else avoa_eq_8 cfg i st)
         else if Fin 0.5 \<le> \<bar>F st2\<bar> then
           (if u \<le> P2 cfg then avoa_eq_10 i st else avoa_eq_13 i st)
         else
           (if u \<le> P3 cfg then avoa_eq_16 i st else avoa_eq_17 cfg i st))"

definition sweep :: "avoa_config \<Rightarrow> avoa_state \<Rightarrow> avoa_state" where
  "sweep cfg st = fold (update_vulture cfg) [0..<N cfg] st"

text \<open>One pass of the loop body. \<open>Break\<close> is the \<^verbatim>\<open>break\<close> at the fitness limit, taken
  before the members are updated; \<open>Continue\<close> is a completed pass.\<close>

datatype 'a step = Break 'a | Continue 'a

definition avoa_generation ::
  "(tensor list \<Rightarrow> real) \<Rightarrow> avoa_config \<Rightarrow> avoa_state \<Rightarrow> error + avoa_state step" where
  "avoa_generation fit cfg st0 =
     (let fv = population_fitness fit (P st0) (N cfg);
          st1 = st0\<lparr>fitness_values := fv, trace := trace st0 @ [Evaluate]\<rparr>
      in case update_best_vultures st1 of
           Inl e \<Rightarrow> Inl e
         | Inr st2 \<Rightarrow>
             (let b = reduce_min fv
              in case save_best_periodic cfg (gen st2) fv of
                   Inl e \<Rightarrow> Inl e
                 | Inr saved \<Rightarrow>
                     (let st3 = st2\<lparr>best_fitness := b,
                                     trace := trace st2 @ log_fitness cfg False b @ saved
                                                @ [TrainingStatus (gen st2) b]\<rparr>
                      in if b < fitness_limit cfg then Inr (Break st3)
                         else (let st4 = sweep cfg st3
                               in Inr (Continue (st4\<lparr>gen := assign_add_1 (gen st4)\<rparr>))))))"

text \<open>\<^verbatim>\<open>while gen <= T\<close>.\<close>

partial_function (option) avoa_loop ::
  "(tensor list \<Rightarrow> real) \<Rightarrow> avoa_config \<Rightarrow> avoa_state \<Rightarrow> (error + avoa_state) option" where
  "avoa_loop fit cfg st =
     (if Fin (real (gen st)) \<le> T cfg
      then (case avoa_generation fit cfg st of
              Inl e \<Rightarrow> Some (Inl e)
            | Inr (Break st') \<Rightarrow> Some (Inr st')
            | Inr (Continue st') \<Rightarrow> avoa_loop fit cfg st')
      else Some (Inr st))"

text \<open>\<^verbatim>\<open>calculate_sigma\<close>; \<^verbatim>\<open>math.gamma\<close> is a parameter of the model.\<close>

definition calculate_sigma :: "(tf_float \<Rightarrow> tf_float) \<Rightarrow> avoa_config \<Rightarrow> tf_float" where
  "calculate_sigma gamma cfg =
     fpow ((gamma (1 + beta cfg) * fsin ((Fin pi * beta cfg) / 2))
           / (gamma (1 + 2 * beta cfg) * beta cfg * 2 * ((beta cfg - 1) / 2)))
          (1 / beta cfg)"

text \<open>
  The start of a run. The population comes from
  \<^verbatim>\<open>metaopts.utilities.create_population\<close>, which is not among the sources and is a
  parameter of the model. \<^verbatim>\<open>tf.zeros(N)\<close> refuses a negative population size.
\<close>

definition avoa_init ::
  "(tensor list \<Rightarrow> int \<Rightarrow> bool \<Rightarrow> error + population) \<Rightarrow> (tf_float \<Rightarrow> tf_float) \<Rightarrow> avoa_config
     \<Rightarrow> tensor list \<Rightarrow> rng \<Rightarrow> error + avoa_state" where
  "avoa_init create_population gamma cfg weights g =
     (case create_population weights (population_size cfg) (transfer_learning cfg) of
        Inl e \<Rightarrow> Inl e
      | Inr p \<Rightarrow>
          if population_size cfg < 0 then Inl InvalidShape
          else Inr \<lparr>gen = 0, best_fitness = 0, model_weights = weights, random = g, trace = [],
                    P = p, fitness_values = replicate (N cfg) 0,
                    best_vultures = map (\<lambda>ws. replicate 2 (map (\<lambda>e. 0) ws)) weights,
                    R = map (\<lambda>ws. map (\<lambda>e. 0) ws) weights,
                    D = map (\<lambda>ws. map (\<lambda>e. 0) ws) weights,
                    S = map (\<lambda>ws. replicate 2 (map (\<lambda>e. 0) ws)) weights,
                    A = map (\<lambda>ws. replicate 2 (map (\<lambda>e. 0) ws)) weights,
                    Levy = map (\<lambda>ws. map (\<lambda>e. 0) ws) weights,
                    F = 0, sigma = calculate_sigma gamma cfg\<rparr>)"

definition avoa_finish ::
  "(tensor list \<Rightarrow> real) \<Rightarrow> avoa_config \<Rightarrow> avoa_state \<Rightarrow> error + avoa_state" where
  "avoa_finish fit cfg st =
     (case apply_best_solution fit (P st) (N cfg) of
        Inl e \<Rightarrow> Inl e
      | Inr best \<Rightarrow>
          (case save_best_final cfg (fitness_values st) of
             Inl e \<Rightarrow> Inl e
           | Inr saved \<Rightarrow>
               Inr (st\<lparr>model_weights := best,
                       trace := trace st @ [ApplyBest]
                                  @ log_fitness cfg True (best_fitness st) @ saved\<rparr>)))"

text \<open>A run of \<^verbatim>\<open>avoa\<close>: \<open>None\<close> when the loop never ends.\<close>

definition avoa ::
  "(tensor list \<Rightarrow> int \<Rightarrow> bool \<Rightarrow> error + population) \<Rightarrow> (tf_float \<Rightarrow> tf_float)
     \<Rightarrow> (tensor list \<Rightarrow> real) \<Rightarrow> avoa_config \<Rightarrow> tensor list \<Rightarrow> rng
     \<Rightarrow> (error + avoa_state) option" where
  "avoa create_population gamma fit cfg weights g =
     (case avoa_init create_population gamma cfg weights g of
        Inl e \<Rightarrow> Some (Inl e)
      | Inr st0 \<Rightarrow>
          (case avoa_loop fit cfg st0 of
             None \<Rightarrow> None
           | Some (Inl e) \<Rightarrow> Some (Inl e)
           | Some (Inr st) \<Rightarrow> Some (avoa_finish fit cfg st)))"

section \<open>Example inputs\<close>

text \<open>Small inputs on which the theorems below are instantiated: a fitness function (the
  sum of the absolute values of a candidate's elements, \<open>1\<close> for a non-finite element), the
  default bounds, and a random source that repeats one sample.\<close>

fun elem_abs :: "tf_float \<Rightarrow> real" where
  "elem_abs (Fin a) = \<bar>a\<bar>"
| "elem_abs x = 1"

definition abs_fitness :: "tensor list \<Rightarrow> real" where
  "abs_fitness c = sum_list (map elem_abs (concat c))"

definition example_config :: config where
  "example_config =
     \<lparr>generation_limit = 1, fitness_limit = NInf, population_size = 2,
      transfer_learning = False, fitness_log_frequency = - 1,
      best_individual_save_frequency = - 1, lb = Fin (- 1), ub = Fin 1\<rparr>"

definition const_rng :: "real \<Rightarrow> nat \<Rightarrow> rng" where
  "const_rng u k = \<lparr>floats = sconst u, ints = sconst k\<rparr>"

definition example_stbo_state :: stbo_state where
  "example_stbo_state =
     \<lparr>gen = 0, best_fitness = Fin 1, model_weights = [[Fin 0]],
      random = const_rng (1 / 2) 0, trace = [],
      X = [[[Fin 3], [Fin 1]]], FX = [3, 1], XP = [[[Fin 2], [Fin 5]]], FP = [3, 1],
      SI = [0, 0]\<rparr>"

text \<open>The defaults of \<^verbatim>\<open>avoa\<close> with two members and a generation limit of one; a population
  collaborator that returns two members of one element; \<^verbatim>\<open>math.gamma\<close> at the two points
  the default \<open>beta\<close> asks for; and a random source whose first twelve samples are \<open>3/4\<close> and
  all later ones \<open>1/2\<close>.\<close>

definition avoa_defaults :: avoa_config where
  "avoa_defaults =
     \<lparr>generation_limit = 1, fitness_limit = NInf, population_size = 2,
      transfer_learning = False, fitness_log_frequency = - 1,
      best_individual_save_frequency = - 1, lb = Fin (- 1), ub = Fin 1,
      L1 = Fin 0.8, L2 = Fin 0.2, w = Fin 2.5, P1 = Fin 0.6, P2 = Fin 0.4, P3 = Fin 0.6,
      beta = Fin 1.5\<rparr>"

definition example_population :: "tensor list \<Rightarrow> int \<Rightarrow> bool \<Rightarrow> error + population" where
  "example_population weights n tlearn = Inr [[[Fin 0], [Fin (1 / 2)]]]"

definition example_gamma :: "tf_float \<Rightarrow> tf_float" where
  "example_gamma x = (if x = Fin 4 then Fin 6 else Fin (3 * sqrt pi / 4))"

definition two_phase_rng :: rng where
  "two_phase_rng =
     \<lparr>floats = smap (\<lambda>n. if n < 12 then 3 / 4 else 1 / 2) (fromN 0), ints = sconst 0\<rparr>"

text \<open>For \<^verbatim>\<open>stbo\<close> without transfer learning: a population collaborator that is never
  asked, and a random source whose first two samples are \<open>1/4\<close> and \<open>5/8\<close> and all later
  ones \<open>1/2\<close>.\<close>

definition no_population :: "tensor list \<Rightarrow> int \<Rightarrow> bool \<Rightarrow> error + population" where
  "no_population weights n tlearn = Inl CollaboratorError"

definition varied_rng :: rng where
  "varied_rng =
     \<lparr>floats = smap (\<lambda>n. if n = 0 then 1 / 4 else if n = 1 then 5 / 8 else 1 / 2) (fromN 0),
      ints = sconst 0\<rparr>"

section \<open>Greedy acceptance\<close>

lemma length_where_rows:
  "length (where_rows c a b) = min (length c) (min (length a) (length b))"
  by (simp add: where_rows_def)

lemma nth_where_rows:
  "i < length c \<Longrightarrow> i < length a \<Longrightarrow> i < length b \<Longrightarrow>
   where_rows c a b ! i = (if c ! i then a ! i else b ! i)"
  by (simp add: where_rows_def)

lemma length_population_fitness: "length (population_fitness fit pop n) = n"
  by (simp add: population_fitness_def)

lemma nth_population_fitness:
  "i < n \<Longrightarrow> population_fitness fit pop n ! i = fit (individual pop i)"
  by (simp add: population_fitness_def)

lemma individual_where_rows:
  assumes "length xp = length x"
      and "\<forall>s < length x. i < length (x ! s) \<and> i < length (xp ! s)"
      and "i < length c"
  shows "individual (map (\<lambda>(a, b). where_rows c b a) (zip x xp)) i =
         (if c ! i then individual xp i else individual x i)"
  using assms
  by (auto simp: individual_def list_eq_iff_nth_eq nth_where_rows)

text \<open>
  Claim C7. After \<^verbatim>\<open>update_improved_positions\<close>, member \<open>i\<close> holds the proposal exactly
  when the proposal's fitness is strictly smaller than the member's (\<open>FP[i] < F[i]\<close>, both
  as evaluated by this step), and the current candidate otherwise; the replacement takes
  all slots of the member together; and the fitness stored for the member is the minimum of
  the two, which is the fitness of the candidate that was kept.
\<close>

theorem update_improved_positions_greedy:
  assumes "length (XP st) = length (X st)"
      and "\<forall>x \<in> set (X st). length x = N cfg"
      and "\<forall>x \<in> set (XP st). length x = N cfg"
      and "i < N cfg"
  shows "individual (X (update_improved_positions fit cfg st)) i =
           (if fit (individual (XP st) i) < fit (individual (X st) i)
            then individual (XP st) i else individual (X st) i)
       \<and> FX (update_improved_positions fit cfg st) ! i =
           min (fit (individual (X st) i)) (fit (individual (XP st) i))
       \<and> FX (update_improved_positions fit cfg st) ! i =
           fit (individual (X (update_improved_positions fit cfg st)) i)"
proof -
  let ?f = "population_fitness fit (X st) (N cfg)"
  let ?fp = "population_fitness fit (XP st) (N cfg)"
  let ?c = "map (\<lambda>(a, b). a < b) (zip ?fp ?f)"
  have lc: "length ?c = N cfg" by (simp add: length_population_fitness)
  have ci: "?c ! i = (fit (individual (XP st) i) < fit (individual (X st) i))"
    using assms(4) by (simp add: length_population_fitness nth_population_fitness)
  have rows: "\<forall>s < length (X st). i < length (X st ! s) \<and> i < length (XP st ! s)"
    using assms by (metis nth_mem)
  have x': "X (update_improved_positions fit cfg st) =
            map (\<lambda>(x, xp). where_rows ?c xp x) (zip (X st) (XP st))"
    by (simp add: update_improved_positions_def Let_def)
  have f': "FX (update_improved_positions fit cfg st) = where_rows ?c ?fp ?f"
    by (simp add: update_improved_positions_def Let_def)
  have ind: "individual (X (update_improved_positions fit cfg st)) i =
             (if ?c ! i then individual (XP st) i else individual (X st) i)"
    unfolding x' using assms(1) rows lc assms(4)
    by (intro individual_where_rows) simp_all
  have fx: "FX (update_improved_positions fit cfg st) ! i =
            (if ?c ! i then ?fp ! i else ?f ! i)"
    unfolding f' using lc assms(4)
    by (intro nth_where_rows) (simp_all add: length_population_fitness)
  show ?thesis
    using ind fx ci assms(4) by (auto simp: nth_population_fitness min_def)
qed

theorem update_improved_positions_greedy_witness:
  "individual (X (update_improved_positions abs_fitness example_config example_stbo_state)) 0
     = [[Fin 2]]
   \<and> FX (update_improved_positions abs_fitness example_config example_stbo_state) ! 0 = 2"
  using update_improved_positions_greedy
          [of example_stbo_state example_config 0 abs_fitness]
  by (simp add: example_stbo_state_def example_config_def N_def individual_def
        abs_fitness_def)


section \<open>The imitation phase\<close>

lemma length_fisher_yates: "length (fisher_yates k i xs s) = length xs"
  by (induction k arbitrary: i xs s) (simp_all add: Let_def)

lemma mset_fisher_yates:
  "k + i \<le> length xs \<Longrightarrow> mset (fisher_yates k i xs s) = mset xs"
proof (induction k arbitrary: i xs s)
  case 0
  then show ?case by simp
next
  case (Suc k)
  let ?j = "i + shd s mod (length xs - i)"
  have i: "i < length xs" using Suc.prems by simp
  then have j: "?j < length xs"
    using mod_less_divisor [of "length xs - i" "shd s"] by linarith
  have "mset (xs[i := xs ! ?j, ?j := xs ! i]) = mset xs"
    using i j by (simp add: mset_swap)
  moreover have "k + Suc i \<le> length (xs[i := xs ! ?j, ?j := xs ! i])"
    using Suc.prems by simp
  ultimately show ?case
    using Suc.IH [of "Suc i" "xs[i := xs ! ?j, ?j := xs ! i]" "stl s"]
    by (simp add: Let_def)
qed

lemma shuffle_perm: "mset (fst (shuffle xs g)) = mset xs"
  by (simp add: shuffle_def mset_fisher_yates)

lemma shuffle_upt:
  "distinct (fst (shuffle [0..<m] g)) \<and> set (fst (shuffle [0..<m] g)) = {0..<m}
   \<and> length (fst (shuffle [0..<m] g)) = m"
proof -
  have m: "mset (fst (shuffle [0..<m] g)) = mset [0..<m]" by (rule shuffle_perm)
  then have "distinct (fst (shuffle [0..<m] g))"
    using distinct_upt mset_eq_imp_distinct_iff by blast
  moreover have "set (fst (shuffle [0..<m] g)) = {0..<m}"
    using m mset_eq_setD by fastforce
  moreover have "length (fst (shuffle [0..<m] g)) = m"
    using m mset_eq_length by fastforce
  ultimately show ?thesis by simp
qed

lemma slice_to_sub: "set (slice_to ms xs) \<subseteq> set xs"
  by (auto simp: slice_to_def dest: in_set_takeD)

lemma slice_to_distinct: "distinct xs \<Longrightarrow> distinct (slice_to ms xs)"
  by (simp add: slice_to_def)

lemma length_slice_to:
  "length (slice_to ms xs) =
     (if 0 \<le> ms then min (nat ms) (length xs) else length xs - nat (- ms))"
  by (simp add: slice_to_def min.commute)

lemma length_scatter:
  "length (tensor_scatter_nd_update t idx upd) = length t"
proof -
  have "length (fold (\<lambda>(i, u) acc. acc[i := u]) ps t) = length t" for ps :: "(nat \<times> 'a) list"
    by (induction ps arbitrary: t) (simp_all add: case_prod_beta)
  then show ?thesis by (simp add: tensor_scatter_nd_update_def)
qed

lemma nth_scatter_gather:
  "p < length t \<Longrightarrow>
   tensor_scatter_nd_update t idx (gather inst idx) ! p =
     (if p \<in> set idx then inst ! p else t ! p)"
proof (induction idx arbitrary: t)
  case Nil
  then show ?case by (simp add: tensor_scatter_nd_update_def gather_def)
next
  case (Cons a idx)
  have "tensor_scatter_nd_update t (a # idx) (gather inst (a # idx)) =
        tensor_scatter_nd_update (t[a := inst ! a]) idx (gather inst idx)"
    by (simp add: tensor_scatter_nd_update_def gather_def)
  then show ?case
    using Cons.IH [of "t[a := inst ! a]"] Cons.prems
    by (auto simp: nth_list_update)
qed

lemma concat_uniform_nth:
  "\<forall>row \<in> set x. length row = k \<Longrightarrow> i < length x \<Longrightarrow> j < k \<Longrightarrow>
   concat x ! (i * k + j) = x ! i ! j"
proof (induction x arbitrary: i)
  case Nil
  then show ?case by simp
next
  case (Cons r x)
  show ?case
  proof (cases i)
    case 0
    then show ?thesis using Cons.prems by (simp add: nth_append)
  next
    case (Suc i')
    then have "concat (r # x) ! (i * k + j) = concat x ! (i' * k + j)"
      using Cons.prems by (simp add: nth_append)
    then show ?thesis using Cons Suc by simp
  qed
qed

lemma length_concat_uniform:
  "\<forall>row \<in> set x. length row = k \<Longrightarrow> length (concat x) = length x * k"
  by (induction x) simp_all

lemma unflatten_uniform:
  "length ys = n * k \<Longrightarrow>
   length (unflatten (replicate n k) ys) = n \<and>
   (\<forall>i < n. unflatten (replicate n k) ys ! i = take k (drop (i * k) ys))"
proof (induction n arbitrary: ys)
  case 0
  then show ?case by simp
next
  case (Suc n)
  have l: "length (drop k ys) = n * k" using Suc.prems by simp
  note ih = Suc.IH [OF l]
  show ?case
  proof (intro conjI allI impI)
    show "length (unflatten (replicate (Suc n) k) ys) = Suc n" using ih by simp
  next
    fix i assume "i < Suc n"
    then show "unflatten (replicate (Suc n) k) ys ! i = take k (drop (i * k) ys)"
      using ih by (cases i) (simp_all add: add.commute)
  qed
qed

lemma reshape_like_uniform:
  assumes "\<forall>row \<in> set x. length row = k" and "length t = length x * k"
  shows "length (reshape_like x t) = length x"
    and "i < length x \<Longrightarrow> length (reshape_like x t ! i) = k"
    and "i < length x \<Longrightarrow> j < k \<Longrightarrow> reshape_like x t ! i ! j = t ! (i * k + j)"
proof -
  have r: "map length x = replicate (length x) k"
    using assms(1) by (simp add: map_replicate_const [symmetric] cong: map_cong)
  note u = unflatten_uniform [OF assms(2)]
  show "length (reshape_like x t) = length x" using u by (simp add: reshape_like_def r)
  {
    assume i: "i < length x"
    then have e: "reshape_like x t ! i = take k (drop (i * k) t)"
      using u by (simp add: reshape_like_def r)
    have "i * k + k \<le> length x * k"
      using i by (metis Suc_leI mult_Suc mult_le_mono1 add.commute)
    then show "length (reshape_like x t ! i) = k" using e assms(2) by simp
    assume "j < k"
    moreover have "i * k \<le> length t"
      using i assms(2) by simp
    ultimately show "reshape_like x t ! i ! j = t ! (i * k + j)" using e by simp
  }
qed


text \<open>The imitation phase as the specification words it: for every member \<open>i\<close>, some set
  of exactly \<open>ms\<close> positions of the member's own flattened parameter vector, with \<open>m\<close> the
  element count of that vector, takes the instructor's values, and the other positions keep
  the member's.\<close>

definition claimed_imitation ::
  "'a config_scheme \<Rightarrow> nat \<Rightarrow> nat list \<Rightarrow> population \<Rightarrow> population \<Rightarrow> bool" where
  "claimed_imitation cfg g si x xp =
     (\<forall>i < N cfg. \<exists>S.
        S \<subseteq> {0..<length (concat (individual x i))}
        \<and> int (card S) = stbo_ms cfg g (length (concat (individual x i)))
        \<and> (\<forall>j < length (concat (individual x i)).
              concat (individual xp i) ! j =
                (if j \<in> S then concat (individual x (si ! i)) ! j
                 else concat (individual x i) ! j)))"

text \<open>A run that reaches the imitation phase with two different members. The random source
  gives \<open>7/8\<close> and \<open>5/8\<close> for the initial population and \<open>0\<close> afterwards, and \<open>1\<close> for every
  integer draw: the population starts at \<open>3/4\<close> and \<open>1/4\<close>, the training phase of the first
  pass makes member 1 the instructor of both members and changes nothing, and the shuffle
  of the imitation phase puts position 1 first.\<close>

definition imitation_rng :: rng where
  "imitation_rng =
     \<lparr>floats = smap (\<lambda>n. if n = 0 then 7 / 8 else if n = 1 then 5 / 8 else 0) (fromN 0),
      ints = sconst 1\<rparr>"

definition imitation_init :: stbo_state where
  "imitation_init =
     \<lparr>gen = 0, best_fitness = Fin (1 / 4), model_weights = [[Fin 0]],
      random = \<lparr>floats = smap (\<lambda>n. if n = 0 then 7 / 8 else if n = 1 then 5 / 8 else 0)
                          (fromN 2),
                ints = sconst 1\<rparr>,
      trace = [Evaluate],
      X = [[[Fin (3 / 4)], [Fin (1 / 4)]]], FX = [3 / 4, 1 / 4],
      XP = [[[Fin (3 / 4)], [Fin (1 / 4)]]], FP = [3 / 4, 1 / 4], SI = [0, 0]\<rparr>"

definition imitation_state :: stbo_state where
  "imitation_state =
     update_improved_positions abs_fitness example_config
       (stbo_eq_5 (update_SI example_config imitation_init))"

text \<open>
  Claim C3, as amended. In \<^verbatim>\<open>eq_7_and_8\<close>, for each slot, \<open>m\<close> is the element count of the
  slot's tensor for the whole population (\<open>N\<close> rows of \<open>k\<close> elements, \<open>m = N * k\<close>) and
  \<open>ms = round(1 + gen/(2T) * m)\<close>; the first \<open>ms\<close> entries of a shuffle of \<open>[0, m)\<close> are the
  selected positions \<open>SDi\<close>: distinct flat positions of the population tensor, \<open>min ms m\<close> of
  them for \<open>ms \<ge> 0\<close>. The proposal has the shape of \<open>x\<close>; its element \<open>j\<close> of member \<open>i\<close>
  is the instructor's element \<open>x[SI[i]][j]\<close> when the flat position \<open>i * k + j\<close> was
  selected and the member's own element \<open>x[i][j]\<close> otherwise.
\<close>

theorem eq_7_and_8_slot_positions:
  assumes "\<forall>row \<in> set x. length row = k"
      and "length si = length x"
      and "\<forall>s \<in> set si. s < length x"
  shows "\<exists>SDi.
           SDi = slice_to (stbo_ms cfg g (length x * k)) (fst (shuffle [0..<length x * k] rg))
         \<and> distinct SDi \<and> set SDi \<subseteq> {0..<length x * k}
         \<and> length SDi =
              (if 0 \<le> stbo_ms cfg g (length x * k)
               then min (nat (stbo_ms cfg g (length x * k))) (length x * k)
               else length x * k - nat (- stbo_ms cfg g (length x * k)))
         \<and> length (fst (eq_7_and_8_slot cfg g si (x, xp0) rg)) = length x
         \<and> (\<forall>i < length x.
               length (fst (eq_7_and_8_slot cfg g si (x, xp0) rg) ! i) = k
               \<and> (\<forall>j < k. fst (eq_7_and_8_slot cfg g si (x, xp0) rg) ! i ! j =
                     (if i * k + j \<in> set SDi then x ! (si ! i) ! j else x ! i ! j)))"
proof -
  let ?m = "length x * k"
  let ?SDi = "slice_to (stbo_ms cfg g ?m) (fst (shuffle [0..<?m] rg))"
  let ?inst = "concat (gather x si)"
  let ?flat = "tensor_scatter_nd_update (concat x) ?SDi (gather ?inst ?SDi)"
  have lc: "length (concat x) = ?m" using assms(1) by (rule length_concat_uniform)
  have xp: "fst (eq_7_and_8_slot cfg g si (x, xp0) rg) = reshape_like x ?flat"
    by (simp add: eq_7_and_8_slot_def Let_def lc case_prod_beta)
  have lf: "length ?flat = ?m" by (simp add: length_scatter lc)
  have grow: "\<forall>row \<in> set (gather x si). length row = k"
    using assms(1,3) by (auto simp: gather_def)
  have d: "distinct ?SDi" by (simp add: slice_to_distinct shuffle_upt)
  have sub: "set ?SDi \<subseteq> {0..<?m}" using slice_to_sub shuffle_upt by fastforce
  have len: "length ?SDi =
              (if 0 \<le> stbo_ms cfg g ?m then min (nat (stbo_ms cfg g ?m)) ?m
               else ?m - nat (- stbo_ms cfg g ?m))"
    by (simp add: length_slice_to shuffle_upt)
  have elems: "\<forall>i < length x.
      length (reshape_like x ?flat ! i) = k
      \<and> (\<forall>j < k. reshape_like x ?flat ! i ! j =
            (if i * k + j \<in> set ?SDi then x ! (si ! i) ! j else x ! i ! j))"
  proof (intro allI impI conjI)
    fix i assume i: "i < length x"
    show "length (reshape_like x ?flat ! i) = k"
      using reshape_like_uniform(2) [OF assms(1) lf i] .
    fix j assume j: "j < k"
    have p: "i * k + j < ?m"
    proof -
      have "i * k + k \<le> length x * k"
        using i by (metis Suc_leI mult_Suc mult_le_mono1 add.commute)
      then show ?thesis using j by linarith
    qed
    have "reshape_like x ?flat ! i ! j = ?flat ! (i * k + j)"
      using reshape_like_uniform(3) [OF assms(1) lf i j] .
    also have "\<dots> = (if i * k + j \<in> set ?SDi then ?inst ! (i * k + j)
                       else concat x ! (i * k + j))"
      using p lc by (intro nth_scatter_gather) simp
    also have "?inst ! (i * k + j) = gather x si ! i ! j"
      using grow i j assms(2) by (intro concat_uniform_nth) (simp_all add: gather_def)
    also have "gather x si ! i = x ! (si ! i)"
      using i assms(2) by (simp add: gather_def)
    also have "concat x ! (i * k + j) = x ! i ! j"
      using assms(1) i j by (rule concat_uniform_nth)
    finally show "reshape_like x ?flat ! i ! j =
        (if i * k + j \<in> set ?SDi then x ! (si ! i) ! j else x ! i ! j)" .
  qed
  have "length (reshape_like x ?flat) = length x"
    using reshape_like_uniform(1) [OF assms(1) lf] .
  then show ?thesis
    unfolding xp using d sub len elems by blast
qed

lemma upt_2: "[0..<2] = [0, Suc 0]"
  by (simp add: upt_rec numeral_2_eq_2)

lemma stbo_ms_example: "stbo_ms example_config 0 (Suc (Suc 0)) = 1"
  by (simp add: stbo_ms_def example_config_def T_def numeral_tf_float tf_float_arith
        round_half_even_def trunc_def)

lemma stbo_ms_example1: "stbo_ms example_config 0 (Suc 0) = 1"
  by (simp add: stbo_ms_def example_config_def T_def numeral_tf_float tf_float_arith
        round_half_even_def trunc_def)

lemmas imitation_eval =
  example_config_def N_def T_def Let_def tf_float_arith numeral_tf_float signed_inf_def
  uniform_def uniform_tensor_def uniform_int_def uniform_int_tensor_def
  population_fitness_def individual_def abs_fitness_def gather_def upt_2 numeral_2_eq_2

lemma imitation_init:
  "stbo_init no_population abs_fitness example_config [[Fin 0]] imitation_rng
     = Inr imitation_init"
  by (simp add: stbo_init_def stbo_eq_2_def stbo_eq_2_slot_def imitation_rng_def
        imitation_init_def imitation_eval)

lemma imitation_state:
  "gen imitation_state = 0 \<and> SI imitation_state = [1, 1]
   \<and> X imitation_state = [[[Fin (3 / 4)], [Fin (1 / 4)]]]
   \<and> XP imitation_state = [[[Fin (3 / 4)], [Fin (1 / 4)]]]
   \<and> ints (random imitation_state) = sconst 1"
  by (simp add: imitation_state_def imitation_init_def update_SI_def update_SI_step_def
        stbo_eq_4_def stbo_eq_5_def stbo_eq_5_slot_def update_improved_positions_def
        where_rows_def reshape_like_def imitation_eval)

lemma imitation_example:
  "XP (eq_7_and_8 example_config imitation_state) = [[[Fin (3 / 4)], [Fin (1 / 4)]]]"
proof -
  have "XP (eq_7_and_8 example_config imitation_state)
      = [fst (eq_7_and_8_slot example_config 0 [1, 1]
          ([[Fin (3 / 4)], [Fin (1 / 4)]], [[Fin (3 / 4)], [Fin (1 / 4)]])
          (random imitation_state))]"
    using imitation_state by (simp add: eq_7_and_8_def case_prod_beta)
  also have "\<dots> = [[[Fin (3 / 4)], [Fin (1 / 4)]]]"
    using imitation_state
    by (simp add: eq_7_and_8_slot_def stbo_ms_example shuffle_def upt_2
          slice_to_def tensor_scatter_nd_update_def gather_def reshape_like_def Let_def)
  finally show ?thesis .
qed

text \<open>Claim C3 as stated fails. In the first pass of the run above, the imitation phase
  works on the members \<open>3/4\<close> and \<open>1/4\<close>, both with member 1 as instructor. One position of
  the population tensor is selected, that of member 1; member 0, for which the claim asks
  one position to take the instructor's \<open>1/4\<close>, keeps \<open>3/4\<close>.\<close>

theorem claimed_imitation_counterexample:
  "stbo_init no_population abs_fitness example_config [[Fin 0]] imitation_rng
     = Inr imitation_init
   \<and> stbo_continues example_config imitation_init
   \<and> SI imitation_state = [1, 1]
   \<and> \<not> claimed_imitation example_config (gen imitation_state) (SI imitation_state)
       (X imitation_state) (XP (eq_7_and_8 example_config imitation_state))"
proof (intro conjI)
  show "stbo_init no_population abs_fitness example_config [[Fin 0]] imitation_rng
     = Inr imitation_init"
    by (rule imitation_init)
  show "stbo_continues example_config imitation_init"
    by (simp add: stbo_continues_def example_config_def imitation_init_def T_def
          less_tf_float_def less_eq_tf_float_def)
  show "SI imitation_state = [1, 1]" using imitation_state by simp
  show "\<not> claimed_imitation example_config (gen imitation_state) (SI imitation_state)
       (X imitation_state) (XP (eq_7_and_8 example_config imitation_state))"
  proof
    assume a: "claimed_imitation example_config (gen imitation_state) (SI imitation_state)
       (X imitation_state) (XP (eq_7_and_8 example_config imitation_state))"
    have n: "(0::nat) < N example_config" by (simp add: N_def example_config_def)
    from a [unfolded claimed_imitation_def, rule_format, OF n]
    obtain S where s: "S \<subseteq> {0..<Suc 0}" "int (card S) = 1"
      and e: "\<forall>j < Suc 0.
                concat (individual (XP (eq_7_and_8 example_config imitation_state)) 0) ! j
                = (if j \<in> S
                   then concat (individual (X imitation_state) (SI imitation_state ! 0)) ! j
                   else concat (individual (X imitation_state) 0) ! j)"
      using imitation_state by (auto simp: individual_def stbo_ms_example1)
    have "S \<noteq> {}" using s(2) by auto
    then have "0 \<in> S" using s(1) by auto
    with e have "concat (individual (XP (eq_7_and_8 example_config imitation_state)) 0) ! 0
        = concat (individual (X imitation_state) (SI imitation_state ! 0)) ! 0"
      by simp
    then have "concat (individual [[[Fin (3 / 4)], [Fin (1 / 4)]]] 0) ! 0
        = concat (individual (X imitation_state) (SI imitation_state ! 0)) ! 0"
      by (simp only: imitation_example)
    then show False
      using imitation_state by (simp add: individual_def)
  qed
qed

theorem eq_7_and_8_slot_positions_witness:
  "length (fst (eq_7_and_8_slot example_config 0 [1, 1] ([[Fin 3], [Fin 1]], [])
                 (const_rng (1 / 2) 1))) = 2
   \<and> fst (eq_7_and_8_slot example_config 0 [1, 1] ([[Fin 3], [Fin 1]], [])
                 (const_rng (1 / 2) 1)) ! 0 ! 0 = Fin 3
   \<and> fst (eq_7_and_8_slot example_config 0 [1, 1] ([[Fin 3], [Fin 1]], [])
                 (const_rng (1 / 2) 1)) ! 1 ! 0 = Fin 1"
  using eq_7_and_8_slot_positions
          [of "[[Fin 3], [Fin 1]]" 1 "[1, 1]" example_config 0 "const_rng (1 / 2) 1" "[]"]
  by (simp add: stbo_ms_example shuffle_def const_rng_def upt_2 slice_to_def)


section \<open>An example run of AVOA\<close>

lemmas avoa_eval =
  avoa_defaults_def example_population_def two_phase_rng_def
  avoa_init_def N_def T_def Let_def
  tf_float_arith numeral_tf_float signed_inf_def
  uniform_def uniform_tensor_def categorical_def
  population_fitness_def individual_def abs_fitness_def gather_def

lemmas avoa_steps =
  avoa_def avoa_loop.simps avoa_generation_def avoa_finish_def sweep_def
  update_best_vultures_def argsort_def upt_2
  update_vulture_def avoa_eq_1_def avoa_eq_3_def avoa_eq_4_def avoa_eq_6_def avoa_eq_7_def
  avoa_eq_8_def avoa_eq_15_def avoa_eq_16_def eq_15_elem_def eq_15_divisor_def
  log_fitness_def save_best_periodic_def save_best_final_def apply_best_solution_def
  assign_add_1_def

text \<open>The run on the example inputs: the model weights, the population and the trace at
  the end. The first pass evaluates fitness \<open>0\<close> and \<open>1/2\<close>; both members then move to
  \<open>- 7/8\<close> by Eq. 8, and Eq. 16 leaves them there in the second pass.\<close>

lemma avoa_example_run:
  "map_option (map_sum id (\<lambda>st. (model_weights st, P st, trace st, gen st)))
     (avoa example_population example_gamma abs_fitness avoa_defaults [[Fin 0]] two_phase_rng)
   = Some (Inr ([[Fin (- 7 / 8)]], [[[Fin (- 7 / 8)], [Fin (- 7 / 8)]]],
        [Evaluate, TrainingStatus 0 (Fin 0), Evaluate, TrainingStatus 1 (Fin (7 / 8)),
         ApplyBest], 2))"
  by (simp add: avoa_steps avoa_eval is_int_def power2_eq_square)


section \<open>An example run of STBO\<close>

lemma assign_add_1_0: "assign_add_1 0 = Suc 0"
  by (simp add: assign_add_1_def)

lemma assign_add_1_1: "assign_add_1 (Suc 0) = Suc (Suc 0)"
  by (simp add: assign_add_1_def)

lemmas stbo_generation_unf = stbo_generation_def [unfolded Let_def]

lemmas stbo_eval =
  example_config_def varied_rng_def N_def T_def Let_def
  tf_float_arith numeral_tf_float signed_inf_def
  uniform_def uniform_tensor_def uniform_int_def uniform_int_tensor_def
  population_fitness_def individual_def abs_fitness_def gather_def upt_2 numeral_2_eq_2

lemmas stbo_steps =
  update_SI_def update_SI_step_def stbo_eq_4_def
  stbo_eq_5_def stbo_eq_5_slot_def update_improved_positions_def where_rows_def
  eq_7_and_8_def eq_7_and_8_slot_def stbo_ms_def shuffle_def slice_to_def
  tensor_scatter_nd_update_def reshape_like_def
  stbo_eq_10_def stbo_eq_10_slot_def stbo_eq_10_elem_def clip_by_value_def tf_minimum_def
  tf_maximum_def round_half_even_def trunc_def
  log_fitness_def save_best_periodic_def save_best_final_def apply_best_solution_def
  assign_add_1_0 assign_add_1_1

text \<open>The run on the example inputs: the model weights, the population and the trace at
  the end. The population starts at \<open>- 1/2\<close> and \<open>1/4\<close>; the training phase improves the
  first member in the first pass and the second member in the second pass.\<close>

lemma stbo_example_run:
  "map_option (map_sum id (\<lambda>st. (model_weights st, X st, trace st, gen st)))
     (stbo no_population abs_fitness example_config [[Fin 0]] varied_rng)
   = Some (Inr ([[Fin (1 / 16)]], [[[Fin (- 1 / 8)], [Fin (1 / 16)]]],
        [Evaluate, Evaluate, Evaluate, Evaluate, Evaluate, Evaluate, Evaluate,
         TrainingStatus 0 (Fin (1 / 8)),
         Evaluate, Evaluate, Evaluate, Evaluate, Evaluate, Evaluate,
         TrainingStatus 1 (Fin (1 / 16)),
         ApplyBest], 2))"
  by (simp add: stbo_def stbo_init_def stbo_eq_2_def stbo_eq_2_slot_def stbo_loop.simps
        stbo_continues_def stbo_finish_def stbo_generation_unf stbo_steps stbo_eval)

section \<open>The calls at the end of a run\<close>

fun is_forced_log :: "event \<Rightarrow> bool" where
  "is_forced_log (LogFitness b n force) = force"
| "is_forced_log e = False"

fun is_checkpoint :: "event \<Rightarrow> bool" where
  "is_checkpoint (SaveIndividual k) = True"
| "is_checkpoint e = False"

lemma avoa_returns:
  "avoa create gamma fit cfg weights g = Some (Inr ast) \<Longrightarrow>
   \<exists>st0 st. avoa_init create gamma cfg weights g = Inr st0
          \<and> avoa_loop fit cfg st0 = Some (Inr st) \<and> avoa_finish fit cfg st = Inr ast"
  by (auto simp: avoa_def split: sum.splits option.splits)

lemma stbo_returns:
  "stbo create fit cfg weights g = Some (Inr sst) \<Longrightarrow>
   \<exists>st0 st. stbo_init create fit cfg weights g = Inr st0
          \<and> stbo_loop fit cfg st0 = Some (Inr st) \<and> stbo_finish fit cfg st = Inr sst"
  by (auto simp: stbo_def split: sum.splits option.splits)

lemma save_best_final_cases:
  "save_best_final cfg fv = Inr saved \<Longrightarrow>
   (if 0 < best_individual_save_frequency cfg then \<exists>k. saved = [SaveIndividual k]
    else saved = [])"
  by (auto simp: save_best_final_def split: sum.splits if_splits)

text \<open>
  Claim C5, as amended. At the end of a run that returns, after the best solution has been
  applied, \<^verbatim>\<open>avoa\<close> and \<^verbatim>\<open>stbo\<close> make one fitness-log call with the forced write exactly
  when \<^verbatim>\<open>fitness_log_frequency > 0\<close>, and then one checkpoint call exactly when
  \<^verbatim>\<open>best_individual_save_frequency > 0\<close>; with a frequency that is not positive the
  call is not made.
\<close>

theorem run_end_calls:
  "(avoa create gamma fit acfg weights g = Some (Inr ast) \<longrightarrow>
      (\<exists>st0 st saved.
         avoa_init create gamma acfg weights g = Inr st0
         \<and> avoa_loop fit acfg st0 = Some (Inr st)
         \<and> trace ast = trace st @ [ApplyBest]
              @ (if 0 < fitness_log_frequency acfg
                 then [LogFitness (best_fitness st) (fitness_log_frequency acfg) True] else [])
              @ saved
         \<and> (if 0 < best_individual_save_frequency acfg then \<exists>k. saved = [SaveIndividual k]
             else saved = [])))
   \<and> (stbo create' fit' cfg weights' g' = Some (Inr sst) \<longrightarrow>
      (\<exists>st0 st saved.
         stbo_init create' fit' cfg weights' g' = Inr st0
         \<and> stbo_loop fit' cfg st0 = Some (Inr st)
         \<and> trace sst = trace st @ [ApplyBest]
              @ (if 0 < fitness_log_frequency cfg
                 then [LogFitness (best_fitness st) (fitness_log_frequency cfg) True] else [])
              @ saved
         \<and> (if 0 < best_individual_save_frequency cfg then \<exists>k. saved = [SaveIndividual k]
             else saved = [])))"
proof (intro conjI impI)
  assume "avoa create gamma fit acfg weights g = Some (Inr ast)"
  then obtain st0 st where i: "avoa_init create gamma acfg weights g = Inr st0"
    and l: "avoa_loop fit acfg st0 = Some (Inr st)"
    and f: "avoa_finish fit acfg st = Inr ast"
    using avoa_returns by blast
  from f obtain best saved where s: "save_best_final acfg (fitness_values st) = Inr saved"
    and a: "ast = st\<lparr>model_weights := best,
                       trace := trace st @ [ApplyBest]
                         @ log_fitness acfg True (best_fitness st) @ saved\<rparr>"
    by (auto simp: avoa_finish_def split: sum.splits)
  show "\<exists>st0 st saved.
         avoa_init create gamma acfg weights g = Inr st0
         \<and> avoa_loop fit acfg st0 = Some (Inr st)
         \<and> trace ast = trace st @ [ApplyBest]
              @ (if 0 < fitness_log_frequency acfg
                 then [LogFitness (best_fitness st) (fitness_log_frequency acfg) True] else [])
              @ saved
         \<and> (if 0 < best_individual_save_frequency acfg then \<exists>k. saved = [SaveIndividual k]
             else saved = [])"
    using i l a save_best_final_cases [OF s]
    by (intro exI [of _ st0] exI [of _ st] exI [of _ saved]) (simp add: log_fitness_def)
next
  assume "stbo create' fit' cfg weights' g' = Some (Inr sst)"
  then obtain st0 st where i: "stbo_init create' fit' cfg weights' g' = Inr st0"
    and l: "stbo_loop fit' cfg st0 = Some (Inr st)"
    and f: "stbo_finish fit' cfg st = Inr sst"
    using stbo_returns by blast
  from f obtain best saved where s: "save_best_final cfg (FX st) = Inr saved"
    and a: "sst = st\<lparr>model_weights := best,
                       trace := trace st @ [ApplyBest]
                         @ log_fitness cfg True (best_fitness st) @ saved\<rparr>"
    by (auto simp: stbo_finish_def split: sum.splits)
  show "\<exists>st0 st saved.
         stbo_init create' fit' cfg weights' g' = Inr st0
         \<and> stbo_loop fit' cfg st0 = Some (Inr st)
         \<and> trace sst = trace st @ [ApplyBest]
              @ (if 0 < fitness_log_frequency cfg
                 then [LogFitness (best_fitness st) (fitness_log_frequency cfg) True] else [])
              @ saved
         \<and> (if 0 < best_individual_save_frequency cfg then \<exists>k. saved = [SaveIndividual k]
             else saved = [])"
    using i l a save_best_final_cases [OF s]
    by (intro exI [of _ st0] exI [of _ st] exI [of _ saved]) (simp add: log_fitness_def)
qed

text \<open>The example runs return.\<close>

lemma avoa_example_returns:
  "\<exists>st. avoa example_population example_gamma abs_fitness avoa_defaults [[Fin 0]] two_phase_rng
          = Some (Inr st)
        \<and> model_weights st = [[Fin (- 7 / 8)]]
        \<and> P st = [[[Fin (- 7 / 8)], [Fin (- 7 / 8)]]]
        \<and> trace st = [Evaluate, TrainingStatus 0 (Fin 0), Evaluate,
                       TrainingStatus 1 (Fin (7 / 8)), ApplyBest]
        \<and> gen st = 2"
  using avoa_example_run
  by (cases "avoa example_population example_gamma abs_fitness avoa_defaults [[Fin 0]]
               two_phase_rng")
     (auto simp: map_sum_def split: sum.splits)

lemma stbo_example_returns:
  "\<exists>st. stbo no_population abs_fitness example_config [[Fin 0]] varied_rng = Some (Inr st)
        \<and> model_weights st = [[Fin (1 / 16)]]
        \<and> X st = [[[Fin (- 1 / 8)], [Fin (1 / 16)]]]
        \<and> trace st = [Evaluate, Evaluate, Evaluate, Evaluate, Evaluate, Evaluate, Evaluate,
             TrainingStatus 0 (Fin (1 / 8)),
             Evaluate, Evaluate, Evaluate, Evaluate, Evaluate, Evaluate,
             TrainingStatus 1 (Fin (1 / 16)), ApplyBest]
        \<and> gen st = 2"
  using stbo_example_run
  by (cases "stbo no_population abs_fitness example_config [[Fin 0]] varied_rng")
     (auto simp: map_sum_def split: sum.splits)

text \<open>Claim C5 as stated fails: with the default frequencies \<open>- 1\<close>, the example runs of
  both optimizers return with no forced log call and no checkpoint call in their traces.\<close>

theorem run_end_calls_counterexample:
  "map_option (map_sum id (\<lambda>st. (filter is_forced_log (trace st), filter is_checkpoint (trace st))))
     (avoa example_population example_gamma abs_fitness avoa_defaults [[Fin 0]] two_phase_rng)
   = Some (Inr ([], []))
   \<and> map_option (map_sum id (\<lambda>st. (filter is_forced_log (trace st), filter is_checkpoint (trace st))))
     (stbo no_population abs_fitness example_config [[Fin 0]] varied_rng)
   = Some (Inr ([], []))"
  using avoa_example_returns stbo_example_returns by auto

theorem run_end_calls_witness:
  "\<exists>ast sst st0 st saved st0' st' saved'.
     avoa example_population example_gamma abs_fitness avoa_defaults [[Fin 0]] two_phase_rng
       = Some (Inr ast)
     \<and> stbo no_population abs_fitness example_config [[Fin 0]] varied_rng = Some (Inr sst)
     \<and> avoa_loop abs_fitness avoa_defaults st0 = Some (Inr st)
     \<and> trace ast = trace st @ [ApplyBest] @ saved \<and> saved = []
     \<and> stbo_loop abs_fitness example_config st0' = Some (Inr st')
     \<and> trace sst = trace st' @ [ApplyBest] @ saved' \<and> saved' = []"
proof -
  obtain ast where a: "avoa example_population example_gamma abs_fitness avoa_defaults [[Fin 0]]
      two_phase_rng = Some (Inr ast)"
    using avoa_example_returns by blast
  obtain sst where s: "stbo no_population abs_fitness example_config [[Fin 0]] varied_rng
      = Some (Inr sst)"
    using stbo_example_returns by blast
  show ?thesis
    using run_end_calls [of example_population example_gamma abs_fitness avoa_defaults
        "[[Fin 0]]" two_phase_rng ast no_population abs_fitness example_config "[[Fin 0]]"
        varied_rng sst] a s
    by (simp add: avoa_defaults_def example_config_def) blast
qed

section \<open>Shapes\<close>

text \<open>A population is well shaped for \<open>n\<close> members and slot sizes \<open>ks\<close> when it has one
  tensor per slot, of \<open>n\<close> rows of the slot's size.\<close>

definition slot_shaped :: "nat \<Rightarrow> nat \<Rightarrow> 'a list list \<Rightarrow> bool" where
  "slot_shaped n k x = (length x = n \<and> (\<forall>row \<in> set x. length row = k))"

definition well_shaped :: "nat \<Rightarrow> nat list \<Rightarrow> population \<Rightarrow> bool" where
  "well_shaped n ks pop = list_all2 (slot_shaped n) ks pop"

lemma map_rng_all2:
  "list_all2 (\<lambda>x y. \<exists>g'. y = fst (f x g')) xs (fst (map_rng f xs g))"
proof (induction xs arbitrary: g)
  case Nil
  show ?case by simp
next
  case (Cons x xs)
  show ?case
    using Cons.IH [of "snd (f x g)"]
    by (auto simp: case_prod_beta Let_def)
qed

lemma map_rng_zip_shaped:
  assumes "well_shaped n ks x" and "length xp = length x"
      and "\<And>k a b g'. slot_shaped n k a \<Longrightarrow> slot_shaped n k (fst (f (a, b) g'))"
  shows "well_shaped n ks (fst (map_rng f (zip x xp) g))"
proof -
  have a: "list_all2 (\<lambda>xxp y. \<exists>g'. y = fst (f xxp g')) (zip x xp) (fst (map_rng f (zip x xp) g))"
    by (rule map_rng_all2)
  have lx: "length ks = length x" and sx: "\<forall>s < length ks. slot_shaped n (ks ! s) (x ! s)"
    using assms(1) by (auto simp: well_shaped_def list_all2_conv_all_nth)
  show ?thesis
    unfolding well_shaped_def list_all2_conv_all_nth
  proof (intro conjI allI impI)
    show "length ks = length (fst (map_rng f (zip x xp) g))"
      using a lx assms(2) by (auto simp: list_all2_conv_all_nth)
  next
    fix s assume s: "s < length ks"
    then obtain g' where "fst (map_rng f (zip x xp) g) ! s = fst (f (zip x xp ! s) g')"
      using a lx assms(2) by (auto simp: list_all2_conv_all_nth)
    then have "fst (map_rng f (zip x xp) g) ! s = fst (f (x ! s, xp ! s) g')"
      using s lx assms(2) by simp
    then show "slot_shaped n (ks ! s) (fst (map_rng f (zip x xp) g) ! s)"
      using assms(3) sx s by simp
  qed
qed

lemma reshape_like_shaped:
  assumes "slot_shaped n k x" and "length t = n * k"
  shows "slot_shaped n k (reshape_like x t)"
proof -
  have r: "\<forall>row \<in> set x. length row = k" and l: "length x = n"
    using assms(1) by (auto simp: slot_shaped_def)
  have t: "length t = length x * k" using assms(2) l by simp
  have "length (reshape_like x t) = n"
    using reshape_like_uniform(1) [OF r t] l by simp
  moreover have "\<forall>row \<in> set (reshape_like x t). length row = k"
  proof
    fix row assume "row \<in> set (reshape_like x t)"
    then obtain i where i: "i < length (reshape_like x t)" and e: "row = reshape_like x t ! i"
      by (auto simp: in_set_conv_nth)
    then have "i < length x" using reshape_like_uniform(1) [OF r t] by simp
    then show "length row = k" using reshape_like_uniform(2) [OF r t] e by simp
  qed
  ultimately show ?thesis by (simp add: slot_shaped_def)
qed

lemma length_concat_shaped: "slot_shaped n k x \<Longrightarrow> length (concat x) = n * k"
  using length_concat_uniform [of x k] by (simp add: slot_shaped_def)

lemma gather_shaped:
  "slot_shaped n k x \<Longrightarrow> length si = n \<Longrightarrow> \<forall>s \<in> set si. s < n \<Longrightarrow>
   slot_shaped n k (gather x si)"
  by (auto simp: slot_shaped_def gather_def)

lemma length_uniform_tensor: "length (fst (uniform_tensor m lo hi g)) = m"
  by (simp add: uniform_tensor_def)

lemma length_uniform_int_tensor: "length (fst (uniform_int_tensor m lo hi g)) = m"
  by (simp add: uniform_int_tensor_def)

lemma stbo_eq_5_slot_shaped:
  assumes "slot_shaped n k x" and "length si = n" and "\<forall>s \<in> set si. s < n"
  shows "slot_shaped n k (fst (stbo_eq_5_slot si (x, xp0) g))"
proof -
  have c: "length (concat x) = n * k" using assms(1) by (rule length_concat_shaped)
  have gc: "length (concat (gather x si)) = n * k"
    using gather_shaped [OF assms] by (rule length_concat_shaped)
  show ?thesis
    using c gc
    by (simp add: stbo_eq_5_slot_def Let_def case_prod_beta length_uniform_tensor
          length_uniform_int_tensor reshape_like_shaped [OF assms(1)])
qed

lemma eq_7_and_8_slot_shaped:
  assumes "slot_shaped n k x"
  shows "slot_shaped n k (fst (eq_7_and_8_slot cfg gn si (x, xp0) g))"
  using length_concat_shaped [OF assms]
  by (simp add: eq_7_and_8_slot_def Let_def case_prod_beta length_scatter
        reshape_like_shaped [OF assms])

lemma stbo_eq_10_slot_shaped:
  assumes "slot_shaped n k x"
  shows "slot_shaped n k (fst (stbo_eq_10_slot cfg gn (x, xp0) g))"
  using length_concat_shaped [OF assms]
  by (simp add: stbo_eq_10_slot_def Let_def case_prod_beta length_uniform_tensor
        reshape_like_shaped [OF assms])

section \<open>The loop invariant of STBO\<close>

text \<open>At every pass of the loop the population is well shaped, the proposal has as many
  slots, every member has an instructor index, the fitness vector is the fitness of the
  population, and the best fitness is its minimum.\<close>

definition stbo_inv ::
  "(tensor list \<Rightarrow> real) \<Rightarrow> 'a config_scheme \<Rightarrow> nat list \<Rightarrow> stbo_state \<Rightarrow> bool" where
  "stbo_inv fit cfg ks st =
     (well_shaped (N cfg) ks (X st) \<and> length (XP st) = length (X st)
      \<and> length (SI st) = N cfg
      \<and> FX st = population_fitness fit (X st) (N cfg)
      \<and> best_fitness st = reduce_min (FX st))"

lemma well_shaped_length: "well_shaped n ks pop \<Longrightarrow> length pop = length ks"
  by (simp add: well_shaped_def list_all2_lengthD)

lemma well_shaped_rows:
  "well_shaped n ks pop \<Longrightarrow> x \<in> set pop \<Longrightarrow> length x = n"
  by (auto simp: well_shaped_def list_all2_conv_all_nth in_set_conv_nth slot_shaped_def)

lemma stbo_eq_4_bound: "i < length fx \<Longrightarrow> \<forall>j \<in> set (stbo_eq_4 fx i). j < length fx"
  by (auto simp: stbo_eq_4_def Let_def)

lemma stbo_eq_4_nonempty: "stbo_eq_4 fx i \<noteq> []"
  by (simp add: stbo_eq_4_def Let_def)

lemma update_SI_fold:
  "set is \<subseteq> {0..<n} \<Longrightarrow> length fx = n \<Longrightarrow> length si = n \<Longrightarrow>
   length (fst (fold (update_SI_step fx) is (si, g))) = n
   \<and> (\<forall>i < n. i \<in> set is \<or> si ! i < n \<longrightarrow>
          fst (fold (update_SI_step fx) is (si, g)) ! i < n)"
proof (induction "is" arbitrary: si g)
  case Nil
  then show ?case by simp
next
  case (Cons a "is")
  let ?csi = "stbo_eq_4 fx a"
  let ?sel = "fst (uniform_int 0 (length ?csi) g)"
  let ?si = "si[a := ?csi ! ?sel]"
  have a: "a < n" using Cons.prems(1) by simp
  have "?sel < length ?csi"
    using stbo_eq_4_nonempty [of fx a] by (simp add: uniform_int_def)
  then have v: "?csi ! ?sel < n"
    using stbo_eq_4_bound [of a fx] a Cons.prems(2) by simp
  have step: "update_SI_step fx a (si, g) = (?si, snd (uniform_int 0 (length ?csi) g))"
    by (simp add: update_SI_step_def Let_def case_prod_beta)
  have ih: "length (fst (fold (update_SI_step fx) is (?si, snd (uniform_int 0 (length ?csi) g)))) = n
   \<and> (\<forall>i < n. i \<in> set is \<or> ?si ! i < n \<longrightarrow>
          fst (fold (update_SI_step fx) is (?si, snd (uniform_int 0 (length ?csi) g))) ! i < n)"
    using Cons.prems by (intro Cons.IH) simp_all
  show ?case
  proof (intro conjI allI impI)
    show "length (fst (fold (update_SI_step fx) (a # is) (si, g))) = n"
      using ih step by simp
  next
    fix i assume i: "i < n" and h: "i \<in> set (a # is) \<or> si ! i < n"
    have c: "i \<in> set is \<or> ?si ! i < n"
      using h v i Cons.prems(3) by (cases "i = a") auto
    have "fst (fold (update_SI_step fx) is (?si, snd (uniform_int 0 (length ?csi) g))) ! i < n"
      using ih i c by blast
    then show "fst (fold (update_SI_step fx) (a # is) (si, g)) ! i < n"
      using step by simp
  qed
qed

lemma update_SI_valid:
  assumes "length (FX st) = N cfg" and "length (SI st) = N cfg"
  shows "length (SI (update_SI cfg st)) = N cfg
       \<and> (\<forall>s \<in> set (SI (update_SI cfg st)). s < N cfg)
       \<and> X (update_SI cfg st) = X st \<and> XP (update_SI cfg st) = XP st
       \<and> FX (update_SI cfg st) = FX st \<and> gen (update_SI cfg st) = gen st
       \<and> trace (update_SI cfg st) = trace st"
proof -
  have f: "length (fst (fold (update_SI_step (FX st)) [0..<N cfg] (SI st, random st))) = N cfg
   \<and> (\<forall>i < N cfg. i \<in> set [0..<N cfg] \<or> SI st ! i < N cfg \<longrightarrow>
          fst (fold (update_SI_step (FX st)) [0..<N cfg] (SI st, random st)) ! i < N cfg)"
    using assms by (intro update_SI_fold) simp_all
  have s: "SI (update_SI cfg st) = fst (fold (update_SI_step (FX st)) [0..<N cfg] (SI st, random st))"
    by (simp add: update_SI_def case_prod_beta)
  have "\<forall>s \<in> set (SI (update_SI cfg st)). s < N cfg"
    unfolding s using f by (auto simp: in_set_conv_nth)
  then show ?thesis
    using f s by (simp add: update_SI_def case_prod_beta)
qed

lemma stbo_eq_5_state:
  assumes "well_shaped (length (SI st)) ks (X st)" and "length (XP st) = length (X st)"
      and "\<forall>s \<in> set (SI st). s < length (SI st)"
  shows "well_shaped (length (SI st)) ks (XP (stbo_eq_5 st))
       \<and> X (stbo_eq_5 st) = X st \<and> FX (stbo_eq_5 st) = FX st \<and> SI (stbo_eq_5 st) = SI st
       \<and> gen (stbo_eq_5 st) = gen st \<and> trace (stbo_eq_5 st) = trace st"
proof -
  have "well_shaped (length (SI st)) ks
          (fst (map_rng (stbo_eq_5_slot (SI st)) (zip (X st) (XP st)) (random st)))"
    using assms(1,2)
    by (rule map_rng_zip_shaped) (simp add: stbo_eq_5_slot_shaped assms(3))
  then show ?thesis by (simp add: stbo_eq_5_def case_prod_beta)
qed

lemma eq_7_and_8_state:
  assumes "well_shaped n ks (X st)" and "length (XP st) = length (X st)"
  shows "well_shaped n ks (XP (eq_7_and_8 cfg st))
       \<and> X (eq_7_and_8 cfg st) = X st \<and> FX (eq_7_and_8 cfg st) = FX st
       \<and> SI (eq_7_and_8 cfg st) = SI st
       \<and> gen (eq_7_and_8 cfg st) = gen st \<and> trace (eq_7_and_8 cfg st) = trace st"
proof -
  have "well_shaped n ks
          (fst (map_rng (eq_7_and_8_slot cfg (gen st) (SI st)) (zip (X st) (XP st)) (random st)))"
    using assms by (rule map_rng_zip_shaped) (simp add: eq_7_and_8_slot_shaped)
  then show ?thesis by (simp add: eq_7_and_8_def case_prod_beta)
qed

lemma stbo_eq_10_state:
  assumes "well_shaped n ks (X st)" and "length (XP st) = length (X st)"
  shows "well_shaped n ks (XP (stbo_eq_10 cfg st))
       \<and> X (stbo_eq_10 cfg st) = X st \<and> FX (stbo_eq_10 cfg st) = FX st
       \<and> SI (stbo_eq_10 cfg st) = SI st
       \<and> gen (stbo_eq_10 cfg st) = gen st \<and> trace (stbo_eq_10 cfg st) = trace st"
proof -
  have "well_shaped n ks
          (fst (map_rng (stbo_eq_10_slot cfg (gen st)) (zip (X st) (XP st)) (random st)))"
    using assms by (rule map_rng_zip_shaped) (simp add: stbo_eq_10_slot_shaped)
  then show ?thesis by (simp add: stbo_eq_10_def case_prod_beta)
qed

lemma where_rows_shaped:
  assumes "slot_shaped n k a" and "slot_shaped n k b" and "length c = n"
  shows "slot_shaped n k (where_rows c a b)"
proof -
  have l: "length (where_rows c a b) = n"
    using assms by (simp add: length_where_rows slot_shaped_def)
  have "\<forall>row \<in> set (where_rows c a b). length row = k"
  proof
    fix row assume "row \<in> set (where_rows c a b)"
    then obtain i where i: "i < n" and r: "row = where_rows c a b ! i"
      using l by (auto simp: in_set_conv_nth)
    have "row = (if c ! i then a ! i else b ! i)"
      unfolding r using i assms by (intro nth_where_rows) (simp_all add: slot_shaped_def)
    then show "length row = k"
      using i assms by (auto simp: slot_shaped_def)
  qed
  then show ?thesis using l by (simp add: slot_shaped_def)
qed

lemma update_improved_positions_state:
  assumes x: "well_shaped (N cfg) ks (X st)" and xp: "well_shaped (N cfg) ks (XP st)"
  shows "well_shaped (N cfg) ks (X (update_improved_positions fit cfg st))
       \<and> XP (update_improved_positions fit cfg st) = XP st
       \<and> SI (update_improved_positions fit cfg st) = SI st
       \<and> gen (update_improved_positions fit cfg st) = gen st
       \<and> trace (update_improved_positions fit cfg st) = trace st @ [Evaluate, Evaluate]
       \<and> FX (update_improved_positions fit cfg st) =
           population_fitness fit (X (update_improved_positions fit cfg st)) (N cfg)
       \<and> (\<forall>i < N cfg. FX (update_improved_positions fit cfg st) ! i
                       \<le> population_fitness fit (X st) (N cfg) ! i)"
proof -
  let ?f = "population_fitness fit (X st) (N cfg)"
  let ?fp = "population_fitness fit (XP st) (N cfg)"
  let ?c = "map (\<lambda>(a, b). a < b) (zip ?fp ?f)"
  let ?st = "update_improved_positions fit cfg st"
  have lc: "length ?c = N cfg" by (simp add: length_population_fitness)
  have lx: "length (X st) = length ks" and lxp: "length (XP st) = length ks"
    using x xp by (simp_all add: well_shaped_length)
  have sx: "\<forall>s < length ks. slot_shaped (N cfg) (ks ! s) (X st ! s)"
    and sxp: "\<forall>s < length ks. slot_shaped (N cfg) (ks ! s) (XP st ! s)"
    using x xp by (auto simp: well_shaped_def list_all2_conv_all_nth)
  have x': "X ?st = map (\<lambda>(x, xp). where_rows ?c xp x) (zip (X st) (XP st))"
    by (simp add: update_improved_positions_def Let_def)
  have f': "FX ?st = where_rows ?c ?fp ?f"
    by (simp add: update_improved_positions_def Let_def)
  have w: "well_shaped (N cfg) ks (X ?st)"
    unfolding x' well_shaped_def list_all2_conv_all_nth
    using lx lxp sx sxp lc by (auto intro!: where_rows_shaped)
  have lf: "length (FX ?st) = N cfg"
    unfolding f' by (simp add: length_where_rows length_population_fitness)
  have nth: "\<forall>i < N cfg. FX ?st ! i = (if ?c ! i then ?fp ! i else ?f ! i)"
    unfolding f' using lc by (simp add: nth_where_rows length_population_fitness)
  have ci: "\<forall>i < N cfg. ?c ! i = (?fp ! i < ?f ! i)"
    by (simp add: length_population_fitness)
  have ind: "\<forall>i < N cfg. individual (X ?st) i =
               (if ?c ! i then individual (XP st) i else individual (X st) i)"
  proof (intro allI impI)
    fix i assume i: "i < N cfg"
    have rows: "\<forall>s < length (X st). i < length (X st ! s) \<and> i < length (XP st ! s)"
      using sx sxp lx i by (auto simp: slot_shaped_def)
    show "individual (X ?st) i = (if ?c ! i then individual (XP st) i else individual (X st) i)"
      unfolding x' using lx lxp rows lc i
      by (intro individual_where_rows) simp_all
  qed
  have sync: "FX ?st = population_fitness fit (X ?st) (N cfg)"
  proof (rule nth_equalityI)
    show "length (FX ?st) = length (population_fitness fit (X ?st) (N cfg))"
      using lf by (simp add: length_population_fitness)
  next
    fix i assume "i < length (FX ?st)"
    then have i: "i < N cfg" using lf by simp
    show "FX ?st ! i = population_fitness fit (X ?st) (N cfg) ! i"
      using nth ind i by (simp add: nth_population_fitness)
  qed
  have le: "\<forall>i < N cfg. FX ?st ! i \<le> ?f ! i"
    using nth ci by auto
  show ?thesis
    using w sync le by (simp add: update_improved_positions_def Let_def)
qed

lemma reduce_min_mono:
  assumes "length a = length b" and "\<forall>i < length a. a ! i \<le> b ! i"
  shows "reduce_min a \<le> reduce_min b"
proof (cases b)
  case Nil
  then show ?thesis using assms by (simp add: less_eq_tf_float_def)
next
  case (Cons y ys)
  then obtain x xs where a: "a = x # xs" using assms(1) by (cases a) auto
  have ra: "reduce_min a = Fin (Min (set a))" and rb: "reduce_min b = Fin (Min (set b))"
    using a Cons Min.set_eq_fold [of x xs] Min.set_eq_fold [of y ys] by simp_all
  have "Min (set b) \<in> set b" using Cons by (intro Min_in) simp_all
  then obtain j where j: "j < length b" "b ! j = Min (set b)"
    by (auto simp: in_set_conv_nth)
  have "Min (set a) \<le> a ! j" using j assms(1) by (intro Min_le) simp_all
  also have "\<dots> \<le> b ! j" using assms(1,2) j(1) by auto
  finally show ?thesis using ra rb j by (simp add: less_eq_tf_float_def)
qed

definition evaluations :: "event list \<Rightarrow> nat" where
  "evaluations tr = length (filter (\<lambda>e. e = Evaluate) tr)"

lemma evaluations_append: "evaluations (a @ b) = evaluations a + evaluations b"
  by (simp add: evaluations_def)

lemma evaluations_log_fitness: "evaluations (log_fitness cfg force b) = 0"
  by (simp add: evaluations_def log_fitness_def)

lemma evaluations_saved:
  "save_best_periodic cfg g fv = Inr saved \<Longrightarrow> evaluations saved = 0"
  by (auto simp: evaluations_def save_best_periodic_def split: if_splits sum.splits)

lemma stbo_generation_step:
  assumes inv: "stbo_inv fit cfg ks st"
      and gen: "stbo_generation fit cfg st = Inr st'"
  shows "stbo_inv fit cfg ks st' \<and> best_fitness st' \<le> best_fitness st
       \<and> gen st' = assign_add_1 (gen st)
       \<and> evaluations (trace st') = evaluations (trace st) + 6"
proof -
  define st1 where "st1 = update_SI cfg st"
  define st2 where "st2 = stbo_eq_5 st1"
  define st3 where "st3 = update_improved_positions fit cfg st2"
  define st4 where "st4 = eq_7_and_8 cfg st3"
  define st5 where "st5 = update_improved_positions fit cfg st4"
  define st6 where "st6 = stbo_eq_10 cfg st5"
  define st7 where "st7 = update_improved_positions fit cfg st6"
  have x0: "well_shaped (N cfg) ks (X st)" and lxp0: "length (XP st) = length (X st)"
    and lsi0: "length (SI st) = N cfg" and f0: "FX st = population_fitness fit (X st) (N cfg)"
    and b0: "best_fitness st = reduce_min (FX st)"
    using inv by (simp_all add: stbo_inv_def)
  have lf0: "length (FX st) = N cfg" using f0 by (simp add: length_population_fitness)
  note s1 = update_SI_valid [OF lf0 lsi0, folded st1_def]
  have "well_shaped (length (SI st1)) ks (X st1)" using s1 x0 by simp
  moreover have "length (XP st1) = length (X st1)" using s1 lxp0 by simp
  moreover have "\<forall>s \<in> set (SI st1). s < length (SI st1)" using s1 by simp
  ultimately have s2: "well_shaped (length (SI st1)) ks (XP (stbo_eq_5 st1))
       \<and> X (stbo_eq_5 st1) = X st1 \<and> FX (stbo_eq_5 st1) = FX st1
       \<and> SI (stbo_eq_5 st1) = SI st1
       \<and> gen (stbo_eq_5 st1) = gen st1 \<and> trace (stbo_eq_5 st1) = trace st1"
    by (rule stbo_eq_5_state)
  have x2: "well_shaped (N cfg) ks (X st2)" and xp2: "well_shaped (N cfg) ks (XP st2)"
    using s2 s1 x0 by (simp_all add: st2_def)
  note s3 = update_improved_positions_state [OF x2 xp2, of fit, folded st3_def]
  have x3: "well_shaped (N cfg) ks (X st3)" and xp3: "well_shaped (N cfg) ks (XP st3)"
    using s3 xp2 by simp_all
  have l3: "length (XP st3) = length (X st3)"
    using x3 xp3 by (simp add: well_shaped_length)
  note s4 = eq_7_and_8_state [OF x3 l3, of cfg, folded st4_def]
  have x4: "well_shaped (N cfg) ks (X st4)" and xp4: "well_shaped (N cfg) ks (XP st4)"
    using s4 x3 by simp_all
  note s5 = update_improved_positions_state [OF x4 xp4, of fit, folded st5_def]
  have x5: "well_shaped (N cfg) ks (X st5)" and xp5: "well_shaped (N cfg) ks (XP st5)"
    using s5 xp4 by simp_all
  have l5: "length (XP st5) = length (X st5)"
    using x5 xp5 by (simp add: well_shaped_length)
  note s6 = stbo_eq_10_state [OF x5 l5, of cfg, folded st6_def]
  have x6: "well_shaped (N cfg) ks (X st6)" and xp6: "well_shaped (N cfg) ks (XP st6)"
    using s6 x5 by simp_all
  note s7 = update_improved_positions_state [OF x6 xp6, of fit, folded st7_def]
  have x7: "well_shaped (N cfg) ks (X st7)" and xp7: "well_shaped (N cfg) ks (XP st7)"
    using s7 xp6 by simp_all
  have le3: "\<forall>i < N cfg. FX st3 ! i \<le> FX st ! i"
  proof -
    have "\<forall>i < N cfg. FX st3 ! i \<le> population_fitness fit (X st2) (N cfg) ! i"
      using s3 by blast
    moreover have "X st2 = X st" using s2 s1 by (simp add: st2_def)
    ultimately show ?thesis using f0 by simp
  qed
  have le5: "\<forall>i < N cfg. FX st5 ! i \<le> FX st3 ! i"
  proof -
    have "\<forall>i < N cfg. FX st5 ! i \<le> population_fitness fit (X st4) (N cfg) ! i"
      using s5 by blast
    moreover have "X st4 = X st3" using s4 by blast
    moreover have "FX st3 = population_fitness fit (X st3) (N cfg)" using s3 by blast
    ultimately show ?thesis by simp
  qed
  have le7: "\<forall>i < N cfg. FX st7 ! i \<le> FX st5 ! i"
  proof -
    have "\<forall>i < N cfg. FX st7 ! i \<le> population_fitness fit (X st6) (N cfg) ! i"
      using s7 by blast
    moreover have "X st6 = X st5" using s6 by blast
    moreover have "FX st5 = population_fitness fit (X st5) (N cfg)" using s5 by blast
    ultimately show ?thesis by simp
  qed
  have le: "\<forall>i < N cfg. FX st7 ! i \<le> FX st ! i"
    using le3 le5 le7 by (meson order_trans)
  have lf7: "length (FX st7) = N cfg"
    using s7 by (simp add: length_population_fitness)
  have mono: "reduce_min (FX st7) \<le> reduce_min (FX st)"
    using lf7 lf0 le by (intro reduce_min_mono) simp_all
  have g7: "gen st7 = gen st" and si7: "length (SI st7) = N cfg"
    using s7 s6 s5 s4 s3 s2 s1 by (simp_all add: st2_def)
  have tr7: "trace st7 = trace st @ [Evaluate, Evaluate, Evaluate, Evaluate, Evaluate, Evaluate]"
    using s7 s6 s5 s4 s3 s2 s1 by (simp add: st2_def)
  from gen obtain saved where sv: "save_best_periodic cfg (gen st7) (FX st7) = Inr saved"
    and st': "st' = st7\<lparr>best_fitness := reduce_min (FX st7),
                        trace := trace st7 @ log_fitness cfg False (reduce_min (FX st7)) @ saved
                                   @ [TrainingStatus (gen st7) (reduce_min (FX st7))],
                        gen := assign_add_1 (gen st7)\<rparr>"
    unfolding stbo_generation_def Let_def
      st1_def [symmetric] st2_def [symmetric] st3_def [symmetric] st4_def [symmetric]
      st5_def [symmetric] st6_def [symmetric] st7_def [symmetric]
    by (auto split: sum.splits)
  have l7: "length (XP st7) = length (X st7)"
    using well_shaped_length [OF x7] well_shaped_length [OF xp7] by simp
  have f7: "FX st7 = population_fitness fit (X st7) (N cfg)" using s7 by blast
  have "stbo_inv fit cfg ks st'"
    using x7 l7 si7 f7 by (simp add: stbo_inv_def st')
  moreover have "best_fitness st' \<le> best_fitness st"
    using mono b0 by (simp add: st')
  moreover have "gen st' = assign_add_1 (gen st)" using g7 by (simp add: st')
  moreover have "evaluations (trace st') = evaluations (trace st) + 6"
    using evaluations_saved [OF sv]
    by (simp add: st' tr7 evaluations_append evaluations_log_fitness)
       (simp add: evaluations_def log_fitness_def)
  ultimately show ?thesis by simp
qed

lemma argmin_ok: "fv \<noteq> [] \<Longrightarrow> \<exists>b. argmin fv = Inr b"
  by (cases fv) simp_all

lemma save_best_periodic_ok:
  "fv \<noteq> [] \<or> best_individual_save_frequency cfg \<le> 0 \<Longrightarrow>
   \<exists>saved. save_best_periodic cfg g fv = Inr saved"
  using argmin_ok [of fv] by (auto simp: save_best_periodic_def)


lemma length_FX_update_improved_positions:
  "length (FX (update_improved_positions fit cfg st)) = N cfg"
  by (simp add: update_improved_positions_def Let_def length_where_rows
        length_population_fitness)

lemma stbo_generation_ok:
  assumes "0 < N cfg \<or> best_individual_save_frequency cfg \<le> 0"
  shows "\<exists>st'. stbo_generation fit cfg st = Inr st'"
proof -
  let ?st7 = "update_improved_positions fit cfg
      (stbo_eq_10 cfg (update_improved_positions fit cfg
        (eq_7_and_8 cfg (update_improved_positions fit cfg (stbo_eq_5 (update_SI cfg st))))))"
  have "FX ?st7 \<noteq> [] \<or> best_individual_save_frequency cfg \<le> 0"
    using assms length_FX_update_improved_positions [of fit cfg] by (metis length_greater_0_conv)
  then obtain saved where "save_best_periodic cfg (gen ?st7) (FX ?st7) = Inr saved"
    using save_best_periodic_ok by blast
  then show ?thesis by (simp add: stbo_generation_def Let_def)
qed

text \<open>The states at the head of the loop: the initial state, and the state after a pass
  from a state that satisfies the loop condition.\<close>

inductive stbo_reaches ::
  "(tensor list \<Rightarrow> real) \<Rightarrow> 'a config_scheme \<Rightarrow> stbo_state \<Rightarrow> stbo_state \<Rightarrow> bool"
  for fit cfg st0 where
    start: "stbo_reaches fit cfg st0 st0"
  | pass: "stbo_reaches fit cfg st0 st \<Longrightarrow> stbo_continues cfg st \<Longrightarrow>
           stbo_generation fit cfg st = Inr st' \<Longrightarrow> stbo_reaches fit cfg st0 st'"

lemma stbo_init_cases:
  assumes "stbo_init create fit cfg weights g = Inr st0"
  shows "\<exists>x g1. stbo_eq_2 create cfg weights g = (Inr x, g1) \<and> \<not> population_size cfg < 0
     \<and> st0 = \<lparr>gen = 0, best_fitness = reduce_min (population_fitness fit x (N cfg)),
      model_weights = weights, random = g1, trace = [Evaluate],
      X = x, FX = population_fitness fit x (N cfg), XP = x,
      FP = population_fitness fit x (N cfg), SI = replicate (N cfg) 0\<rparr>"
proof (cases "stbo_eq_2 create cfg weights g")
  case (Pair r g1)
  show ?thesis
  proof (cases r)
    case (Inl e)
    then show ?thesis using assms Pair by (simp add: stbo_init_def)
  next
    case (Inr x)
    then show ?thesis
      using assms Pair by (cases "population_size cfg < 0") (simp_all add: stbo_init_def Let_def)
  qed
qed

lemma stbo_init_inv:
  assumes "stbo_init create fit cfg weights g = Inr st0"
      and "well_shaped (N cfg) ks (X st0)"
  shows "stbo_inv fit cfg ks st0 \<and> gen st0 = 0 \<and> trace st0 = [Evaluate]"
proof -
  obtain x g1 where "st0 = \<lparr>gen = 0, best_fitness = reduce_min (population_fitness fit x (N cfg)),
      model_weights = weights, random = g1, trace = [Evaluate],
      X = x, FX = population_fitness fit x (N cfg), XP = x,
      FP = population_fitness fit x (N cfg), SI = replicate (N cfg) 0\<rparr>"
    using stbo_init_cases [OF assms(1)] by blast
  then show ?thesis using assms(2) by (simp add: stbo_inv_def)
qed

lemma stbo_reaches_inv:
  assumes "stbo_reaches fit cfg st0 st" and "stbo_inv fit cfg ks st0"
  shows "stbo_inv fit cfg ks st"
  using assms
proof (induction rule: stbo_reaches.induct)
  case start
  then show ?case by simp
next
  case (pass st st')
  have "stbo_inv fit cfg ks st" using pass.IH pass.prems by simp
  then show ?case using stbo_generation_step [OF _ pass.hyps(3)] by simp
qed

text \<open>Without transfer learning \<^verbatim>\<open>eq_2\<close> builds a well-shaped population.\<close>

lemma stbo_eq_2_slot_shaped:
  "slot_shaped (N cfg) (length ws) (fst (stbo_eq_2_slot cfg ws g))"
proof -
  let ?t = "map (\<lambda>ue. lb cfg + ue * (ub cfg - lb cfg))
              (fst (uniform_tensor (N cfg * length ws) 0 1 g))"
  have l: "length ?t = N cfg * length ws" by (simp add: length_uniform_tensor)
  note u = unflatten_uniform [OF l]
  have "\<forall>row \<in> set (unflatten (replicate (N cfg) (length ws)) ?t). length row = length ws"
  proof
    fix row assume "row \<in> set (unflatten (replicate (N cfg) (length ws)) ?t)"
    then obtain i where i: "i < N cfg"
      and r: "row = take (length ws) (drop (i * length ws) ?t)"
      using u by (auto simp: in_set_conv_nth)
    have "i * length ws + length ws \<le> N cfg * length ws"
      using i by (metis Suc_leI mult_Suc mult_le_mono1 add.commute)
    then show "length row = length ws" using r l by simp
  qed
  moreover have "fst (stbo_eq_2_slot cfg ws g) = unflatten (replicate (N cfg) (length ws)) ?t"
    by (simp add: stbo_eq_2_slot_def case_prod_beta)
  moreover have "length (unflatten (replicate (N cfg) (length ws)) ?t) = N cfg"
    using u by blast
  ultimately show ?thesis
    unfolding slot_shaped_def by presburger
qed

lemma stbo_init_shaped:
  assumes "stbo_init create fit cfg weights g = Inr st0" and "\<not> transfer_learning cfg"
  shows "well_shaped (N cfg) (map length weights) (X st0)"
proof -
  obtain x g1 where e: "stbo_eq_2 create cfg weights g = (Inr x, g1)" and x0: "X st0 = x"
    using stbo_init_cases [OF assms(1)] by auto
  have x: "X st0 = fst (map_rng (stbo_eq_2_slot cfg) weights g)"
    using e x0 assms(2)
    by (cases "population_size cfg < 0 \<and> weights \<noteq> []")
       (simp_all add: stbo_eq_2_def case_prod_beta)
  have "list_all2 (\<lambda>ws y. \<exists>g'. y = fst (stbo_eq_2_slot cfg ws g')) weights
          (fst (map_rng (stbo_eq_2_slot cfg) weights g))"
    by (rule map_rng_all2)
  then have "list_all2 (\<lambda>ws y. slot_shaped (N cfg) (length ws) y) weights
          (fst (map_rng (stbo_eq_2_slot cfg) weights g))"
    by (rule list_all2_mono) (auto simp: stbo_eq_2_slot_shaped)
  then show ?thesis
    unfolding x well_shaped_def by (simp add: list_all2_conv_all_nth)
qed

section \<open>Best fitness across generations\<close>

fun state_of :: "'a step \<Rightarrow> 'a" where
  "state_of (Break s) = s"
| "state_of (Continue s) = s"

fun status_values :: "event list \<Rightarrow> tf_float list" where
  "status_values [] = []"
| "status_values (TrainingStatus g b # es) = b # status_values es"
| "status_values (e # es) = status_values es"

lemma best_fitness_map_rng_Levy:
  "best_fitness (avoa_eq_18 cfg st) = best_fitness st"
  by (simp add: avoa_eq_18_def case_prod_beta)

lemma best_fitness_update_vulture:
  "best_fitness (update_vulture cfg i st) = best_fitness st"
  by (simp add: update_vulture_def avoa_eq_1_def avoa_eq_4_def avoa_eq_6_def avoa_eq_7_def
        avoa_eq_8_def avoa_eq_10_def avoa_eq_12_def avoa_eq_13_def avoa_eq_15_def
        avoa_eq_16_def avoa_eq_17_def avoa_eq_18_def Let_def case_prod_beta)

lemma best_fitness_sweep: "best_fitness (sweep cfg st) = best_fitness st"
proof -
  have "best_fitness (fold (update_vulture cfg) is st) = best_fitness st" for "is"
    by (induction "is" arbitrary: st) (simp_all add: best_fitness_update_vulture)
  then show ?thesis by (simp add: sweep_def)
qed

lemma avoa_generation_best_fitness:
  assumes "avoa_generation fit cfg st = Inr r"
  shows "best_fitness (state_of r) = reduce_min (population_fitness fit (P st) (N cfg))"
proof -
  let ?fv = "population_fitness fit (P st) (N cfg)"
  let ?st1 = "st\<lparr>fitness_values := ?fv, trace := trace st @ [Evaluate]\<rparr>"
  obtain st2 saved where u: "update_best_vultures ?st1 = Inr st2"
    and sv: "save_best_periodic cfg (gen st2) ?fv = Inr saved"
    using assms by (auto simp: avoa_generation_def Let_def split: sum.splits)
  show ?thesis
    using assms u sv
    by (cases "reduce_min ?fv < fitness_limit cfg")
       (auto simp: avoa_generation_def Let_def best_fitness_sweep)
qed


text \<open>The states in which the example runs enter their loops.\<close>

definition stbo_example_init :: stbo_state where
  "stbo_example_init =
     \<lparr>gen = 0, best_fitness = Fin (1 / 4), model_weights = [[Fin 0]],
      random = \<lparr>floats = smap (\<lambda>n. if n = 0 then 1 / 4 else if n = 1 then 5 / 8 else 1 / 2)
                          (fromN 2),
                ints = sconst 0\<rparr>,
      trace = [Evaluate],
      X = [[[Fin (- 1 / 2)], [Fin (1 / 4)]]], FX = [1 / 2, 1 / 4],
      XP = [[[Fin (- 1 / 2)], [Fin (1 / 4)]]], FP = [1 / 2, 1 / 4], SI = [0, 0]\<rparr>"

definition avoa_example_init :: avoa_state where
  "avoa_example_init =
     \<lparr>gen = 0, best_fitness = 0, model_weights = [[Fin 0]], random = two_phase_rng,
      trace = [], P = [[[Fin 0], [Fin (1 / 2)]]], fitness_values = [0, 0],
      best_vultures = [[[Fin 0], [Fin 0]]], R = [[Fin 0]], D = [[Fin 0]],
      S = [[[Fin 0], [Fin 0]]], A = [[[Fin 0], [Fin 0]]], Levy = [[Fin 0]],
      F = 0, sigma = calculate_sigma example_gamma avoa_defaults\<rparr>"

lemma stbo_example_init:
  "stbo_init no_population abs_fitness example_config [[Fin 0]] varied_rng
     = Inr stbo_example_init"
  by (simp add: stbo_init_def stbo_eq_2_def stbo_eq_2_slot_def stbo_eval stbo_example_init_def)

lemma avoa_example_init:
  "avoa_init example_population example_gamma avoa_defaults [[Fin 0]] two_phase_rng
     = Inr avoa_example_init"
  by (simp add: avoa_eval avoa_example_init_def numeral_2_eq_2)

lemma avoa_example_generation:
  "map_sum id (\<lambda>r. (best_fitness (state_of r), P (state_of r)))
     (avoa_generation abs_fitness avoa_defaults avoa_example_init)
   = Inr (Fin 0, [[[Fin (- 7 / 8)], [Fin (- 7 / 8)]]])"
  by (simp add: avoa_steps avoa_eval avoa_example_init_def)

text \<open>
  Claim C2, as amended. In \<^verbatim>\<open>stbo\<close>, with a fitness function that returns the same value
  for the same candidate, the tracked best fitness never increases from one pass of the
  loop to the next, and after every pass it is the minimum fitness of the population.
  In \<^verbatim>\<open>avoa\<close> the best fitness is overwritten at every generation boundary with the
  minimum fitness of the current population, which the updates may have made worse: it is
  not monotone.
\<close>

theorem best_fitness_across_generations:
  "(stbo_init create fit cfg weights g = Inr st0 \<and> well_shaped (N cfg) ks (X st0)
      \<and> stbo_reaches fit cfg st0 st \<and> stbo_generation fit cfg st = Inr st'
    \<longrightarrow> best_fitness st' \<le> best_fitness st
        \<and> best_fitness st' = reduce_min (population_fitness fit (X st') (N cfg)))
   \<and> (avoa_generation fit' acfg ast = Inr r
    \<longrightarrow> best_fitness (state_of r) = reduce_min (population_fitness fit' (P ast) (N acfg)))"
proof (intro conjI impI)
  assume a: "stbo_init create fit cfg weights g = Inr st0 \<and> well_shaped (N cfg) ks (X st0)
      \<and> stbo_reaches fit cfg st0 st \<and> stbo_generation fit cfg st = Inr st'"
  then have "stbo_inv fit cfg ks st0" using stbo_init_inv by blast
  then have "stbo_inv fit cfg ks st" using a stbo_reaches_inv by blast
  then have s: "stbo_inv fit cfg ks st' \<and> best_fitness st' \<le> best_fitness st"
    using a stbo_generation_step by blast
  then show "best_fitness st' \<le> best_fitness st" by simp
  show "best_fitness st' = reduce_min (population_fitness fit (X st') (N cfg))"
    using s by (simp add: stbo_inv_def)
next
  assume "avoa_generation fit' acfg ast = Inr r"
  then show "best_fitness (state_of r) = reduce_min (population_fitness fit' (P ast) (N acfg))"
    by (rule avoa_generation_best_fitness)
qed

theorem best_fitness_across_generations_witness:
  "best_fitness (projr (stbo_generation abs_fitness example_config stbo_example_init))
     \<le> best_fitness stbo_example_init
   \<and> best_fitness (state_of (projr (avoa_generation abs_fitness avoa_defaults avoa_example_init)))
     = Fin 0"
proof -
  obtain st' where s: "stbo_generation abs_fitness example_config stbo_example_init = Inr st'"
    using stbo_generation_ok [of example_config abs_fitness stbo_example_init]
    by (auto simp: example_config_def N_def)
  obtain r where r: "avoa_generation abs_fitness avoa_defaults avoa_example_init = Inr r"
    using avoa_example_generation
    by (cases "avoa_generation abs_fitness avoa_defaults avoa_example_init") auto
  have w: "well_shaped (N example_config) [1] (X stbo_example_init)"
    by (simp add: well_shaped_def slot_shaped_def stbo_example_init_def example_config_def N_def)
  have e: "reduce_min (population_fitness abs_fitness (P avoa_example_init) (N avoa_defaults))
             = Fin 0"
    by (simp add: population_fitness_def avoa_defaults_def N_def avoa_example_init_def
          individual_def abs_fitness_def upt_2)
  have "best_fitness st' \<le> best_fitness stbo_example_init
      \<and> best_fitness (state_of r)
          = reduce_min (population_fitness abs_fitness (P avoa_example_init) (N avoa_defaults))"
    using best_fitness_across_generations
      [of no_population abs_fitness example_config "[[Fin 0]]" varied_rng stbo_example_init
          "[1]" stbo_example_init st' abs_fitness avoa_defaults avoa_example_init r]
      stbo_example_init w s r stbo_reaches.start [of abs_fitness example_config stbo_example_init]
    by blast
  then show ?thesis unfolding e s r by simp
qed

text \<open>Claim C2 as stated fails for \<^verbatim>\<open>avoa\<close>: in the example run the best fitness is \<open>0\<close> at
  generation 0 and \<open>7/8\<close> at generation 1.\<close>

theorem best_fitness_counterexample:
  "map_option (map_sum id (\<lambda>st. status_values (trace st)))
     (avoa example_population example_gamma abs_fitness avoa_defaults [[Fin 0]] two_phase_rng)
   = Some (Inr [Fin 0, Fin (7 / 8)])
   \<and> \<not> (Fin (7 / 8) \<le> Fin 0)"
  using avoa_example_returns by (auto simp: less_eq_tf_float_def)

section \<open>The solution applied at the end of a run\<close>

lemma argmin_from_spec:
  "(argmin_from ys k bk best = bk \<and> (\<forall>y \<in> set ys. best \<le> y))
   \<or> (k \<le> argmin_from ys k bk best \<and> argmin_from ys k bk best < k + length ys
      \<and> ys ! (argmin_from ys k bk best - k) < best
      \<and> (\<forall>y \<in> set ys. ys ! (argmin_from ys k bk best - k) \<le> y))"
proof (induction ys arbitrary: k bk best)
  case Nil
  show ?case by simp
next
  case (Cons a ys)
  show ?case
  proof (cases "a < best")
    case True
    from Cons.IH [of "Suc k" k a] show ?thesis
    proof
      assume h: "argmin_from ys (Suc k) k a = k \<and> (\<forall>y \<in> set ys. a \<le> y)"
      then show ?thesis using True by auto
    next
      assume h: "Suc k \<le> argmin_from ys (Suc k) k a
        \<and> argmin_from ys (Suc k) k a < Suc k + length ys
        \<and> ys ! (argmin_from ys (Suc k) k a - Suc k) < a
        \<and> (\<forall>y \<in> set ys. ys ! (argmin_from ys (Suc k) k a - Suc k) \<le> y)"
      let ?r = "argmin_from ys (Suc k) k a"
      have "?r - k = Suc (?r - Suc k)" using h by linarith
      then have "(a # ys) ! (?r - k) = ys ! (?r - Suc k)" by simp
      then show ?thesis using True h by auto
    qed
  next
    case False
    from Cons.IH [of "Suc k" bk best] show ?thesis
    proof
      assume "argmin_from ys (Suc k) bk best = bk \<and> (\<forall>y \<in> set ys. best \<le> y)"
      then show ?thesis using False by auto
    next
      assume h: "Suc k \<le> argmin_from ys (Suc k) bk best
        \<and> argmin_from ys (Suc k) bk best < Suc k + length ys
        \<and> ys ! (argmin_from ys (Suc k) bk best - Suc k) < best
        \<and> (\<forall>y \<in> set ys. ys ! (argmin_from ys (Suc k) bk best - Suc k) \<le> y)"
      let ?r = "argmin_from ys (Suc k) bk best"
      have "?r - k = Suc (?r - Suc k)" using h by linarith
      then have "(a # ys) ! (?r - k) = ys ! (?r - Suc k)" by simp
      then show ?thesis using False h by auto
    qed
  qed
qed

lemma argmin_spec:
  assumes "argmin fv = Inr b"
  shows "b < length fv \<and> (\<forall>i < length fv. fv ! b \<le> fv ! i)"
proof (cases fv)
  case Nil
  then show ?thesis using assms by simp
next
  case (Cons y ys)
  then have b: "b = argmin_from ys 1 0 y" using assms by simp
  from argmin_from_spec [of ys 1 0 y] show ?thesis
  proof
    assume "argmin_from ys 1 0 y = 0 \<and> (\<forall>z \<in> set ys. y \<le> z)"
    then show ?thesis using b Cons by (auto simp: nth_Cons split: nat.splits)
  next
    assume h: "1 \<le> argmin_from ys 1 0 y \<and> argmin_from ys 1 0 y < 1 + length ys
      \<and> ys ! (argmin_from ys 1 0 y - 1) < y
      \<and> (\<forall>z \<in> set ys. ys ! (argmin_from ys 1 0 y - 1) \<le> z)"
    then have e: "fv ! b = ys ! (b - 1)" using b Cons by (cases b) auto
    show ?thesis
      unfolding e using h b Cons by (auto simp: nth_Cons split: nat.splits)
  qed
qed

lemma apply_best_solution_spec:
  assumes "apply_best_solution fit pop n = Inr best"
  shows "\<exists>b < n. best = individual pop b
           \<and> (\<forall>i < n. fit (individual pop b) \<le> fit (individual pop i))"
proof -
  obtain b where a: "argmin (population_fitness fit pop n) = Inr b" and e: "best = individual pop b"
    using assms by (auto simp: apply_best_solution_def split: sum.splits)
  have "b < n \<and> (\<forall>i < n. population_fitness fit pop n ! b \<le> population_fitness fit pop n ! i)"
    using argmin_spec [OF a] by (simp add: length_population_fitness)
  then show ?thesis using e by (auto simp: nth_population_fitness)
qed

lemma reduce_min_least:
  assumes "b < length fv" and "\<forall>i < length fv. fv ! b \<le> fv ! i"
  shows "reduce_min fv = Fin (fv ! b)"
proof (cases fv)
  case Nil
  then show ?thesis using assms by simp
next
  case (Cons y ys)
  have "Min (set fv) = fv ! b"
  proof (rule Min_eqI)
    show "finite (set fv)" by simp
    show "fv ! b \<in> set fv" using assms(1) by simp
    fix z assume "z \<in> set fv"
    then show "fv ! b \<le> z" using assms(2) by (auto simp: in_set_conv_nth)
  qed
  then show ?thesis using Cons Min.set_eq_fold [of y ys] by simp
qed

lemma stbo_loop_reaches:
  assumes major: "stbo_loop fit cfg st1 = Some res"
  shows "\<forall>st0. stbo_reaches fit cfg st0 st1 \<longrightarrow>
         (case res of Inl e \<Rightarrow> True
          | Inr st \<Rightarrow> stbo_reaches fit cfg st0 st \<and> \<not> stbo_continues cfg st)"
proof (rule stbo_loop.raw_induct
    [where P = "\<lambda>fit cfg st1 res. \<forall>st0. stbo_reaches fit cfg st0 st1 \<longrightarrow>
         (case res of Inl e \<Rightarrow> True
          | Inr st \<Rightarrow> stbo_reaches fit cfg st0 st \<and> \<not> stbo_continues cfg st)"],
    goal_cases)
  case (1 loop fit cfg st1 res)
  note ih = 1(1) and body = 1(2)
  show ?case
  proof (cases "stbo_continues cfg st1")
    case False
    then show ?thesis using body by auto
  next
    case True
    show ?thesis
    proof (cases "stbo_generation fit cfg st1")
      case (Inl e)
      then have "res = Inl e" using body True by simp
      then show ?thesis by simp
    next
      case (Inr st')
      then have l: "loop fit cfg st' = Some res" using body True by simp
      show ?thesis
      proof (intro allI impI)
        fix st0 assume "stbo_reaches fit cfg st0 st1"
        then have "stbo_reaches fit cfg st0 st'"
          using True Inr by (rule stbo_reaches.pass)
        then show "case res of Inl e \<Rightarrow> True
          | Inr st \<Rightarrow> stbo_reaches fit cfg st0 st \<and> \<not> stbo_continues cfg st"
          using ih [OF l] by simp
      qed
    qed
  qed
next
  case 2
  show ?case by (rule major)
qed

lemma stbo_run_reaches:
  assumes "stbo create fit cfg weights g = Some (Inr sst)"
  shows "\<exists>st0 st. stbo_init create fit cfg weights g = Inr st0
           \<and> stbo_reaches fit cfg st0 st \<and> \<not> stbo_continues cfg st
           \<and> stbo_finish fit cfg st = Inr sst"
proof -
  obtain st0 st where i: "stbo_init create fit cfg weights g = Inr st0"
    and l: "stbo_loop fit cfg st0 = Some (Inr st)" and f: "stbo_finish fit cfg st = Inr sst"
    using stbo_returns [OF assms] by blast
  have "stbo_reaches fit cfg st0 st \<and> \<not> stbo_continues cfg st"
    using stbo_loop_reaches [OF l] stbo_reaches.start [of fit cfg st0] by auto
  then show ?thesis using i f by blast
qed

text \<open>
  Claim C1, as amended. When a run of \<^verbatim>\<open>avoa\<close> or \<^verbatim>\<open>stbo\<close> returns, the model weights are
  the arrays of a member of the final population (the population as the loop left it) whose
  fitness is minimal in that population. In \<^verbatim>\<open>stbo\<close>, from a well-shaped initial population,
  this fitness is the tracked best fitness, which no pass of the loop has raised. Neither
  optimizer keeps the best candidate of earlier generations.
\<close>

theorem applied_solution:
  "(avoa create gamma fit acfg weights g = Some (Inr ast) \<longrightarrow>
      (\<exists>b < N acfg. model_weights ast = individual (P ast) b
         \<and> (\<forall>i < N acfg. fit (model_weights ast) \<le> fit (individual (P ast) i))))
   \<and> (stbo create' fit' cfg weights' g' = Some (Inr sst) \<longrightarrow>
      (\<exists>b < N cfg. model_weights sst = individual (X sst) b
         \<and> (\<forall>i < N cfg. fit' (model_weights sst) \<le> fit' (individual (X sst) i))))
   \<and> (stbo create' fit' cfg weights' g' = Some (Inr sst)
        \<and> stbo_init create' fit' cfg weights' g' = Inr st0 \<and> well_shaped (N cfg) ks (X st0)
      \<longrightarrow> best_fitness sst = Fin (fit' (model_weights sst)))"
proof (intro conjI impI)
  assume "avoa create gamma fit acfg weights g = Some (Inr ast)"
  then obtain st where f: "avoa_finish fit acfg st = Inr ast"
    using avoa_returns by blast
  then obtain best where a: "apply_best_solution fit (P st) (N acfg) = Inr best"
    and m: "model_weights ast = best" and p: "P ast = P st"
    by (auto simp: avoa_finish_def split: sum.splits)
  show "\<exists>b < N acfg. model_weights ast = individual (P ast) b
         \<and> (\<forall>i < N acfg. fit (model_weights ast) \<le> fit (individual (P ast) i))"
    using apply_best_solution_spec [OF a] m p by auto
next
  assume "stbo create' fit' cfg weights' g' = Some (Inr sst)"
  then obtain st where f: "stbo_finish fit' cfg st = Inr sst"
    using stbo_returns by blast
  then obtain best where a: "apply_best_solution fit' (X st) (N cfg) = Inr best"
    and m: "model_weights sst = best" and p: "X sst = X st"
    by (auto simp: stbo_finish_def split: sum.splits)
  show "\<exists>b < N cfg. model_weights sst = individual (X sst) b
         \<and> (\<forall>i < N cfg. fit' (model_weights sst) \<le> fit' (individual (X sst) i))"
    using apply_best_solution_spec [OF a] m p by auto
next
  assume h: "stbo create' fit' cfg weights' g' = Some (Inr sst)
        \<and> stbo_init create' fit' cfg weights' g' = Inr st0 \<and> well_shaped (N cfg) ks (X st0)"
  then obtain st where r: "stbo_reaches fit' cfg st0 st"
    and f: "stbo_finish fit' cfg st = Inr sst"
    using stbo_run_reaches [of create' fit' cfg weights' g' sst] by auto
  have "stbo_inv fit' cfg ks st0" using h stbo_init_inv by blast
  then have inv: "stbo_inv fit' cfg ks st" using r stbo_reaches_inv by blast
  from f obtain best where a: "apply_best_solution fit' (X st) (N cfg) = Inr best"
    and m: "model_weights sst = best" and b: "best_fitness sst = best_fitness st"
    by (auto simp: stbo_finish_def split: sum.splits)
  obtain k where k: "argmin (population_fitness fit' (X st) (N cfg)) = Inr k"
    and e: "best = individual (X st) k"
    using a by (auto simp: apply_best_solution_def split: sum.splits)
  note s = argmin_spec [OF k]
  have "reduce_min (population_fitness fit' (X st) (N cfg))
          = Fin (population_fitness fit' (X st) (N cfg) ! k)"
    using s by (intro reduce_min_least) simp_all
  then show "best_fitness sst = Fin (fit' (model_weights sst))"
    using inv s b m e by (simp add: stbo_inv_def length_population_fitness nth_population_fitness)
qed

theorem applied_solution_witness:
  "\<exists>ast sst.
     avoa example_population example_gamma abs_fitness avoa_defaults [[Fin 0]] two_phase_rng
       = Some (Inr ast)
     \<and> stbo no_population abs_fitness example_config [[Fin 0]] varied_rng = Some (Inr sst)
     \<and> (\<exists>b < 2. model_weights ast = individual (P ast) b)
     \<and> (\<exists>b < 2. model_weights sst = individual (X sst) b)
     \<and> best_fitness sst = Fin (abs_fitness (model_weights sst))"
proof -
  obtain ast where a: "avoa example_population example_gamma abs_fitness avoa_defaults [[Fin 0]]
      two_phase_rng = Some (Inr ast)"
    using avoa_example_returns by blast
  obtain sst where s: "stbo no_population abs_fitness example_config [[Fin 0]] varied_rng
      = Some (Inr sst)"
    using stbo_example_returns by blast
  have w: "well_shaped (N example_config) [1] (X stbo_example_init)"
    by (simp add: well_shaped_def slot_shaped_def stbo_example_init_def example_config_def N_def)
  have n: "N avoa_defaults = 2" "N example_config = 2"
    by (simp_all add: N_def avoa_defaults_def example_config_def)
  show ?thesis
    using applied_solution [of example_population example_gamma abs_fitness avoa_defaults
        "[[Fin 0]]" two_phase_rng ast no_population abs_fitness example_config "[[Fin 0]]"
        varied_rng sst stbo_example_init "[1]"] a s w stbo_example_init
    unfolding n by blast
qed

text \<open>Claim C1 as stated fails for \<^verbatim>\<open>avoa\<close>: the example run ends with model weights of
  fitness \<open>7/8\<close>, although its first evaluation pass saw a candidate of fitness \<open>0\<close>, the best
  fitness reported at generation 0.\<close>

theorem applied_solution_counterexample:
  "map_option (map_sum id (\<lambda>st. (abs_fitness (model_weights st), status_values (trace st))))
     (avoa example_population example_gamma abs_fitness avoa_defaults [[Fin 0]] two_phase_rng)
   = Some (Inr (7 / 8, [Fin 0, Fin (7 / 8)]))
   \<and> \<not> ((7 / 8 :: real) \<le> 0)"
  using avoa_example_returns by (auto simp: abs_fitness_def)

section \<open>Shapes in AVOA\<close>

text \<open>The shapes of the variables of \<^verbatim>\<open>avoa\<close>: the population, the two best vultures per
  slot, and the scratch buffers as \<^verbatim>\<open>avoa\<close> allocates them from the model weights.\<close>

definition avoa_shaped :: "nat \<Rightarrow> nat list \<Rightarrow> avoa_state \<Rightarrow> bool" where
  "avoa_shaped n ks st =
     (well_shaped n ks (P st) \<and> well_shaped 2 ks (best_vultures st)
      \<and> list_all2 (\<lambda>k r. length r = k) ks (R st)
      \<and> length (D st) = length ks
      \<and> list_all2 (\<lambda>k s. length s = 2) ks (S st)
      \<and> list_all2 (\<lambda>k a. length a = 2) ks (A st)
      \<and> list_all2 (\<lambda>k l. length l = k) ks (Levy st))"

lemma well_shaped_iff:
  "well_shaped n ks p \<longleftrightarrow>
     length p = length ks
     \<and> (\<forall>s < length ks. length (p ! s) = n \<and> (\<forall>j < n. length (p ! s ! j) = ks ! s))"
  by (auto simp: well_shaped_def list_all2_conv_all_nth slot_shaped_def all_set_conv_all_nth)

lemma avoa_shaped_iff:
  "avoa_shaped n ks st \<longleftrightarrow>
     length (P st) = length ks
     \<and> (\<forall>s < length ks. length (P st ! s) = n \<and> (\<forall>j < n. length (P st ! s ! j) = ks ! s))
     \<and> length (best_vultures st) = length ks
     \<and> (\<forall>s < length ks. length (best_vultures st ! s) = 2
           \<and> (\<forall>j < 2. length (best_vultures st ! s ! j) = ks ! s))
     \<and> length (R st) = length ks \<and> (\<forall>s < length ks. length (R st ! s) = ks ! s)
     \<and> length (D st) = length ks
     \<and> length (S st) = length ks \<and> (\<forall>s < length ks. length (S st ! s) = 2)
     \<and> length (A st) = length ks \<and> (\<forall>s < length ks. length (A st ! s) = 2)
     \<and> length (Levy st) = length ks \<and> (\<forall>s < length ks. length (Levy st ! s) = ks ! s)"
  unfolding avoa_shaped_def well_shaped_iff list_all2_conv_all_nth by auto

lemma categorical_2: "fst (categorical [a, b] rg) < 2"
  by (simp add: categorical_def numeral_2_eq_2)

lemma avoa_eq_1_shaped:
  assumes "avoa_shaped n ks st"
  shows "avoa_shaped n ks (avoa_eq_1 cfg st)"
  using assms categorical_2
  by (simp add: avoa_shaped_iff avoa_eq_1_def Let_def case_prod_beta)

lemma avoa_eq_4_shaped: "avoa_shaped n ks st \<Longrightarrow> avoa_shaped n ks (avoa_eq_4 cfg st)"
  by (simp add: avoa_shaped_def avoa_eq_4_def Let_def case_prod_beta)

lemma avoa_eq_7_shaped:
  assumes "avoa_shaped n ks st" and "i < n"
  shows "avoa_shaped n ks (avoa_eq_7 i st)
       \<and> (\<forall>s < length ks. length (D (avoa_eq_7 i st) ! s) = ks ! s)"
  using assms
  by (simp add: avoa_shaped_iff avoa_eq_7_def Let_def case_prod_beta)

lemma length_nth_update:
  "length x = n \<Longrightarrow> \<forall>j < n. length (x ! j) = k \<Longrightarrow> length row = k \<Longrightarrow> j < n \<Longrightarrow>
   length (x[i := row] ! j) = k"
  by (cases "i = j") simp_all

lemma avoa_eq_6_shaped:
  assumes "avoa_shaped n ks st" and "i < n"
  shows "avoa_shaped n ks (avoa_eq_6 i st)"
  using avoa_eq_7_shaped [OF assms] assms(2)
  by (auto simp: avoa_shaped_iff avoa_eq_6_def Let_def case_prod_beta intro!: length_nth_update)

lemma avoa_eq_8_shaped:
  assumes "avoa_shaped n ks st" and "i < n"
  shows "avoa_shaped n ks (avoa_eq_8 cfg i st)"
  using assms
  by (auto simp: avoa_shaped_iff avoa_eq_8_def Let_def case_prod_beta intro!: length_nth_update)

lemma avoa_eq_10_shaped:
  assumes "avoa_shaped n ks st" and "i < n"
  shows "avoa_shaped n ks (avoa_eq_10 i st)"
  using avoa_eq_7_shaped [OF assms] assms(2)
  by (auto simp: avoa_shaped_iff avoa_eq_10_def Let_def case_prod_beta intro!: length_nth_update)


lemma avoa_eq_12_shaped:
  assumes "avoa_shaped n ks st" and "i < n"
  shows "avoa_shaped n ks (avoa_eq_12 i st)
       \<and> (\<forall>s < length ks. \<forall>j < 2. length (S (avoa_eq_12 i st) ! s ! j) = ks ! s)"
  using assms
  by (auto simp: avoa_shaped_iff avoa_eq_12_def Let_def case_prod_beta nth_list_update
        less_2_cases_iff)

lemma avoa_eq_13_shaped:
  assumes "avoa_shaped n ks st" and "i < n"
  shows "avoa_shaped n ks (avoa_eq_13 i st)"
  using avoa_eq_12_shaped [OF assms] assms(2)
  by (auto simp: avoa_shaped_iff avoa_eq_13_def Let_def case_prod_beta intro!: length_nth_update)

lemma avoa_eq_15_shaped:
  assumes "avoa_shaped n ks st" and "i < n"
  shows "avoa_shaped n ks (avoa_eq_15 i st)
       \<and> (\<forall>s < length ks. \<forall>j < 2. length (A (avoa_eq_15 i st) ! s ! j) = ks ! s)"
  using assms
  by (auto simp: avoa_shaped_iff avoa_eq_15_def Let_def case_prod_beta nth_list_update
        less_2_cases_iff)

lemma avoa_eq_16_shaped:
  assumes "avoa_shaped n ks st" and "i < n"
  shows "avoa_shaped n ks (avoa_eq_16 i st)"
  using avoa_eq_15_shaped [OF assms] assms(2)
  by (auto simp: avoa_shaped_iff avoa_eq_16_def Let_def case_prod_beta intro!: length_nth_update)

lemma avoa_eq_18_slot_length: "length (fst (avoa_eq_18_slot cfg sg l g)) = length l"
  by (simp add: avoa_eq_18_slot_def Let_def case_prod_beta length_uniform_tensor)

lemma avoa_eq_18_shaped:
  assumes "avoa_shaped n ks st"
  shows "avoa_shaped n ks (avoa_eq_18 cfg st)"
proof -
  have "list_all2 (\<lambda>l y. \<exists>g'. y = fst (avoa_eq_18_slot cfg (sigma st) l g')) (Levy st)
          (fst (map_rng (avoa_eq_18_slot cfg (sigma st)) (Levy st) (random st)))"
    by (rule map_rng_all2)
  then have "length (fst (map_rng (avoa_eq_18_slot cfg (sigma st)) (Levy st) (random st)))
               = length (Levy st)
     \<and> (\<forall>s < length (Levy st).
           length (fst (map_rng (avoa_eq_18_slot cfg (sigma st)) (Levy st) (random st)) ! s)
             = length (Levy st ! s))"
    by (auto simp: list_all2_conv_all_nth avoa_eq_18_slot_length)
  then show ?thesis
    using assms by (simp add: avoa_shaped_iff avoa_eq_18_def case_prod_beta)
qed

lemma avoa_eq_17_shaped:
  assumes "avoa_shaped n ks st" and "i < n"
  shows "avoa_shaped n ks (avoa_eq_17 cfg i st)"
  using avoa_eq_18_shaped [OF assms(1), of cfg] assms(2)
  by (auto simp: avoa_shaped_iff avoa_eq_17_def Let_def case_prod_beta intro!: length_nth_update)

lemma avoa_shaped_random: "avoa_shaped n ks (st\<lparr>random := g\<rparr>) = avoa_shaped n ks st"
  by (simp add: avoa_shaped_def)

lemma update_vulture_shaped:
  assumes "avoa_shaped n ks st" and "i < n"
  shows "avoa_shaped n ks (update_vulture cfg i st)"
proof -
  have "avoa_shaped n ks (avoa_eq_4 cfg (avoa_eq_1 cfg st))"
    using assms(1) by (simp add: avoa_eq_1_shaped avoa_eq_4_shaped)
  then show ?thesis
    using assms(2)
    by (simp add: update_vulture_def Let_def case_prod_beta avoa_shaped_random
          avoa_eq_6_shaped avoa_eq_8_shaped avoa_eq_10_shaped avoa_eq_13_shaped
          avoa_eq_16_shaped avoa_eq_17_shaped)
qed

lemma sweep_shaped:
  assumes "avoa_shaped (N cfg) ks st"
  shows "avoa_shaped (N cfg) ks (sweep cfg st)"
proof -
  have "set is \<subseteq> {0..<N cfg} \<Longrightarrow> avoa_shaped (N cfg) ks st \<Longrightarrow>
        avoa_shaped (N cfg) ks (fold (update_vulture cfg) is st)" for "is" st
    by (induction "is" arbitrary: st) (simp_all add: update_vulture_shaped)
  then show ?thesis using assms by (simp add: sweep_def)
qed

lemma argsort_bound: "length (argsort fv) = length fv \<and> (\<forall>j \<in> set (argsort fv). j < length fv)"
  by (simp add: argsort_def)

lemma update_best_vultures_shaped:
  assumes "avoa_shaped n ks st" and "length (fitness_values st) = n"
      and "update_best_vultures st = Inr st'"
  shows "avoa_shaped n ks st'"
proof -
  let ?bi = "take 2 (argsort (fitness_values st))"
  have st': "st' = st\<lparr>best_vultures :=
               map (\<lambda>(bv, p). gather p ?bi) (zip (best_vultures st) (P st))\<rparr>"
    and ok: "length ?bi = 2 \<or> zip (best_vultures st) (P st) = []"
    using assms(3) by (auto simp: update_best_vultures_def Let_def split: if_splits)
  have b: "\<forall>j \<in> set ?bi. j < n"
    using argsort_bound [of "fitness_values st"] assms(2) by (auto dest: in_set_takeD)
  have lp: "length (P st) = length ks" and lb: "length (best_vultures st) = length ks"
    using assms(1) by (simp_all add: avoa_shaped_iff)
  have e: "ks \<noteq> [] \<Longrightarrow> length ?bi = 2"
    using ok lp lb by (cases "best_vultures st"; cases "P st") auto
  have "well_shaped 2 ks (map (\<lambda>(bv, p). gather p ?bi) (zip (best_vultures st) (P st)))"
    unfolding well_shaped_iff
  proof (intro conjI allI impI)
    show "length (map (\<lambda>(bv, p). gather p ?bi) (zip (best_vultures st) (P st))) = length ks"
      using lp lb by simp
  next
    fix s assume s: "s < length ks"
    then have "ks \<noteq> []" by auto
    then have l2: "length ?bi = 2" by (rule e)
    show "length (map (\<lambda>(bv, p). gather p ?bi) (zip (best_vultures st) (P st)) ! s) = 2"
      using s lp lb l2 by (simp add: gather_def)
    fix j :: nat assume j: "j < 2"
    then have "?bi ! j < n" using b l2 by (metis nth_mem)
    then show "length (map (\<lambda>(bv, p). gather p ?bi) (zip (best_vultures st) (P st)) ! s ! j)
                 = ks ! s"
      using s lp lb l2 j assms(1) by (simp add: gather_def avoa_shaped_iff)
  qed
  then show ?thesis using assms(1) by (simp add: avoa_shaped_def st')
qed

lemma update_best_vultures_fields:
  "update_best_vultures st = Inr st' \<Longrightarrow>
   gen st' = gen st \<and> trace st' = trace st \<and> P st' = P st
   \<and> fitness_values st' = fitness_values st"
  by (auto simp: update_best_vultures_def Let_def split: if_splits)

lemma update_vulture_fields:
  "gen (update_vulture cfg i st) = gen st \<and> trace (update_vulture cfg i st) = trace st
   \<and> fitness_values (update_vulture cfg i st) = fitness_values st"
  by (simp add: update_vulture_def avoa_eq_1_def avoa_eq_4_def avoa_eq_6_def avoa_eq_7_def
        avoa_eq_8_def avoa_eq_10_def avoa_eq_12_def avoa_eq_13_def avoa_eq_15_def
        avoa_eq_16_def avoa_eq_17_def avoa_eq_18_def Let_def case_prod_beta)

lemma sweep_fields:
  "gen (sweep cfg st) = gen st \<and> trace (sweep cfg st) = trace st
   \<and> fitness_values (sweep cfg st) = fitness_values st"
proof -
  have "gen (fold (update_vulture cfg) is st) = gen st
      \<and> trace (fold (update_vulture cfg) is st) = trace st
      \<and> fitness_values (fold (update_vulture cfg) is st) = fitness_values st" for "is"
    by (induction "is" arbitrary: st) (simp_all add: update_vulture_fields)
  then show ?thesis by (simp add: sweep_def)
qed

lemma status_values_append: "status_values (a @ b) = status_values a @ status_values b"
  by (induction a rule: status_values.induct) simp_all

lemma status_values_log_fitness: "status_values (log_fitness cfg force b) = []"
  by (simp add: log_fitness_def)

lemma status_values_saved:
  "save_best_periodic cfg g fv = Inr saved \<Longrightarrow> status_values saved = []"
  by (auto simp: save_best_periodic_def split: if_splits sum.splits)

text \<open>What one pass of the loop of \<^verbatim>\<open>avoa\<close> does to the shapes, the trace and the counter.\<close>

lemma avoa_generation_step:
  assumes "avoa_generation fit cfg st = Inr r"
  shows "evaluations (trace (state_of r)) = evaluations (trace st) + 1
       \<and> length (status_values (trace (state_of r))) = length (status_values (trace st)) + 1
       \<and> (case r of
             Break s \<Rightarrow> gen s = gen st \<and> best_fitness s < fitness_limit cfg
           | Continue s \<Rightarrow> gen s = assign_add_1 (gen st)
               \<and> \<not> reduce_min (population_fitness fit (P st) (N cfg)) < fitness_limit cfg)
       \<and> (avoa_shaped (N cfg) ks st \<longrightarrow> avoa_shaped (N cfg) ks (state_of r))"
proof -
  let ?fv = "population_fitness fit (P st) (N cfg)"
  let ?st1 = "st\<lparr>fitness_values := ?fv, trace := trace st @ [Evaluate]\<rparr>"
  obtain st2 saved where u: "update_best_vultures ?st1 = Inr st2"
    and sv: "save_best_periodic cfg (gen st2) ?fv = Inr saved"
    using assms by (auto simp: avoa_generation_def Let_def split: sum.splits)
  let ?st3 = "st2\<lparr>best_fitness := reduce_min ?fv,
                   trace := trace st2 @ log_fitness cfg False (reduce_min ?fv) @ saved
                              @ [TrainingStatus (gen st2) (reduce_min ?fv)]\<rparr>"
  note f = update_best_vultures_fields [OF u]
  have tr: "evaluations (trace ?st3) = evaluations (trace st) + 1
      \<and> length (status_values (trace ?st3)) = length (status_values (trace st)) + 1"
    using f evaluations_saved [OF sv] status_values_saved [OF sv]
    by (simp add: evaluations_append evaluations_log_fitness status_values_append
          status_values_log_fitness)
       (simp add: evaluations_def log_fitness_def)
  have sh: "avoa_shaped (N cfg) ks st \<longrightarrow> avoa_shaped (N cfg) ks ?st3"
  proof
    assume "avoa_shaped (N cfg) ks st"
    then have "avoa_shaped (N cfg) ks ?st1" by (simp add: avoa_shaped_def)
    then have "avoa_shaped (N cfg) ks st2"
      by (rule update_best_vultures_shaped [OF _ _ u]) (simp add: length_population_fitness)
    then show "avoa_shaped (N cfg) ks ?st3" by (simp add: avoa_shaped_def)
  qed
  show ?thesis
  proof (cases "reduce_min ?fv < fitness_limit cfg")
    case True
    then have "r = Break ?st3"
      using assms u sv by (simp add: avoa_generation_def Let_def)
    then show ?thesis using tr sh f True by simp
  next
    case False
    then have "r = Continue ((sweep cfg ?st3)\<lparr>gen := assign_add_1 (gen (sweep cfg ?st3))\<rparr>)"
      using assms u sv by (simp add: avoa_generation_def Let_def)
    moreover have "avoa_shaped (N cfg) ks ?st3 \<longrightarrow>
        avoa_shaped (N cfg) ks ((sweep cfg ?st3)\<lparr>gen := assign_add_1 (gen (sweep cfg ?st3))\<rparr>)"
      using sweep_shaped [of cfg ks ?st3] by (simp add: avoa_shaped_def)
    ultimately show ?thesis
      using tr sh f False sweep_fields [of cfg ?st3] by simp
  qed
qed

section \<open>Passes of the loops\<close>

text \<open>The states at the head of the loop of \<^verbatim>\<open>avoa\<close>: the initial state, and the state
  after a completed pass from a state that satisfies the loop condition.\<close>

inductive avoa_reaches ::
  "(tensor list \<Rightarrow> real) \<Rightarrow> avoa_config \<Rightarrow> avoa_state \<Rightarrow> avoa_state \<Rightarrow> bool"
  for fit cfg st0 where
    start: "avoa_reaches fit cfg st0 st0"
  | pass: "avoa_reaches fit cfg st0 st \<Longrightarrow> Fin (real (gen st)) \<le> T cfg \<Longrightarrow>
           avoa_generation fit cfg st = Inr (Continue st') \<Longrightarrow> avoa_reaches fit cfg st0 st'"

lemma gen_le_T: "(Fin (real g) \<le> T cfg) = (int g \<le> generation_limit cfg)"
proof -
  have "(real g \<le> real_of_int (generation_limit cfg)) = (int g \<le> generation_limit cfg)"
    by linarith
  then show ?thesis by (simp add: T_def less_eq_tf_float_def)
qed

lemma avoa_loop_reaches:
  assumes major: "avoa_loop fit cfg st1 = Some res"
  shows "\<forall>st0. avoa_reaches fit cfg st0 st1 \<longrightarrow>
         (case res of Inl e \<Rightarrow> True
          | Inr st \<Rightarrow>
              (avoa_reaches fit cfg st0 st \<and> \<not> Fin (real (gen st)) \<le> T cfg)
              \<or> (\<exists>sb. avoa_reaches fit cfg st0 sb \<and> Fin (real (gen sb)) \<le> T cfg
                     \<and> avoa_generation fit cfg sb = Inr (Break st)))"
proof (rule avoa_loop.raw_induct
    [where P = "\<lambda>fit cfg st1 res. \<forall>st0. avoa_reaches fit cfg st0 st1 \<longrightarrow>
         (case res of Inl e \<Rightarrow> True
          | Inr st \<Rightarrow>
              (avoa_reaches fit cfg st0 st \<and> \<not> Fin (real (gen st)) \<le> T cfg)
              \<or> (\<exists>sb. avoa_reaches fit cfg st0 sb \<and> Fin (real (gen sb)) \<le> T cfg
                     \<and> avoa_generation fit cfg sb = Inr (Break st)))"],
    goal_cases)
  case (1 loop fit cfg st1 res)
  note ih = 1(1) and body = 1(2)
  show ?case
  proof (cases "Fin (real (gen st1)) \<le> T cfg")
    case False
    then have "res = Inr st1" using body by simp
    then show ?thesis using False by simp
  next
    case True
    show ?thesis
    proof (cases "avoa_generation fit cfg st1")
      case (Inl e)
      then have "res = Inl e" using body True by simp
      then show ?thesis by simp
    next
      case (Inr r)
      show ?thesis
      proof (cases r)
        case (Break st')
        then have "res = Inr st'" using body True Inr by simp
        then show ?thesis using True Inr Break by auto
      next
        case (Continue st')
        then have l: "loop fit cfg st' = Some res" using body True Inr by simp
        show ?thesis
        proof (intro allI impI)
          fix st0 assume "avoa_reaches fit cfg st0 st1"
          then have "avoa_reaches fit cfg st0 st'"
            using True Inr Continue by (intro avoa_reaches.pass [of fit cfg st0 st1 st']) simp_all
          then show "case res of Inl e \<Rightarrow> True
            | Inr st \<Rightarrow>
              (avoa_reaches fit cfg st0 st \<and> \<not> Fin (real (gen st)) \<le> T cfg)
              \<or> (\<exists>sb. avoa_reaches fit cfg st0 sb \<and> Fin (real (gen sb)) \<le> T cfg
                     \<and> avoa_generation fit cfg sb = Inr (Break st))"
            using ih [OF l] by simp
        qed
      qed
    qed
  qed
next
  case 2
  show ?case by (rule major)
qed

lemma assign_add_1_le: "assign_add_1 g \<le> g + 1 \<and> (g \<le> 2 ^ 24 \<longrightarrow> assign_add_1 g \<le> 2 ^ 24)
   \<and> (g < 2 ^ 24 \<longrightarrow> assign_add_1 g = g + 1) \<and> (g = 2 ^ 24 \<longrightarrow> assign_add_1 g = g)"
  by (simp add: assign_add_1_def)

text \<open>Along the passes of \<^verbatim>\<open>avoa\<close>: the shapes are kept, the counter stays within
  \<open>generation_limit + 1\<close> and within the range of \<^verbatim>\<open>float32\<close> integers, and, unless the counter can
  saturate, it counts the evaluation passes and the status lines.\<close>

lemma avoa_reaches_inv:
  assumes "avoa_reaches fit cfg st0 st" and "gen st0 = 0"
  shows "(avoa_shaped (N cfg) ks st0 \<longrightarrow> avoa_shaped (N cfg) ks st)
       \<and> gen st \<le> 2 ^ 24 \<and> int (gen st) \<le> max 0 (generation_limit cfg + 1)
       \<and> (2 ^ 24 \<le> generation_limit cfg
          \<or> evaluations (trace st) = evaluations (trace st0) + gen st
            \<and> length (status_values (trace st)) = length (status_values (trace st0)) + gen st)"
  using assms
proof (induction rule: avoa_reaches.induct)
  case start
  then show ?case by simp
next
  case (pass st st')
  note s = avoa_generation_step [OF pass.hyps(3), of ks]
  have g: "gen st' = assign_add_1 (gen st)" using s by simp
  have le: "int (gen st) \<le> generation_limit cfg" using pass.hyps(2) by (simp add: gen_le_T)
  have ih: "(avoa_shaped (N cfg) ks st0 \<longrightarrow> avoa_shaped (N cfg) ks st)
       \<and> gen st \<le> 2 ^ 24 \<and> int (gen st) \<le> max 0 (generation_limit cfg + 1)
       \<and> (2 ^ 24 \<le> generation_limit cfg
          \<or> evaluations (trace st) = evaluations (trace st0) + gen st
            \<and> length (status_values (trace st)) = length (status_values (trace st0)) + gen st)"
    using pass.IH pass.prems by simp
  have "gen st' \<le> 2 ^ 24" using g ih assign_add_1_le [of "gen st"] by simp
  moreover have "int (gen st') \<le> max 0 (generation_limit cfg + 1)"
    using g le assign_add_1_le [of "gen st"] by linarith
  moreover have "2 ^ 24 \<le> generation_limit cfg
          \<or> evaluations (trace st') = evaluations (trace st0) + gen st'
            \<and> length (status_values (trace st')) = length (status_values (trace st0)) + gen st'"
  proof (cases "2 ^ 24 \<le> generation_limit cfg")
    case True
    then show ?thesis by simp
  next
    case False
    then have "int (gen st) < 2 ^ 24" using le by linarith
    then have "gen st < 2 ^ 24" by simp
    then have "gen st' = gen st + 1" using g assign_add_1_le [of "gen st"] by simp
    then show ?thesis using s ih False by simp
  qed
  moreover have "avoa_shaped (N cfg) ks st0 \<longrightarrow> avoa_shaped (N cfg) ks st'"
    using s ih by simp
  ultimately show ?case by simp
qed

lemma stbo_reaches_count:
  assumes "stbo_reaches fit cfg st0 st" and "stbo_inv fit cfg ks st0" and "gen st0 = 0"
  shows "stbo_inv fit cfg ks st
       \<and> gen st \<le> 2 ^ 24 \<and> int (gen st) \<le> max 0 (generation_limit cfg + 1)
       \<and> (2 ^ 24 \<le> generation_limit cfg
          \<or> evaluations (trace st) = evaluations (trace st0) + 6 * gen st)"
  using assms
proof (induction rule: stbo_reaches.induct)
  case start
  then show ?case by simp
next
  case (pass st st')
  have ih: "stbo_inv fit cfg ks st
       \<and> gen st \<le> 2 ^ 24 \<and> int (gen st) \<le> max 0 (generation_limit cfg + 1)
       \<and> (2 ^ 24 \<le> generation_limit cfg
          \<or> evaluations (trace st) = evaluations (trace st0) + 6 * gen st)"
    using pass.IH pass.prems by simp
  then have inv: "stbo_inv fit cfg ks st" by simp
  note s = stbo_generation_step [OF inv pass.hyps(3)]
  have g: "gen st' = assign_add_1 (gen st)" using s by simp
  have le: "int (gen st) \<le> generation_limit cfg"
    using pass.hyps(2) by (simp add: stbo_continues_def gen_le_T)
  have "gen st' \<le> 2 ^ 24" using g ih assign_add_1_le [of "gen st"] by simp
  moreover have "int (gen st') \<le> max 0 (generation_limit cfg + 1)"
    using g le assign_add_1_le [of "gen st"] by linarith
  moreover have "2 ^ 24 \<le> generation_limit cfg
          \<or> evaluations (trace st') = evaluations (trace st0) + 6 * gen st'"
  proof (cases "2 ^ 24 \<le> generation_limit cfg")
    case True
    then show ?thesis by simp
  next
    case False
    then have "int (gen st) < 2 ^ 24" using le by linarith
    then have "gen st < 2 ^ 24" by simp
    then have "gen st' = gen st + 1" using g assign_add_1_le [of "gen st"] by simp
    then show ?thesis using s ih False by simp
  qed
  ultimately show ?case using s by simp
qed

lemma avoa_init_shaped:
  assumes "avoa_init create gamma cfg weights g = Inr st0"
      and "well_shaped (N cfg) (map length weights) (P st0)"
  shows "avoa_shaped (N cfg) (map length weights) st0 \<and> gen st0 = 0 \<and> trace st0 = []"
proof -
  obtain p where "st0 = \<lparr>gen = 0, best_fitness = 0, model_weights = weights, random = g,
      trace = [], P = p, fitness_values = replicate (N cfg) 0,
      best_vultures = map (\<lambda>ws. replicate 2 (map (\<lambda>e. 0) ws)) weights,
      R = map (\<lambda>ws. map (\<lambda>e. 0) ws) weights,
      D = map (\<lambda>ws. map (\<lambda>e. 0) ws) weights,
      S = map (\<lambda>ws. replicate 2 (map (\<lambda>e. 0) ws)) weights,
      A = map (\<lambda>ws. replicate 2 (map (\<lambda>e. 0) ws)) weights,
      Levy = map (\<lambda>ws. map (\<lambda>e. 0) ws) weights,
      F = 0, sigma = calculate_sigma gamma cfg\<rparr>"
    using assms(1) by (auto simp: avoa_init_def split: sum.splits if_splits)
  then show ?thesis
    using assms(2) by (simp add: avoa_shaped_iff well_shaped_iff less_2_cases_iff)
qed

lemma evaluations_saved_final:
  "save_best_final cfg fv = Inr saved \<Longrightarrow> evaluations saved = 0"
  by (auto simp: evaluations_def save_best_final_def split: if_splits sum.splits)

lemma avoa_finish_fields:
  assumes "avoa_finish fit cfg st = Inr ast"
  shows "evaluations (trace ast) = evaluations (trace st) \<and> gen ast = gen st \<and> P ast = P st"
proof -
  obtain best saved where s: "save_best_final cfg (fitness_values st) = Inr saved"
    and a: "ast = st\<lparr>model_weights := best,
                     trace := trace st @ [ApplyBest]
                       @ log_fitness cfg True (best_fitness st) @ saved\<rparr>"
    using assms by (auto simp: avoa_finish_def split: sum.splits)
  show ?thesis
    using evaluations_saved_final [OF s]
    by (simp add: a evaluations_append evaluations_log_fitness)
       (simp add: evaluations_def log_fitness_def)
qed

lemma stbo_finish_fields:
  assumes "stbo_finish fit cfg st = Inr sst"
  shows "evaluations (trace sst) = evaluations (trace st) \<and> gen sst = gen st \<and> X sst = X st"
proof -
  obtain best saved where s: "save_best_final cfg (FX st) = Inr saved"
    and a: "sst = st\<lparr>model_weights := best,
                     trace := trace st @ [ApplyBest]
                       @ log_fitness cfg True (best_fitness st) @ saved\<rparr>"
    using assms by (auto simp: stbo_finish_def split: sum.splits)
  show ?thesis
    using evaluations_saved_final [OF s]
    by (simp add: a evaluations_append evaluations_log_fitness)
       (simp add: evaluations_def log_fitness_def)
qed

lemma gen_at_limit:
  "int g \<le> max 0 (l + 1) \<Longrightarrow> l < int g \<Longrightarrow> g = nat (l + 1)"
  by linarith

section \<open>Evaluation passes and shapes\<close>

text \<open>
  Claim C9, as amended. From a well-shaped initial population, the population has its
  size and per-slot shapes at the head of every pass of the loop, in \<^verbatim>\<open>avoa\<close> and in
  \<^verbatim>\<open>stbo\<close>. A run that returns after the generation limit was passed (the counter is
  beyond the limit: the fitness threshold did not stop it early) has called the
  fitness-evaluation collaborator exactly \<open>generation_limit + 1\<close> times in \<^verbatim>\<open>avoa\<close>, once
  per generation (none for a negative limit), and exactly \<open>1 + 6 * (generation_limit + 1)\<close>
  times in \<^verbatim>\<open>stbo\<close>: once at the start and twice in each of the three acceptance steps of
  every generation.
\<close>

theorem evaluation_passes:
  "(avoa_init create gamma acfg weights g = Inr ast0
      \<and> well_shaped (N acfg) (map length weights) (P ast0)
    \<longrightarrow> (\<forall>ast. avoa_reaches fit acfg ast0 ast
               \<longrightarrow> well_shaped (N acfg) (map length weights) (P ast))
        \<and> (\<forall>ast. avoa create gamma fit acfg weights g = Some (Inr ast)
                 \<and> generation_limit acfg < int (gen ast)
               \<longrightarrow> evaluations (trace ast) = nat (generation_limit acfg + 1)))
   \<and> (stbo_init create' fit' cfg weights' g' = Inr sst0 \<and> well_shaped (N cfg) ks (X sst0)
    \<longrightarrow> (\<forall>sst. stbo_reaches fit' cfg sst0 sst \<longrightarrow> well_shaped (N cfg) ks (X sst))
        \<and> (\<forall>sst. stbo create' fit' cfg weights' g' = Some (Inr sst)
                 \<and> generation_limit cfg < int (gen sst)
               \<longrightarrow> evaluations (trace sst) = 1 + 6 * nat (generation_limit cfg + 1)))"
proof (intro conjI impI allI)
  fix ast
  assume h: "avoa_init create gamma acfg weights g = Inr ast0
      \<and> well_shaped (N acfg) (map length weights) (P ast0)"
    and r: "avoa_reaches fit acfg ast0 ast"
  have i: "avoa_shaped (N acfg) (map length weights) ast0 \<and> gen ast0 = 0"
    using h avoa_init_shaped by blast
  then have "avoa_shaped (N acfg) (map length weights) ast"
    using avoa_reaches_inv [OF r, of "map length weights"] by simp
  then show "well_shaped (N acfg) (map length weights) (P ast)"
    by (simp add: avoa_shaped_def)
next
  fix ast
  assume h: "avoa_init create gamma acfg weights g = Inr ast0
      \<and> well_shaped (N acfg) (map length weights) (P ast0)"
    and r: "avoa create gamma fit acfg weights g = Some (Inr ast)
      \<and> generation_limit acfg < int (gen ast)"
  have i: "gen ast0 = 0" "trace ast0 = []"
    using h avoa_init_shaped by blast+
  obtain st where l: "avoa_loop fit acfg ast0 = Some (Inr st)"
    and f: "avoa_finish fit acfg st = Inr ast"
    using avoa_returns [of create gamma fit acfg weights g ast] r h by auto
  note ff = avoa_finish_fields [OF f]
  have c: "(avoa_reaches fit acfg ast0 st \<and> \<not> Fin (real (gen st)) \<le> T acfg)
      \<or> (\<exists>sb. avoa_reaches fit acfg ast0 sb \<and> Fin (real (gen sb)) \<le> T acfg
             \<and> avoa_generation fit acfg sb = Inr (Break st))"
    using avoa_loop_reaches [OF l] avoa_reaches.start [of fit acfg ast0] by auto
  have "avoa_reaches fit acfg ast0 st"
  proof (rule disjE [OF c])
    assume "avoa_reaches fit acfg ast0 st \<and> \<not> Fin (real (gen st)) \<le> T acfg"
    then show ?thesis by simp
  next
    assume "\<exists>sb. avoa_reaches fit acfg ast0 sb \<and> Fin (real (gen sb)) \<le> T acfg
             \<and> avoa_generation fit acfg sb = Inr (Break st)"
    then obtain sb where b: "Fin (real (gen sb)) \<le> T acfg"
      and g: "avoa_generation fit acfg sb = Inr (Break st)" by blast
    have "gen st = gen sb" using avoa_generation_step [OF g, of "[]"] by simp
    then have False using b r ff by (simp add: gen_le_T)
    then show ?thesis ..
  qed
  note inv = avoa_reaches_inv [OF this i(1), of "[]"]
  have lt: "generation_limit acfg < int (gen st)" using r ff by simp
  have "int (gen st) \<le> 2 ^ 24" using inv by simp
  then have "\<not> 2 ^ 24 \<le> generation_limit acfg" using lt by linarith
  then have e: "evaluations (trace st) = gen st"
    using inv i(2) by (simp add: evaluations_def)
  have "gen st = nat (generation_limit acfg + 1)"
    using inv lt by (intro gen_at_limit) simp_all
  then show "evaluations (trace ast) = nat (generation_limit acfg + 1)"
    using e ff by simp
next
  fix sst
  assume h: "stbo_init create' fit' cfg weights' g' = Inr sst0 \<and> well_shaped (N cfg) ks (X sst0)"
    and r: "stbo_reaches fit' cfg sst0 sst"
  have "stbo_inv fit' cfg ks sst0" using h stbo_init_inv by blast
  then have "stbo_inv fit' cfg ks sst" using r stbo_reaches_inv by blast
  then show "well_shaped (N cfg) ks (X sst)" by (simp add: stbo_inv_def)
next
  fix sst
  assume h: "stbo_init create' fit' cfg weights' g' = Inr sst0 \<and> well_shaped (N cfg) ks (X sst0)"
    and r: "stbo create' fit' cfg weights' g' = Some (Inr sst)
      \<and> generation_limit cfg < int (gen sst)"
  have i: "stbo_inv fit' cfg ks sst0" "gen sst0 = 0" "trace sst0 = [Evaluate]"
    using h stbo_init_inv by blast+
  obtain st where re: "stbo_reaches fit' cfg sst0 st"
    and f: "stbo_finish fit' cfg st = Inr sst"
    using stbo_run_reaches [of create' fit' cfg weights' g' sst] r h by auto
  note ff = stbo_finish_fields [OF f]
  note inv = stbo_reaches_count [OF re i(1) i(2)]
  have lt: "generation_limit cfg < int (gen st)" using r ff by simp
  have "int (gen st) \<le> 2 ^ 24" using inv by simp
  then have "\<not> 2 ^ 24 \<le> generation_limit cfg" using lt by linarith
  then have e: "evaluations (trace st) = 1 + 6 * gen st"
    using inv i(3) by (simp add: evaluations_def)
  have "gen st = nat (generation_limit cfg + 1)"
    using inv lt by (intro gen_at_limit) simp_all
  then show "evaluations (trace sst) = 1 + 6 * nat (generation_limit cfg + 1)"
    using e ff by simp
qed


theorem evaluation_passes_witness:
  "well_shaped 2 [1] (P avoa_example_init) \<and> well_shaped 2 [1] (X stbo_example_init)
   \<and> (\<exists>ast sst.
        avoa example_population example_gamma abs_fitness avoa_defaults [[Fin 0]] two_phase_rng
          = Some (Inr ast)
        \<and> stbo no_population abs_fitness example_config [[Fin 0]] varied_rng = Some (Inr sst)
        \<and> evaluations (trace ast) = 2 \<and> evaluations (trace sst) = 13)"
proof -
  obtain ast where a: "avoa example_population example_gamma abs_fitness avoa_defaults [[Fin 0]]
      two_phase_rng = Some (Inr ast)" and ga: "gen ast = 2"
    using avoa_example_returns by blast
  obtain sst where s: "stbo no_population abs_fitness example_config [[Fin 0]] varied_rng
      = Some (Inr sst)" and gs: "gen sst = 2"
    using stbo_example_returns by blast
  have n: "N avoa_defaults = 2" "N example_config = 2"
    "generation_limit avoa_defaults = 1" "generation_limit example_config = 1"
    by (simp_all add: N_def avoa_defaults_def example_config_def)
  have wa: "well_shaped 2 [1] (P avoa_example_init)"
    by (simp add: well_shaped_def slot_shaped_def avoa_example_init_def)
  have ws: "well_shaped 2 [1] (X stbo_example_init)"
    by (simp add: well_shaped_def slot_shaped_def stbo_example_init_def)
  have "evaluations (trace ast) = 2 \<and> evaluations (trace sst) = 13"
    using evaluation_passes [of example_population example_gamma avoa_defaults "[[Fin 0]]"
        two_phase_rng avoa_example_init abs_fitness no_population abs_fitness example_config
        "[[Fin 0]]" varied_rng stbo_example_init "[1]"]
      avoa_example_init stbo_example_init wa ws a s ga gs
    unfolding n by simp
  then show ?thesis using wa ws a s by blast
qed

text \<open>Claim C9 as stated fails for \<^verbatim>\<open>stbo\<close>: the example run, which no fitness threshold
  stops, has a generation limit of \<open>1\<close> and makes \<open>13\<close> evaluation passes, not \<open>2\<close>.\<close>

theorem evaluation_passes_counterexample:
  "map_option (map_sum id (\<lambda>st. evaluations (trace st)))
     (stbo no_population abs_fitness example_config [[Fin 0]] varied_rng)
   = Some (Inr 13)
   \<and> fitness_limit example_config = NInf
   \<and> nat (generation_limit example_config + 1) = 2"
  using stbo_example_returns by (auto simp: evaluations_def example_config_def)

section \<open>Termination\<close>

lemma stbo_generation_gen:
  assumes "stbo_generation fit cfg st = Inr st'"
  shows "gen st' = assign_add_1 (gen st) \<and> (\<exists>fv. best_fitness st' = reduce_min fv)"
proof -
  have g: "gen (update_improved_positions fit cfg s) = gen s" for s
    by (simp add: update_improved_positions_def Let_def)
  have g1: "gen (update_SI cfg s) = gen s" for s
    by (simp add: update_SI_def case_prod_beta)
  have g2: "gen (stbo_eq_5 s) = gen s" for s
    by (simp add: stbo_eq_5_def case_prod_beta)
  have g3: "gen (eq_7_and_8 cfg s) = gen s" for s
    by (simp add: eq_7_and_8_def case_prod_beta)
  have g4: "gen (stbo_eq_10 cfg s) = gen s" for s
    by (simp add: stbo_eq_10_def case_prod_beta)
  show ?thesis
    using assms by (auto simp: stbo_generation_def Let_def g g1 g2 g3 g4 split: sum.splits)
qed

lemma reduce_min_above: "NInf < reduce_min fv"
  by (cases fv) (simp_all add: less_tf_float_def)

lemma update_best_vultures_ok:
  "2 \<le> length (fitness_values st) \<Longrightarrow> \<exists>st'. update_best_vultures st = Inr st'"
  using argsort_bound [of "fitness_values st"] by (simp add: update_best_vultures_def Let_def)

lemma avoa_generation_ok:
  assumes "2 \<le> N cfg"
  shows "\<exists>r. avoa_generation fit cfg st = Inr r"
proof -
  let ?fv = "population_fitness fit (P st) (N cfg)"
  let ?st1 = "st\<lparr>fitness_values := ?fv, trace := trace st @ [Evaluate]\<rparr>"
  obtain st2 where u: "update_best_vultures ?st1 = Inr st2"
    using update_best_vultures_ok [of ?st1] assms by (auto simp: length_population_fitness)
  have "?fv \<noteq> []" using assms length_population_fitness [of fit "P st" "N cfg"] by auto
  then obtain saved where "save_best_periodic cfg (gen st2) ?fv = Inr saved"
    using save_best_periodic_ok [of ?fv cfg "gen st2"] by blast
  then show ?thesis
    using u by (cases "reduce_min ?fv < fitness_limit cfg") (simp_all add: avoa_generation_def Let_def)
qed

text \<open>With a generation limit below \<open>2 ^ 24\<close> both loops return, from every state.\<close>

lemma stbo_loop_terminates:
  assumes "generation_limit cfg < 2 ^ 24"
  shows "\<exists>res. stbo_loop fit cfg st = Some res"
proof (induction "nat (generation_limit cfg + 1 - int (gen st))" arbitrary: st rule: less_induct)
  case less
  show ?case
  proof (cases "stbo_continues cfg st")
    case False
    then show ?thesis by (simp add: stbo_loop.simps)
  next
    case True
    then have le: "int (gen st) \<le> generation_limit cfg"
      by (simp add: stbo_continues_def gen_le_T)
    show ?thesis
    proof (cases "stbo_generation fit cfg st")
      case (Inl e)
      then show ?thesis using True by (simp add: stbo_loop.simps)
    next
      case (Inr st')
      have "int (gen st) < 2 ^ 24" using le assms by linarith
      then have "gen st < 2 ^ 24" by simp
      then have "gen st' = gen st + 1"
        using stbo_generation_gen [OF Inr] assign_add_1_le [of "gen st"] by simp
      then have "nat (generation_limit cfg + 1 - int (gen st'))
                   < nat (generation_limit cfg + 1 - int (gen st))"
        using le by simp
      then obtain res where "stbo_loop fit cfg st' = Some res" using less by blast
      then show ?thesis using True Inr by (subst stbo_loop.simps) simp
    qed
  qed
qed

lemma avoa_loop_terminates:
  assumes "generation_limit cfg < 2 ^ 24"
  shows "\<exists>res. avoa_loop fit cfg st = Some res"
proof (induction "nat (generation_limit cfg + 1 - int (gen st))" arbitrary: st rule: less_induct)
  case less
  show ?case
  proof (cases "Fin (real (gen st)) \<le> T cfg")
    case False
    then show ?thesis by (simp add: avoa_loop.simps)
  next
    case True
    then have le: "int (gen st) \<le> generation_limit cfg" by (simp add: gen_le_T)
    show ?thesis
    proof (cases "avoa_generation fit cfg st")
      case (Inl e)
      then show ?thesis using True by (simp add: avoa_loop.simps)
    next
      case (Inr r)
      show ?thesis
      proof (cases r)
        case (Break st')
        then show ?thesis using True Inr by (simp add: avoa_loop.simps)
      next
        case (Continue st')
        have "int (gen st) < 2 ^ 24" using le assms by linarith
        then have "gen st < 2 ^ 24" by simp
        then have "gen st' = gen st + 1"
          using avoa_generation_step [OF Inr, of "[]"] Continue assign_add_1_le [of "gen st"]
          by simp
        then have "nat (generation_limit cfg + 1 - int (gen st'))
                     < nat (generation_limit cfg + 1 - int (gen st))"
          using le by simp
        then obtain res where "avoa_loop fit cfg st' = Some res" using less by blast
        then show ?thesis using True Inr Continue by (subst avoa_loop.simps) simp
      qed
    qed
  qed
qed

text \<open>With a generation limit of \<open>2 ^ 24\<close> or more and a fitness limit that is never met, the
  counter stops at \<open>2 ^ 24\<close> and the loop condition holds forever.\<close>

definition stbo_stuck :: "'a config_scheme \<Rightarrow> stbo_state \<Rightarrow> bool" where
  "stbo_stuck cfg st =
     (2 ^ 24 \<le> generation_limit cfg \<and> fitness_limit cfg = NInf \<and> gen st \<le> 2 ^ 24
      \<and> (\<exists>fv. best_fitness st = reduce_min fv)
      \<and> (0 < N cfg \<or> best_individual_save_frequency cfg \<le> 0))"

definition avoa_stuck :: "avoa_config \<Rightarrow> avoa_state \<Rightarrow> bool" where
  "avoa_stuck cfg st =
     (2 ^ 24 \<le> generation_limit cfg \<and> fitness_limit cfg = NInf \<and> gen st \<le> 2 ^ 24
      \<and> 2 \<le> N cfg)"

lemma stuck_gen_le_T:
  "2 ^ 24 \<le> generation_limit cfg \<Longrightarrow> g \<le> 2 ^ 24 \<Longrightarrow> Fin (real g) \<le> T cfg"
proof -
  assume a: "2 ^ 24 \<le> generation_limit cfg" and b: "g \<le> 2 ^ 24"
  have "int g \<le> 2 ^ 24" using b by simp
  then have "int g \<le> generation_limit cfg" using a by linarith
  then show ?thesis by (simp add: gen_le_T)
qed

lemma stbo_loop_stuck:
  assumes "stbo_stuck cfg st"
  shows "stbo_loop fit cfg st = None"
proof (rule ccontr)
  assume "stbo_loop fit cfg st \<noteq> None"
  then obtain res where major: "stbo_loop fit cfg st = Some res" by auto
  have "\<not> stbo_stuck cfg st"
  proof (rule stbo_loop.raw_induct
      [where P = "\<lambda>fit cfg st res. \<not> stbo_stuck cfg st", OF _ major], goal_cases)
    case (1 loop fit cfg st res)
    note ih = 1(1) and body = 1(2)
    show ?case
    proof
      assume s: "stbo_stuck cfg st"
      then obtain fv where b: "best_fitness st = reduce_min fv"
        by (auto simp: stbo_stuck_def)
      have c: "stbo_continues cfg st"
        using s b reduce_min_above [of fv] stuck_gen_le_T [of cfg "gen st"]
        by (simp add: stbo_continues_def stbo_stuck_def)
      obtain st' where g: "stbo_generation fit cfg st = Inr st'"
        using stbo_generation_ok [of cfg fit st] s by (auto simp: stbo_stuck_def)
      then have l: "loop fit cfg st' = Some res" using body c by simp
      have "stbo_stuck cfg st'"
        using s stbo_generation_gen [OF g] assign_add_1_le [of "gen st"]
        by (auto simp: stbo_stuck_def)
      then show False using ih [OF l] by simp
    qed
  qed
  then show False using assms by simp
qed

lemma avoa_loop_stuck:
  assumes "avoa_stuck cfg st"
  shows "avoa_loop fit cfg st = None"
proof (rule ccontr)
  assume "avoa_loop fit cfg st \<noteq> None"
  then obtain res where major: "avoa_loop fit cfg st = Some res" by auto
  have "\<not> avoa_stuck cfg st"
  proof (rule avoa_loop.raw_induct
      [where P = "\<lambda>fit cfg st res. \<not> avoa_stuck cfg st", OF _ major], goal_cases)
    case (1 loop fit cfg st res)
    note ih = 1(1) and body = 1(2)
    show ?case
    proof
      assume s: "avoa_stuck cfg st"
      have c: "Fin (real (gen st)) \<le> T cfg"
        using s stuck_gen_le_T [of cfg "gen st"] by (simp add: avoa_stuck_def)
      obtain r where g: "avoa_generation fit cfg st = Inr r"
        using avoa_generation_ok [of cfg fit st] s by (auto simp: avoa_stuck_def)
      note step = avoa_generation_step [OF g, of "[]"]
      have nb: "\<not> b < fitness_limit cfg" for b
        using s by (cases b) (simp_all add: avoa_stuck_def less_tf_float_def)
      obtain st' where r: "r = Continue st'"
        using step nb by (cases r) auto
      then have l: "loop fit cfg st' = Some res" using body c g by simp
      have "avoa_stuck cfg st'"
        using s step r assign_add_1_le [of "gen st"] by (auto simp: avoa_stuck_def)
      then show False using ih [OF l] by simp
    qed
  qed
  then show False using assms by simp
qed

text \<open>Runs with a generation limit below \<open>2 ^ 24\<close> return (with a result or an error), and
  a returned run of \<^verbatim>\<open>avoa\<close> has printed at most \<open>generation_limit + 1\<close> status lines, one
  per generation entered.\<close>

lemma runs_terminate:
  "generation_limit acfg < 2 ^ 24 \<Longrightarrow>
     \<exists>res. avoa create gamma fit acfg weights g = Some res"
  "generation_limit cfg < 2 ^ 24 \<Longrightarrow>
     \<exists>res. stbo create' fit' cfg weights' g' = Some res"
proof -
  assume a: "generation_limit acfg < 2 ^ 24"
  show "\<exists>res. avoa create gamma fit acfg weights g = Some res"
  proof (cases "avoa_init create gamma acfg weights g")
    case (Inl e)
    then show ?thesis by (simp add: avoa_def)
  next
    case (Inr st0)
    obtain res where "avoa_loop fit acfg st0 = Some res"
      using avoa_loop_terminates [OF a] by blast
    then show ?thesis using Inr by (cases res) (simp_all add: avoa_def)
  qed
next
  assume a: "generation_limit cfg < 2 ^ 24"
  show "\<exists>res. stbo create' fit' cfg weights' g' = Some res"
  proof (cases "stbo_init create' fit' cfg weights' g'")
    case (Inl e)
    then show ?thesis by (simp add: stbo_def)
  next
    case (Inr st0)
    obtain res where "stbo_loop fit' cfg st0 = Some res"
      using stbo_loop_terminates [OF a] by blast
    then show ?thesis using Inr by (cases res) (simp_all add: stbo_def)
  qed
qed

lemma avoa_generations_bounded:
  assumes "avoa_loop fit cfg st0 = Some (Inr st)" and "gen st0 = 0" and "trace st0 = []"
      and "generation_limit cfg < 2 ^ 24"
  shows "int (length (status_values (trace st))) \<le> max 0 (generation_limit cfg + 1)"
proof -
  have c: "(avoa_reaches fit cfg st0 st \<and> \<not> Fin (real (gen st)) \<le> T cfg)
      \<or> (\<exists>sb. avoa_reaches fit cfg st0 sb \<and> Fin (real (gen sb)) \<le> T cfg
             \<and> avoa_generation fit cfg sb = Inr (Break st))"
    using avoa_loop_reaches [OF assms(1)] avoa_reaches.start [of fit cfg st0] by auto
  show ?thesis
  proof (rule disjE [OF c])
    assume "avoa_reaches fit cfg st0 st \<and> \<not> Fin (real (gen st)) \<le> T cfg"
    then show ?thesis
      using avoa_reaches_inv [of fit cfg st0 st "[]"] assms(2,3,4) by simp
  next
    assume "\<exists>sb. avoa_reaches fit cfg st0 sb \<and> Fin (real (gen sb)) \<le> T cfg
             \<and> avoa_generation fit cfg sb = Inr (Break st)"
    then obtain sb where r: "avoa_reaches fit cfg st0 sb"
      and b: "int (gen sb) \<le> generation_limit cfg"
      and g: "avoa_generation fit cfg sb = Inr (Break st)"
      by (auto simp: gen_le_T)
    have "length (status_values (trace sb)) = gen sb"
      using avoa_reaches_inv [OF r assms(2), of "[]"] assms(3,4) by simp
    then have "length (status_values (trace st)) = gen sb + 1"
      using avoa_generation_step [OF g, of "[]"] by simp
    then show ?thesis using b by simp
  qed
qed

text \<open>
  Claim C10. The claim holds for generation limits below \<open>2 ^ 24\<close> (the lemmas above). At a
  generation limit of \<open>2 ^ 24 = 16777216\<close> with a fitness limit of \<open>-\<infinity>\<close>, runs of \<^verbatim>\<open>stbo\<close> and
  of \<^verbatim>\<open>avoa\<close> never return: the generation counter is a \<^verbatim>\<open>float32\<close>, and adding \<open>1\<close> to
  \<open>2 ^ 24\<close> leaves \<open>2 ^ 24\<close>, which is not above the limit.
\<close>

theorem generation_counter_saturates:
  "stbo no_population abs_fitness (example_config\<lparr>generation_limit := 2 ^ 24\<rparr>) [[Fin 0]]
     varied_rng = None
   \<and> avoa example_population example_gamma abs_fitness
       (avoa_defaults\<lparr>generation_limit := 2 ^ 24\<rparr>) [[Fin 0]] two_phase_rng = None"
proof
  let ?cfg = "example_config\<lparr>generation_limit := 2 ^ 24\<rparr>"
  have i: "stbo_init no_population abs_fitness ?cfg [[Fin 0]] varied_rng = Inr stbo_example_init"
    by (simp add: stbo_init_def stbo_eq_2_def stbo_eq_2_slot_def stbo_eval stbo_example_init_def)
  have "best_fitness stbo_example_init = reduce_min [1 / 4]"
    by (simp add: stbo_example_init_def)
  then have "stbo_stuck ?cfg stbo_example_init"
    unfolding stbo_stuck_def
    by (intro conjI exI [of _ "[1 / 4]"])
       (simp_all add: example_config_def stbo_example_init_def N_def)
  then have "stbo_loop abs_fitness ?cfg stbo_example_init = None"
    by (rule stbo_loop_stuck)
  then show "stbo no_population abs_fitness ?cfg [[Fin 0]] varied_rng = None"
    using i by (simp add: stbo_def)
next
  let ?cfg = "avoa_defaults\<lparr>generation_limit := 2 ^ 24\<rparr>"
  obtain st0 where i: "avoa_init example_population example_gamma ?cfg [[Fin 0]] two_phase_rng
      = Inr st0" and g: "gen st0 = 0"
    by (simp add: avoa_init_def example_population_def avoa_defaults_def)
  have "avoa_stuck ?cfg st0"
    using g by (simp add: avoa_stuck_def avoa_defaults_def N_def)
  then have "avoa_loop abs_fitness ?cfg st0 = None"
    by (rule avoa_loop_stuck)
  then show "avoa example_population example_gamma abs_fitness ?cfg [[Fin 0]] two_phase_rng = None"
    using i by (simp add: avoa_def)
qed

section \<open>Division by zero\<close>

text \<open>A proposal of the practice phase at generation 0, and the outcome of Eq. 15 where
  the best vulture's element is the square of the member's.\<close>

definition bound_or_nan :: "'a config_scheme \<Rightarrow> tf_float \<Rightarrow> bool" where
  "bound_or_nan cfg e = (e = lb cfg \<or> e = ub cfg \<or> e = NaN)"

lemma div_zero_cases: "q / Fin 0 = PInf \<or> q / Fin 0 = NInf \<or> q / Fin 0 = NaN"
  by (cases q) (simp_all add: divide_tf_float_def signed_inf_def)

lemma add_infinite_cases:
  "q = PInf \<or> q = NInf \<or> q = NaN \<Longrightarrow> x + q = PInf \<or> x + q = NInf \<or> x + q = NaN"
  by (cases x) (auto simp: plus_tf_float_def)

lemma clip_infinite_cases:
  "y = PInf \<or> y = NInf \<or> y = NaN \<Longrightarrow>
   clip_by_value y lo hi = lo \<or> clip_by_value y lo hi = hi \<or> clip_by_value y lo hi = NaN"
  by (cases lo; cases hi)
     (auto simp: clip_by_value_def tf_minimum_def tf_maximum_def less_eq_tf_float_def)

lemma stbo_eq_10_elem_0: "bound_or_nan cfg (stbo_eq_10_elem cfg 0 xe re)"
  unfolding bound_or_nan_def stbo_eq_10_elem_def
  using clip_infinite_cases [OF add_infinite_cases [OF div_zero_cases]] by simp

lemma list_all_unflatten:
  "list_all Q xs \<Longrightarrow> list_all (list_all Q) (unflatten ns xs)"
proof (induction ns arbitrary: xs)
  case Nil
  show ?case by simp
next
  case (Cons n ns)
  have "list_all Q (take n xs)" "list_all Q (drop n xs)"
    using Cons.prems by (auto simp: list_all_iff dest: in_set_takeD in_set_dropD)
  then show ?case using Cons.IH by simp
qed

lemma list_all_map_rng:
  assumes "\<And>x g. Q (fst (f x g))"
  shows "list_all Q (fst (map_rng f xs g))"
proof (induction xs arbitrary: g)
  case Nil
  show ?case by simp
next
  case (Cons x xs)
  have "Q (fst (f x g))" by (rule assms)
  then show ?case using Cons.IH by (simp add: case_prod_beta Let_def)
qed

lemma stbo_eq_10_slot_0:
  "list_all (list_all (bound_or_nan cfg)) (fst (stbo_eq_10_slot cfg 0 xxp rg))"
proof -
  have "list_all (bound_or_nan cfg) (map (\<lambda>(xe, re). stbo_eq_10_elem cfg 0 xe re) zs)" for zs
    by (simp add: list_all_iff case_prod_beta stbo_eq_10_elem_0)
  then show ?thesis
    by (simp add: stbo_eq_10_slot_def case_prod_beta Let_def reshape_like_def list_all_unflatten)
qed

lemma stbo_eq_10_0:
  assumes "gen st = 0"
  shows "list_all (list_all (list_all (bound_or_nan cfg))) (XP (stbo_eq_10 cfg st))"
proof -
  have "list_all (list_all (list_all (bound_or_nan cfg)))
          (fst (map_rng (stbo_eq_10_slot cfg 0) zs rg))" for zs rg
    by (rule list_all_map_rng) (rule stbo_eq_10_slot_0)
  then show ?thesis using assms by (simp add: stbo_eq_10_def case_prod_beta)
qed

lemma stbo_generation_XP:
  assumes "stbo_generation fit cfg st = Inr st'"
  shows "\<exists>st5. gen st5 = gen st \<and> XP st' = XP (stbo_eq_10 cfg st5)"
proof -
  let ?st5 = "update_improved_positions fit cfg (eq_7_and_8 cfg
      (update_improved_positions fit cfg (stbo_eq_5 (update_SI cfg st))))"
  have g: "gen ?st5 = gen st"
    by (simp add: update_improved_positions_def eq_7_and_8_def stbo_eq_5_def update_SI_def
          case_prod_beta Let_def)
  have "XP st' = XP (update_improved_positions fit cfg (stbo_eq_10 cfg ?st5))"
    using assms by (auto simp: stbo_generation_def Let_def split: sum.splits)
  then have "XP st' = XP (stbo_eq_10 cfg ?st5)"
    by (simp add: update_improved_positions_def Let_def)
  then show ?thesis using g by blast
qed

lemma fpow_2: "fpow (Fin p) 2 = Fin (p * p)"
proof -
  have "p powr 2 = p * p" if "0 < p" for p :: real
    using that by (simp add: power2_eq_square)
  moreover have "(- p) powr 2 = p * p" if "p < 0"
    using that by (simp add: power2_eq_square)
  ultimately show ?thesis
    by (simp add: numeral_tf_float is_int_def)
qed

lemma eq_15_square:
  "eq_15_divisor (Fin (p * p)) (Fin p) = Fin 0
   \<and> \<not> is_finite (eq_15_elem f (Fin (p * p)) (Fin p))"
proof -
  have d: "eq_15_divisor (Fin (p * p)) (Fin p) = Fin 0"
    by (simp add: eq_15_divisor_def fpow_2 minus_tf_float_def)
  have "\<not> is_finite (Fin a - (q / Fin 0) * f)" for a q
    using div_zero_cases [of q]
    by (cases f) (auto simp: minus_tf_float_def times_tf_float_def signed_inf_def
          split: if_splits)
  then show ?thesis unfolding eq_15_elem_def d by simp
qed

definition half_rng :: rng where
  "half_rng = const_rng (1 / 2) 0"

lemma avoa_nan_generation:
  "map_sum id (\<lambda>r. P (state_of r))
     (avoa_generation abs_fitness avoa_defaults (avoa_example_init\<lparr>random := half_rng\<rparr>))
   = Inr [[[NaN], [Fin (1 / 4)]]]"
  by (simp add: avoa_steps avoa_eval avoa_example_init_def half_rng_def const_rng_def
        is_int_def power2_eq_square)

lemma avoa_nan_run:
  "map_option (map_sum id (\<lambda>st. (P st, model_weights st)))
     (avoa example_population example_gamma abs_fitness avoa_defaults [[Fin 0]] half_rng)
   = Some (Inr ([[[NaN], [NaN]]], [[NaN]]))"
  by (simp add: avoa_steps avoa_eval half_rng_def const_rng_def is_int_def power2_eq_square)


lemma stbo_eq_10_slot_0_form:
  "stbo_eq_10_slot cfg 0 xxp rg =
     (reshape_like (fst xxp)
        (map (\<lambda>(xe, re).
                clip_by_value (xe + (lb cfg + re * (ub cfg - lb cfg)) / Fin 0) (lb cfg) (ub cfg))
           (zip (concat (fst xxp)) (fst (uniform_tensor (length (concat (fst xxp))) 0 1 rg)))),
      snd (uniform_tensor (length (concat (fst xxp))) 0 1 rg))"
  by (simp add: stbo_eq_10_slot_def stbo_eq_10_elem_def case_prod_beta Let_def)

lemma stbo_generation_practice:
  assumes "stbo_generation fit cfg st = Inr st'"
  shows "XP st' = XP (stbo_eq_10 cfg (update_improved_positions fit cfg (eq_7_and_8 cfg
           (update_improved_positions fit cfg (stbo_eq_5 (update_SI cfg st))))))
       \<and> gen (update_improved_positions fit cfg (eq_7_and_8 cfg
           (update_improved_positions fit cfg (stbo_eq_5 (update_SI cfg st))))) = gen st"
proof -
  let ?st5 = "update_improved_positions fit cfg (eq_7_and_8 cfg
      (update_improved_positions fit cfg (stbo_eq_5 (update_SI cfg st))))"
  have g: "gen ?st5 = gen st"
    by (simp add: update_improved_positions_def eq_7_and_8_def stbo_eq_5_def update_SI_def
          case_prod_beta Let_def)
  have "XP st' = XP (update_improved_positions fit cfg (stbo_eq_10 cfg ?st5))"
    using assms by (auto simp: stbo_generation_def Let_def split: sum.splits)
  then have "XP st' = XP (stbo_eq_10 cfg ?st5)"
    by (simp add: update_improved_positions_def Let_def)
  then show ?thesis using g by simp
qed

lemma stbo_eq_10_elem_0_finite:
  assumes "lb cfg = Fin l" and "ub cfg = Fin u" and "l \<le> u"
  shows "stbo_eq_10_elem cfg 0 (Fin x) (Fin r) =
           (if l + r * (u - l) = 0 then NaN
            else if l + r * (u - l) < 0 then Fin l else Fin u)"
  using assms
  by (simp add: stbo_eq_10_elem_def clip_by_value_def tf_minimum_def tf_maximum_def
        tf_float_arith signed_inf_def)

text \<open>The first pass of \<^verbatim>\<open>stbo\<close> on the example configuration with a random source that
  always returns \<open>5/8\<close>: both members start at \<open>1/4\<close> and stay there, and the practice
  phase proposes the upper bound \<open>1\<close> for both.\<close>

definition practice_rng :: rng where
  "practice_rng = const_rng (5 / 8) 0"

lemma practice_example:
  "(case stbo_init no_population abs_fitness example_config [[Fin 0]] practice_rng of
      Inl e \<Rightarrow> Inl e
    | Inr st0 \<Rightarrow>
        map_sum id (\<lambda>st. (gen st0, X st, XP st))
          (stbo_generation abs_fitness example_config st0))
   = Inr (0, [[[Fin (1 / 4)], [Fin (1 / 4)]]], [[[Fin 1], [Fin 1]]])"
  by (simp add: stbo_init_def stbo_eq_2_def stbo_eq_2_slot_def stbo_generation_unf
        stbo_steps stbo_eval practice_rng_def const_rng_def)

text \<open>
  Claim C4. Every run of \<^verbatim>\<open>stbo\<close> enters its loop with the generation counter at \<open>0\<close>, and
  the practice phase of the first pass divides by it: the proposal of that pass is, element
  by element, \<^verbatim>\<open>clip_by_value(x + (lb + r*(ub-lb))/0, lb, ub)\<close> on the population \<open>x\<close> left by
  the first two phases, with \<open>r\<close> drawn per element. Whatever the members are, every
  proposed element is therefore one of the bounds or NaN; with finite bounds \<open>l \<le> u\<close> it
  is NaN where \<open>l + r * (u - l) = 0\<close>, the lower bound where that is negative and the upper
  bound where it is positive. On the example configuration with every sample \<open>5/8\<close> the
  members are \<open>1/4\<close> and the proposals of the first pass are \<open>1\<close>.

  In \<^verbatim>\<open>avoa\<close> the divisor of Eq. 15 is \<open>0\<close> where the best vulture's element is the square of
  the member's, and the outcome is then not finite. This is reached: with the default
  parameters, a population of \<open>0\<close> and \<open>1/2\<close> and a random source that always returns \<open>1/2\<close>,
  the first generation updates the first member by Eq. 16 to NaN, and the run ends with NaN
  as the model weights.
\<close>

theorem division_hazards:
  "(stbo_init create fit cfg weights g = Inr st0 \<and> stbo_continues cfg st0
      \<and> stbo_generation fit cfg st0 = Inr st1
    \<longrightarrow> gen st0 = 0
        \<and> (let st5 = update_improved_positions fit cfg (eq_7_and_8 cfg
                        (update_improved_positions fit cfg (stbo_eq_5 (update_SI cfg st0))))
           in XP st1 =
                fst (map_rng
                  (\<lambda>xxp rg.
                     (reshape_like (fst xxp)
                        (map (\<lambda>(xe, re).
                                clip_by_value (xe + (lb cfg + re * (ub cfg - lb cfg)) / Fin 0)
                                  (lb cfg) (ub cfg))
                           (zip (concat (fst xxp))
                              (fst (uniform_tensor (length (concat (fst xxp))) 0 1 rg)))),
                      snd (uniform_tensor (length (concat (fst xxp))) 0 1 rg)))
                  (zip (X st5) (XP st5)) (random st5)))
        \<and> list_all (list_all (list_all (bound_or_nan cfg))) (XP st1))
   \<and> (lb cfg = Fin l \<and> ub cfg = Fin u \<and> l \<le> u
    \<longrightarrow> stbo_eq_10_elem cfg 0 (Fin x) (Fin r) =
          (if l + r * (u - l) = 0 then NaN
           else if l + r * (u - l) < 0 then Fin l else Fin u))
   \<and> (case stbo_init no_population abs_fitness example_config [[Fin 0]] practice_rng of
         Inl e \<Rightarrow> Inl e
       | Inr st0 \<Rightarrow>
           map_sum id (\<lambda>st. (gen st0, X st, XP st))
             (stbo_generation abs_fitness example_config st0))
      = Inr (0, [[[Fin (1 / 4)], [Fin (1 / 4)]]], [[[Fin 1], [Fin 1]]])
   \<and> eq_15_divisor (Fin (p * p)) (Fin p) = Fin 0
   \<and> \<not> is_finite (eq_15_elem f (Fin (p * p)) (Fin p))
   \<and> map_sum id (\<lambda>r. P (state_of r))
       (avoa_generation abs_fitness avoa_defaults (avoa_example_init\<lparr>random := half_rng\<rparr>))
     = Inr [[[NaN], [Fin (1 / 4)]]]
   \<and> map_option (map_sum id (\<lambda>st. (P st, model_weights st)))
       (avoa example_population example_gamma abs_fitness avoa_defaults [[Fin 0]] half_rng)
     = Some (Inr ([[[NaN], [NaN]]], [[NaN]]))"
proof (intro conjI impI)
  assume a: "stbo_init create fit cfg weights g = Inr st0 \<and> stbo_continues cfg st0
      \<and> stbo_generation fit cfg st0 = Inr st1"
  let ?st5 = "update_improved_positions fit cfg (eq_7_and_8 cfg
      (update_improved_positions fit cfg (stbo_eq_5 (update_SI cfg st0))))"
  show g0: "gen st0 = 0"
    using a stbo_init_cases [of create fit cfg weights g st0] by auto
  have p: "XP st1 = XP (stbo_eq_10 cfg ?st5)" and g5: "gen ?st5 = 0"
    using a g0 stbo_generation_practice [of fit cfg st0 st1] by simp_all
  have "XP (stbo_eq_10 cfg ?st5)
      = fst (map_rng (stbo_eq_10_slot cfg 0) (zip (X ?st5) (XP ?st5)) (random ?st5))"
    using g5 by (simp add: stbo_eq_10_def case_prod_beta)
  also have "stbo_eq_10_slot cfg 0 =
      (\<lambda>xxp rg.
         (reshape_like (fst xxp)
            (map (\<lambda>(xe, re).
                    clip_by_value (xe + (lb cfg + re * (ub cfg - lb cfg)) / Fin 0)
                      (lb cfg) (ub cfg))
               (zip (concat (fst xxp))
                  (fst (uniform_tensor (length (concat (fst xxp))) 0 1 rg)))),
          snd (uniform_tensor (length (concat (fst xxp))) 0 1 rg)))"
    by (intro ext) (rule stbo_eq_10_slot_0_form)
  finally show "let st5 = ?st5
           in XP st1 =
                fst (map_rng
                  (\<lambda>xxp rg.
                     (reshape_like (fst xxp)
                        (map (\<lambda>(xe, re).
                                clip_by_value (xe + (lb cfg + re * (ub cfg - lb cfg)) / Fin 0)
                                  (lb cfg) (ub cfg))
                           (zip (concat (fst xxp))
                              (fst (uniform_tensor (length (concat (fst xxp))) 0 1 rg)))),
                      snd (uniform_tensor (length (concat (fst xxp))) 0 1 rg)))
                  (zip (X st5) (XP st5)) (random st5))"
    using p by (simp add: Let_def)
  show "list_all (list_all (list_all (bound_or_nan cfg))) (XP st1)"
    using p g5 stbo_eq_10_0 [of ?st5 cfg] by simp
next
  assume "lb cfg = Fin l \<and> ub cfg = Fin u \<and> l \<le> u"
  then show "stbo_eq_10_elem cfg 0 (Fin x) (Fin r) =
          (if l + r * (u - l) = 0 then NaN
           else if l + r * (u - l) < 0 then Fin l else Fin u)"
    using stbo_eq_10_elem_0_finite by blast
next
  show "(case stbo_init no_population abs_fitness example_config [[Fin 0]] practice_rng of
         Inl e \<Rightarrow> Inl e
       | Inr st0 \<Rightarrow>
           map_sum id (\<lambda>st. (gen st0, X st, XP st))
             (stbo_generation abs_fitness example_config st0))
      = Inr (0, [[[Fin (1 / 4)], [Fin (1 / 4)]]], [[[Fin 1], [Fin 1]]])"
    by (rule practice_example)
  show "eq_15_divisor (Fin (p * p)) (Fin p) = Fin 0"
    using eq_15_square by blast
  show "\<not> is_finite (eq_15_elem f (Fin (p * p)) (Fin p))"
    using eq_15_square by blast
  show "map_sum id (\<lambda>r. P (state_of r))
       (avoa_generation abs_fitness avoa_defaults (avoa_example_init\<lparr>random := half_rng\<rparr>))
     = Inr [[[NaN], [Fin (1 / 4)]]]"
    by (rule avoa_nan_generation)
  show "map_option (map_sum id (\<lambda>st. (P st, model_weights st)))
       (avoa example_population example_gamma abs_fitness avoa_defaults [[Fin 0]] half_rng)
     = Some (Inr ([[[NaN], [NaN]]], [[NaN]]))"
    by (rule avoa_nan_run)
qed

theorem division_hazards_witness:
  "gen stbo_example_init = 0
   \<and> list_all (list_all (list_all (bound_or_nan example_config)))
       (XP (projr (stbo_generation abs_fitness example_config stbo_example_init)))
   \<and> stbo_eq_10_elem example_config 0 (Fin 0) (Fin (5 / 8)) = Fin 1
   \<and> eq_15_divisor (Fin (0 * 0)) (Fin 0) = Fin 0"
proof -
  obtain st' where s: "stbo_generation abs_fitness example_config stbo_example_init = Inr st'"
    using stbo_generation_ok [of example_config abs_fitness stbo_example_init]
    by (auto simp: example_config_def N_def)
  have c: "stbo_continues example_config stbo_example_init"
    by (simp add: stbo_continues_def example_config_def stbo_example_init_def T_def
          less_tf_float_def less_eq_tf_float_def)
  have b: "lb example_config = Fin (- 1) \<and> ub example_config = Fin 1 \<and> (- 1 :: real) \<le> 1"
    by (simp add: example_config_def)
  note h = division_hazards
      [of no_population abs_fitness example_config "[[Fin 0]]" varied_rng stbo_example_init
          st' "- 1" 1 0 "5 / 8" 0 0]
  note h1 = h [THEN conjunct1, rule_format, OF conjI [OF stbo_example_init conjI [OF c s]]]
  have 1: "gen stbo_example_init = 0" using h1 by (rule conjunct1)
  have 2: "list_all (list_all (list_all (bound_or_nan example_config))) (XP st')"
    using h1 by (rule conjunct2 [THEN conjunct2])
  have "stbo_eq_10_elem example_config 0 (Fin 0) (Fin (5 / 8)) =
          (if - 1 + 5 / 8 * (1 - (- 1)) = (0 :: real) then NaN
           else if - 1 + 5 / 8 * (1 - (- 1)) < (0 :: real) then Fin (- 1) else Fin 1)"
    using h [THEN conjunct2, THEN conjunct1, rule_format, OF b] .
  then have 3: "stbo_eq_10_elem example_config 0 (Fin 0) (Fin (5 / 8)) = Fin 1"
    by simp
  have 4: "eq_15_divisor (Fin (0 * 0)) (Fin 0) = Fin 0"
    using h [THEN conjunct2, THEN conjunct2, THEN conjunct2, THEN conjunct1] .
  show ?thesis unfolding s using 1 2 3 4 by simp
qed

section \<open>The update of a vulture\<close>

text \<open>The decision procedure and the formulas as the specification states them: the
  equation chosen from \<open>|F|\<close> and a draw \<open>u\<close>, and the new value of an element of the member
  from the element \<open>r\<close> of the reference vulture, the element \<open>p\<close> of the member, and the
  draws.\<close>

datatype equation = Eq6 | Eq8 | Eq10 | Eq13 | Eq16 | Eq17

definition claimed_choice :: "avoa_config \<Rightarrow> tf_float \<Rightarrow> tf_float \<Rightarrow> equation option" where
  "claimed_choice cfg f u =
     (if \<bar>f\<bar> \<ge> 1 then Some (if P1 cfg \<ge> u then Eq6 else Eq8)
      else if Fin 0.5 \<le> \<bar>f\<bar> \<and> \<bar>f\<bar> < 1 then Some (if P2 cfg \<ge> u then Eq10 else Eq13)
      else if \<bar>f\<bar> < Fin 0.5 then Some (if P3 cfg \<ge> u then Eq16 else Eq17)
      else None)"








text \<open>The equations of the source under their tags.\<close>

definition apply_equation :: "avoa_config \<Rightarrow> nat \<Rightarrow> equation \<Rightarrow> avoa_state \<Rightarrow> avoa_state" where
  "apply_equation cfg i e st =
     (case e of
        Eq6 \<Rightarrow> avoa_eq_6 i st
      | Eq8 \<Rightarrow> avoa_eq_8 cfg i st
      | Eq10 \<Rightarrow> avoa_eq_10 i st
      | Eq13 \<Rightarrow> avoa_eq_13 i st
      | Eq16 \<Rightarrow> avoa_eq_16 i st
      | Eq17 \<Rightarrow> avoa_eq_17 cfg i st)"




lemma update_vulture_nan:
  assumes "F (avoa_eq_4 cfg (avoa_eq_1 cfg st0)) = NaN"
  shows "claimed_choice cfg (F (avoa_eq_4 cfg (avoa_eq_1 cfg st0))) u = None
     \<and> (\<exists>e. (e = Eq16 \<or> e = Eq17) \<and> update_vulture cfg i st0
           = apply_equation cfg i e
               ((avoa_eq_4 cfg (avoa_eq_1 cfg st0))
                  \<lparr>random := snd (uniform 0 1 (random (avoa_eq_4 cfg (avoa_eq_1 cfg st0))))\<rparr>))"
  using assms
  by (auto simp: claimed_choice_def update_vulture_def apply_equation_def Let_def
        case_prod_beta abs_tf_float_def less_tf_float_def less_eq_tf_float_def one_tf_float_def)













section \<open>The configuration\<close>























end
